theory Spec2Isabelle
  imports Complex_Main
begin

text \<open>
  A model of the realtime session bridge of the travel planner: the tool catalog, the
  Upstream Fallback Session, the Upstream Live Session, the Client Session Manager, the
  Tool Dispatcher and the itinerary update, each translated from its TypeScript source.
  Callbacks, frames written to sockets and HTTPS requests are recorded in a trace in the
  order they happen; everything outside the bridge (the upstream endpoints, the socket
  library, the clock, the external collaborators) is an environment threaded through the
  calls. One handler runs at a time: the handlers that run while another one is suspended
  at an \<^verbatim>\<open>await\<close> are not interleaved with it.
\<close>

section \<open>Values shared by the bridge components\<close>

text \<open>
  Tool arguments and tool results are opaque structured values (\<^verbatim>\<open>unknown\<close> in the
  TypeScript source). They are modelled as JSON trees; an object is an association list in
  key order. IEEE doubles are idealised as reals.
\<close>

datatype json =
    JNull
  | JBool bool
  | JNum real
  | JStr string
  | JArr "json list"
  | JObj "(string \<times> json) list"

text \<open>
  A thrown JavaScript value: either an \<^verbatim>\<open>Error\<close> instance with its message, or anything
  else. Fallible operations return \<open>thrown + 'a\<close>, \<open>Inl\<close> being the throw.
\<close>

datatype thrown = Error string | NonError

text \<open>\<^verbatim>\<open>error instanceof Error ? error.message : 'Unknown error'\<close>\<close>

definition errorMessage :: "thrown \<Rightarrow> string" where
  "errorMessage e = (case e of Error m \<Rightarrow> m | NonError \<Rightarrow> ''Unknown error'')"

text \<open>\<^verbatim>\<open>error instanceof Error ? error : new Error('Unknown error')\<close>\<close>

definition asError :: "thrown \<Rightarrow> thrown" where
  "asError e = (case e of Error m \<Rightarrow> Error m | NonError \<Rightarrow> Error ''Unknown error'')"

text \<open>
  The \<^verbatim>\<open>TypeError\<close> of reading a property of \<^verbatim>\<open>null\<close> or \<^verbatim>\<open>undefined\<close>, and
  the one of iterating over a value that is not iterable. Both are \<^verbatim>\<open>Error\<close>
  instances; the message texts are the JavaScript engine's (the property name is in
  single quotes, \<open>CHR 0x27\<close>).
\<close>

definition typeError :: "string \<Rightarrow> string \<Rightarrow> thrown" where
  "typeError what property =
     Error (''Cannot read properties of '' @ what @ '' (reading '' @ [CHR 0x27] @ property
            @ [CHR 0x27] @ '')'')"

definition notIterable :: "string \<Rightarrow> thrown" where
  "notIterable what = Error (what @ '' is not iterable'')"

section \<open>Tool catalog (toolDefinitions.ts)\<close>

text \<open>
  One property of a tool's parameter schema: \<^verbatim>\<open>{type, description, enum?, items?}\<close>.
  \<open>p_items\<close> is the \<^verbatim>\<open>type\<close> of the \<^verbatim>\<open>items\<close> object.
\<close>

record prop_schema =
  p_type :: "string option"
  p_description :: "string option"
  p_enum :: "string list option"
  p_items :: "string option"

record tool_definition =
  td_name :: string
  td_description :: string
  td_param_type :: string
  td_properties :: "(string \<times> prop_schema) list"
  td_required :: "string list option"

definition mk_prop :: "string \<Rightarrow> string \<Rightarrow> prop_schema" where
  "mk_prop t d = \<lparr>p_type = Some t, p_description = Some d, p_enum = None, p_items = None\<rparr>"

definition mk_prop_enum :: "string \<Rightarrow> string list \<Rightarrow> string \<Rightarrow> prop_schema" where
  "mk_prop_enum t e d = \<lparr>p_type = Some t, p_description = Some d, p_enum = Some e, p_items = None\<rparr>"

definition mk_prop_items :: "string \<Rightarrow> string \<Rightarrow> string \<Rightarrow> prop_schema" where
  "mk_prop_items t i d = \<lparr>p_type = Some t, p_description = Some d, p_enum = None, p_items = Some i\<rparr>"

definition tool_poi_search :: tool_definition where
  \<open>tool_poi_search = \<lparr>
     td_name = ''poi_search'',
     td_description = ''Search for points of interest at a destination. Use this to find restaurants, attractions, temples, markets, and other places based on category and user interests.'',
     td_param_type = ''object'',
     td_properties = [
       (''destination'', mk_prop ''string'' ''The city/destination to search in (e.g., "Jaipur, India", "Paris, France")''),
       (''category'', mk_prop_enum ''string''
          [''restaurant'', ''attraction'', ''temple'', ''market'', ''museum'', ''park'', ''hotel'']
          ''The category of POI to search for''),
       (''interests'', mk_prop_items ''array'' ''string''
          ''User interests to filter results (e.g., ["vegetarian", "historical", "photography"])''),
       (''limit'', mk_prop ''number'' ''Maximum number of results to return (default: 5)'')],
     td_required = Some [''destination'', ''category'']\<rparr>\<close>

definition tool_update_itinerary :: tool_definition where
  \<open>tool_update_itinerary = \<lparr>
     td_name = ''update_itinerary'',
     td_description = ''Update the travel itinerary. Use this to add, modify, or remove activities from specific days. Always call this when the user asks to change their trip plan.'',
     td_param_type = ''object'',
     td_properties = [
       (''action'', mk_prop_enum ''string''
          [''set'', ''add_activity'', ''remove_activity'', ''update_activity'', ''clear_day'']
          ''The type of update to perform''),
       (''day_number'', mk_prop ''integer'' ''The day number to update (1-indexed)''),
       (''time_slot'', mk_prop_enum ''string'' [''Morning'', ''Afternoon'', ''Evening'']
          ''Time slot for the activity''),
       (''poi_name'', mk_prop ''string'' ''Name of the place/activity''),
       (''duration_minutes'', mk_prop ''integer'' ''Expected duration in minutes''),
       (''notes'', mk_prop ''string'' ''Additional notes or tips''),
       (''destination'', mk_prop ''string'' ''Destination city (for set action)''),
       (''name'', mk_prop ''string'' ''A creative, memorable name for the trip itinerary (e.g., "Pink City Adventure", "Roman Holiday", "Tokyo Food Trail"). Generate this based on the destination and trip theme.''),
       (''itinerary_json'', mk_prop ''string'' ''JSON string of full itinerary when action is "set"'')],
     td_required = Some [''action'']\<rparr>\<close>

definition tool_get_city_info :: tool_definition where
  \<open>tool_get_city_info = \<lparr>
     td_name = ''get_city_info'',
     td_description = ''Get general information about a destination including travel tips, safety info, best times to visit, local customs, and etiquette. Use this for background context.'',
     td_param_type = ''object'',
     td_properties = [
       (''destination'', mk_prop ''string'' ''The city/destination to get information about (e.g., "Jaipur", "Paris")''),
       (''topic'', mk_prop_enum ''string''
          [''overview'', ''safety'', ''weather'', ''customs'', ''transport'', ''food'', ''shopping'', ''history'']
          ''The topic to get information about'')],
     td_required = Some [''destination'', ''topic'']\<rparr>\<close>

definition tool_get_weather :: tool_definition where
  \<open>tool_get_weather = \<lparr>
     td_name = ''get_weather'',
     td_description = ''Get weather forecast for a destination for trip planning. Returns temperature, conditions, and recommendations.'',
     td_param_type = ''object'',
     td_properties = [
       (''destination'', mk_prop ''string'' ''The city/destination to get weather for (e.g., "Jaipur, India", "Paris, France")''),
       (''date'', mk_prop ''string'' ''Date in YYYY-MM-DD format (within next 7 days)'')],
     td_required = Some [''destination'', ''date'']\<rparr>\<close>

definition tool_calculate_travel_time :: tool_definition where
  \<open>tool_calculate_travel_time = \<lparr>
     td_name = ''calculate_travel_time'',
     td_description = ''Calculate estimated travel time between two locations at a destination.'',
     td_param_type = ''object'',
     td_properties = [
       (''destination'', mk_prop ''string'' ''The city/destination where the locations are (e.g., "Jaipur", "Paris")''),
       (''from_poi'', mk_prop ''string'' ''Starting location name''),
       (''to_poi'', mk_prop ''string'' ''Destination location name''),
       (''mode'', mk_prop_enum ''string'' [''auto'', ''taxi'', ''walking'']
          ''Mode of transport (default: taxi)'')],
     td_required = Some [''destination'', ''from_poi'', ''to_poi'']\<rparr>\<close>

definition tool_search_destination_info :: tool_definition where
  \<open>tool_search_destination_info = \<lparr>
     td_name = ''search_destination_info'',
     td_description = ''Search the web for detailed information about a destination. Use this to get up-to-date travel information, top attractions, local tips, and cultural insights for any destination worldwide. Always use this before planning a trip to a new destination.'',
     td_param_type = ''object'',
     td_properties = [
       (''destination'', mk_prop ''string'' ''The city or destination to search for (e.g., "Tokyo, Japan", "Barcelona, Spain")''),
       (''query_type'', mk_prop_enum ''string''
          [''overview'', ''attractions'', ''food'', ''culture'', ''tips'', ''neighborhoods'']
          ''Type of information to search for'')],
     td_required = Some [''destination'', ''query_type'']\<rparr>\<close>

definition toolDefinitions :: "tool_definition list" where
  "toolDefinitions =
     [tool_poi_search, tool_update_itinerary, tool_get_city_info, tool_get_weather,
      tool_calculate_travel_time, tool_search_destination_info]"

text \<open>
  \<^verbatim>\<open>String.prototype.toUpperCase\<close> on the ASCII letters, which is all the declared
  \<^verbatim>\<open>type\<close> values consist of; every other character is left alone.
\<close>

definition upper_char :: "char \<Rightarrow> char" where
  "upper_char c =
     (case map_of (zip ''abcdefghijklmnopqrstuvwxyz'' ''ABCDEFGHIJKLMNOPQRSTUVWXYZ'') c of
        Some u \<Rightarrow> u
      | None \<Rightarrow> c)"

definition convertType :: "string \<Rightarrow> string" where
  "convertType t = map upper_char t"

text \<open>JavaScript truthiness of an optional string: present and non-empty.\<close>

definition truthy_str :: "string option \<Rightarrow> bool" where
  "truthy_str s = (case s of None \<Rightarrow> False | Some t \<Rightarrow> t \<noteq> [])"

text \<open>The body of the loop of \<^verbatim>\<open>convertProperties\<close>, for one property.\<close>

definition convertProperty :: "prop_schema \<Rightarrow> prop_schema" where
  "convertProperty p =
     \<lparr>p_type = (if truthy_str (p_type p) then map_option convertType (p_type p) else None),
      p_description = (if truthy_str (p_description p) then p_description p else None),
      p_enum = p_enum p,
      p_items = map_option convertType (p_items p)\<rparr>"

definition convertProperties :: "(string \<times> prop_schema) list \<Rightarrow> (string \<times> prop_schema) list" where
  "convertProperties props = map (\<lambda>(key, v). (key, convertProperty v)) props"

definition convertToGeminiFormat :: "tool_definition \<Rightarrow> tool_definition" where
  "convertToGeminiFormat tool =
     \<lparr>td_name = td_name tool,
      td_description = td_description tool,
      td_param_type = convertType (td_param_type tool),
      td_properties = convertProperties (td_properties tool),
      td_required = td_required tool\<rparr>"

text \<open>\<^verbatim>\<open>getToolsForGemini().functionDeclarations\<close>\<close>

definition getToolsForGemini :: "tool_definition list" where
  "getToolsForGemini = map convertToGeminiFormat toolDefinitions"

section \<open>Observable effects and the environment\<close>

text \<open>A turn of the fallback history: \<^verbatim>\<open>{role, parts: [{text}]}\<close>.\<close>

record turn =
  role :: string
  turn_text :: string

text \<open>A function call requested by the model in a fallback response part.\<close>

record function_call =
  fc_name :: string
  fc_args :: json

text \<open>\<^verbatim>\<open>ContentPart\<close>: optional text, optional function call.\<close>

record content_part =
  part_text :: "string option"
  part_functionCall :: "function_call option"

text \<open>
  A candidate of a decoded response, as far as the session reads it: \<open>None\<close> is a
  candidate without \<^verbatim>\<open>content\<close> (a blocked or empty answer), \<open>Some None\<close> one whose
  content has no \<^verbatim>\<open>parts\<close>, \<open>Some (Some parts)\<close> one with the list
  \<^verbatim>\<open>content.parts\<close>. The declared type \<^verbatim>\<open>GenerateContentResponse\<close> promises the
  last form, but the value is whatever \<^verbatim>\<open>response.json()\<close> decoded.
\<close>

type_synonym candidate = "content_part list option option"

text \<open>
  \<^verbatim>\<open>GenerateContentResponse\<close>: \<open>resp_error\<close> is \<^verbatim>\<open>error.message\<close> when the
  \<^verbatim>\<open>error\<close> object is present.
\<close>

record response =
  resp_error :: "string option"
  resp_candidates :: "candidate list option"

text \<open>The body of one fallback HTTPS request.\<close>

record request =
  req_contents :: "turn list"
  req_systemInstruction :: string
  req_tools :: "tool_definition list"

text \<open>The argument of the tool-call callback; \<open>tc_result = None\<close> is \<^verbatim>\<open>result: null\<close>.\<close>

record toolcall =
  tc_id :: string
  tc_name :: string
  tc_args :: json
  tc_result :: "json option"

text \<open>A function call of a live \<^verbatim>\<open>toolCall\<close> frame.\<close>

record live_call =
  lc_id :: string
  lc_name :: string
  lc_args :: json

text \<open>Frames the Live Session writes to the upstream socket.\<close>

datatype frame =
    Setup string string "tool_definition list"
  | ClientContent "string option" bool
  | RealtimeInput string string
  | ToolResponse string string json

text \<open>Frames the Live Session reads from the upstream socket.\<close>

record inline_data =
  mimeType :: string
  inline_payload :: string

record live_part =
  lp_text :: "string option"
  lp_inlineData :: "inline_data option"

text \<open>\<open>modelTurn = Some None\<close> is a model turn without \<^verbatim>\<open>parts\<close>.\<close>

record server_content =
  modelTurn :: "live_part list option option"
  turnComplete :: bool

text \<open>\<open>toolCall = Some None\<close> is a tool-call frame without \<^verbatim>\<open>functionCalls\<close>.\<close>

record live_message =
  setupComplete :: bool
  serverContent :: "server_content option"
  toolCall :: "live_call list option option"

text \<open>
  Everything a session does that is visible outside it, in the order it happens: frames
  and requests sent upstream, tool dispatches, and the callbacks handed to the session's
  owner.
\<close>

text \<open>
  Bridge-to-client wire messages: status and message; transcript text, partial flag and
  role; audio payload; full itinerary; tool name and arguments; source tool and time stamp;
  error message and details.
\<close>

datatype server_message =
    Status string string
  | Transcript string bool string
  | Audio string
  | ItineraryMsg json
  | ToolCallMsg string json
  | Sources string string
  | ErrorMsg "string option" "string option"

datatype event =
    Upstream frame
  | CloseTransport
  | ApiRequest request
  | Dispatch string json
  | OnSetupComplete
  | OnTextResponse string bool
  | OnText string
  | OnAudioResponse string
  | OnToolCall toolcall
  | OnError thrown
  | OnClose
  | ToClient server_message

text \<open>
  The environment is a state \<open>'w\<close> threaded through every call that leaves the bridge.
  \<open>api\<close> is \<^verbatim>\<open>fetch\<close> followed by \<^verbatim>\<open>response.json()\<close> (a network failure, a
  non-OK status and an undecodable body all throw; so does, for both callers, a body that
  decodes to \<^verbatim>\<open>null\<close>, of which the first property read throws); \<open>dispatch\<close> is the Tool Dispatcher:
  it returns or throws, and it is handed the arguments object itself, so it also yields
  that object as the call leaves it;
  \<open>stringify\<close> is \<^verbatim>\<open>JSON.stringify\<close>; \<open>dateNow\<close> is \<^verbatim>\<open>Date.now()\<close> in decimal;
  \<open>isoNow\<close> is \<^verbatim>\<open>new Date().toISOString()\<close>; \<open>getSystemInstruction\<close> reads the
  instruction file (it never throws); \<open>transport\<close> gives the socket events that reach
  the handlers of one \<^verbatim>\<open>connect()\<close> before its promise is awaited: \<^verbatim>\<open>open\<close>,
  \<^verbatim>\<open>message\<close> (\<open>None\<close> when the frame does not parse), \<^verbatim>\<open>error\<close> and
  \<^verbatim>\<open>close\<close> with code and reason.
\<close>

datatype ws_event =
    WsOpen
  | WsMessage "live_message option"
  | WsError thrown
  | WsClose string string

record 'w env =
  api :: "'w \<Rightarrow> request \<Rightarrow> (thrown + response) \<times> 'w"
  dispatch :: "'w \<Rightarrow> string \<Rightarrow> json \<Rightarrow> (thrown + json) \<times> json \<times> 'w"
  stringify :: "json \<Rightarrow> string"
  dateNow :: "'w \<Rightarrow> string"
  isoNow :: "'w \<Rightarrow> string"
  getSystemInstruction :: "'w \<Rightarrow> string"
  transport :: "'w \<Rightarrow> ws_event list \<times> 'w"

record 'w io =
  world :: 'w
  trace :: "event list"

definition emit :: "event \<Rightarrow> 'w io \<Rightarrow> 'w io" where
  "emit e io = io\<lparr>trace := trace io @ [e]\<rparr>"

text \<open>
  \<^verbatim>\<open>await executeToolCall(name, args)\<close>, recorded in the trace with the arguments as
  they are passed. The second component is the arguments object after the call.
\<close>

definition callTool ::
  "'w env \<Rightarrow> string \<Rightarrow> json \<Rightarrow> 'w io \<Rightarrow> (thrown + json) \<times> json \<times> 'w io" where
  "callTool env name args io =
     (let (r, left, w) = dispatch env (world io) name args
      in (r, left, emit (Dispatch name args) (io\<lparr>world := w\<rparr>)))"

section \<open>Upstream Fallback Session (geminiTextClient.ts)\<close>

record text_client =
  systemInstruction :: string
  conversationHistory :: "turn list"

definition newTextClient :: "string \<Rightarrow> text_client" where
  "newTextClient si = \<lparr>systemInstruction = si, conversationHistory = []\<rparr>"

definition pushTurn :: "string \<Rightarrow> string \<Rightarrow> text_client \<Rightarrow> text_client" where
  "pushTurn r t c = c\<lparr>conversationHistory := conversationHistory c @ [\<lparr>role = r, turn_text = t\<rparr>]\<rparr>"

definition callGeminiAPI :: "'w env \<Rightarrow> text_client \<Rightarrow> 'w io \<Rightarrow> (thrown + response) \<times> 'w io" where
  "callGeminiAPI env c io =
     (let requestBody = \<lparr>req_contents = conversationHistory c,
                         req_systemInstruction = systemInstruction c,
                         req_tools = getToolsForGemini\<rparr>;
          (r, w) = api env (world io) requestBody
      in (r, emit (ApiRequest requestBody) (io\<lparr>world := w\<rparr>)))"

text \<open>
  \<^verbatim>\<open>if (part.text) { history.push({role: 'model', ...}); onTextResponse(part.text) }\<close>,
  the statement both part loops start with.
\<close>

definition modelText :: "content_part \<Rightarrow> text_client \<times> 'w io \<Rightarrow> text_client \<times> 'w io" where
  "modelText part s =
     (case part_text part of
        None \<Rightarrow> s
      | Some t \<Rightarrow> if t = [] then s else (pushTurn ''model'' t (fst s), emit (OnText t) (snd s)))"

text \<open>The loop over the parts of the follow-up response in \<^verbatim>\<open>sendToolResponse\<close>.\<close>

fun followUpParts :: "content_part list \<Rightarrow> text_client \<times> 'w io \<Rightarrow> text_client \<times> 'w io" where
  "followUpParts [] s = s"
| "followUpParts (part # parts) s = followUpParts parts (modelText part s)"

text \<open>\<^verbatim>\<open>response.candidates && response.candidates[0]\<close>: the first candidate, if any.\<close>

definition firstCandidate :: "response \<Rightarrow> candidate option" where
  "firstCandidate r =
     (case resp_candidates r of
        None \<Rightarrow> None
      | Some [] \<Rightarrow> None
      | Some (cand # _) \<Rightarrow> Some cand)"

text \<open>
  \<^verbatim>\<open>const parts = response.candidates[0].content.parts\<close> and the start of
  \<^verbatim>\<open>for (const part of parts)\<close>: reading \<^verbatim>\<open>parts\<close> of a missing content throws,
  and so does iterating over missing parts.
\<close>

definition partsOf :: "candidate \<Rightarrow> thrown + content_part list" where
  "partsOf cand =
     (case cand of
        None \<Rightarrow> Inl (typeError ''undefined'' ''parts'')
      | Some None \<Rightarrow> Inl (notIterable ''parts'')
      | Some (Some parts) \<Rightarrow> Inr parts)"

text \<open>
  \<^verbatim>\<open>sendToolResponse(functionName, result)\<close>: whatever is thrown after the function
  turn has been pushed (by the follow-up request, or by reading the parts of its response)
  is caught and only logged.
\<close>

definition functionTurnText :: "'w env \<Rightarrow> string \<Rightarrow> json \<Rightarrow> string" where
  "functionTurnText env functionName result =
     stringify env (JObj [(''name'', JStr functionName), (''response'', result)])"

definition sendToolResponse ::
  "'w env \<Rightarrow> string \<Rightarrow> json \<Rightarrow> text_client \<times> 'w io \<Rightarrow> text_client \<times> 'w io" where
  "sendToolResponse env functionName result s =
     (let c = pushTurn ''function'' (functionTurnText env functionName result) (fst s);
          (r, io) = callGeminiAPI env c (snd s)
      in case r of
           Inl error \<Rightarrow> (c, io)
         | Inr resp \<Rightarrow>
             (case firstCandidate resp of
                None \<Rightarrow> (c, io)
              | Some cand \<Rightarrow>
                  (case partsOf cand of
                     Inl error \<Rightarrow> (c, io)
                   | Inr parts \<Rightarrow> followUpParts parts (c, io))))"

text \<open>
  The function-call half of the body of the part loop of \<^verbatim>\<open>sendText\<close>. The object
  \<^verbatim>\<open>toolCall\<close> holds a reference to the arguments, and the callback is made after the
  dispatcher has run; so the callback carries the arguments as the dispatcher left them.
\<close>

definition runFunctionCall ::
  "'w env \<Rightarrow> function_call \<Rightarrow> text_client \<times> 'w io \<Rightarrow> text_client \<times> 'w io" where
  "runFunctionCall env fc s =
     (let toolCall = \<lparr>tc_id = ''call_'' @ dateNow env (world (snd s)),
                      tc_name = fc_name fc, tc_args = fc_args fc, tc_result = None\<rparr>;
          (r, left, io) = callTool env (tc_name toolCall) (tc_args toolCall) (snd s)
      in case r of
           Inr result \<Rightarrow>
             sendToolResponse env (tc_name toolCall) result
               (fst s, emit (OnToolCall (toolCall\<lparr>tc_args := left, tc_result := Some result\<rparr>)) io)
         | Inl toolError \<Rightarrow>
             sendToolResponse env (tc_name toolCall)
               (JObj [(''error'', JStr (errorMessage toolError))])
               (fst s, emit (OnToolCall (toolCall\<lparr>tc_args := left, tc_result := None\<rparr>)) io))"

fun sendTextParts ::
  "'w env \<Rightarrow> content_part list \<Rightarrow> text_client \<times> 'w io \<Rightarrow> text_client \<times> 'w io" where
  "sendTextParts env [] s = s"
| "sendTextParts env (part # parts) s =
     sendTextParts env parts
       (case part_functionCall part of
          None \<Rightarrow> modelText part s
        | Some fc \<Rightarrow> runFunctionCall env fc (modelText part s))"

text \<open>
  The \<^verbatim>\<open>try\<close> block of \<^verbatim>\<open>sendText\<close>, with what it throws, if anything: the first
  request throws, the response carries an \<^verbatim>\<open>error\<close> object, or the parts of its first
  candidate cannot be read. Once the part loop runs, nothing is thrown out of it: a throw
  of the dispatcher is caught by the inner \<^verbatim>\<open>try\<close>, and \<^verbatim>\<open>sendToolResponse\<close>
  catches its own.
\<close>

definition sendTextTry ::
  "'w env \<Rightarrow> text_client \<times> 'w io \<Rightarrow> thrown option \<times> text_client \<times> 'w io" where
  "sendTextTry env s =
     (let (r, io) = callGeminiAPI env (fst s) (snd s)
      in case r of
           Inl error \<Rightarrow> (Some error, fst s, io)
         | Inr resp \<Rightarrow>
             (case resp_error resp of
                Some message \<Rightarrow> (Some (Error message), fst s, io)
              | None \<Rightarrow>
                  (case firstCandidate resp of
                     None \<Rightarrow> (None, fst s, io)
                   | Some cand \<Rightarrow>
                       (case partsOf cand of
                          Inl error \<Rightarrow> (Some error, fst s, io)
                        | Inr parts \<Rightarrow> (None, sendTextParts env parts (fst s, io))))))"

text \<open>
  \<^verbatim>\<open>sendText(userText)\<close>: the user turn is pushed, the \<^verbatim>\<open>try\<close> block runs, and
  the outer \<^verbatim>\<open>catch\<close> reports what it threw through \<^verbatim>\<open>onError\<close>.
\<close>

definition sendText :: "'w env \<Rightarrow> string \<Rightarrow> text_client \<times> 'w io \<Rightarrow> text_client \<times> 'w io" where
  "sendText env userText s =
     (let c = pushTurn ''user'' userText (fst s);
          (thrown, c1, io) = sendTextTry env (c, snd s)
      in case thrown of
           None \<Rightarrow> (c1, io)
         | Some error \<Rightarrow> (c1, emit (OnError (asError error)) io))"

text \<open>\<^verbatim>\<open>reset()\<close>\<close>

definition reset :: "text_client \<Rightarrow> text_client" where
  "reset c = c\<lparr>conversationHistory := []\<rparr>"

section \<open>Upstream Live Session (geminiClient.ts)\<close>

text \<open>\<^verbatim>\<open>WebSocket.readyState\<close>\<close>

datatype ready_state = CONNECTING | OPEN | CLOSING | CLOSED

text \<open>
  \<open>ws = None\<close> is \<^verbatim>\<open>this.ws === null\<close>; otherwise the socket with its ready state.
  The field \<^verbatim>\<open>pendingToolCalls\<close> is never read or written by the class and is left out.
\<close>

record live_client =
  lv_systemInstruction :: string
  ws :: "ready_state option"
  isConnected :: bool
  isDisconnecting :: bool

definition newGeminiClient :: "string \<Rightarrow> live_client" where
  "newGeminiClient si =
     \<lparr>lv_systemInstruction = si, ws = None, isConnected = False, isDisconnecting = False\<rparr>"

text \<open>\<^verbatim>\<open>config.gemini.model\<close>\<close>

definition gemini_model :: string where
  "gemini_model = ''models/gemini-2.5-flash-latest''"

text \<open>\<^verbatim>\<open>send(message)\<close>: written to the socket only when it is open.\<close>

definition send :: "frame \<Rightarrow> live_client \<Rightarrow> 'w io \<Rightarrow> 'w io" where
  "send message c io =
     (case ws c of
        Some OPEN \<Rightarrow> emit (Upstream message) io
      | _ \<Rightarrow> io)"

definition sendSetupMessage :: "live_client \<Rightarrow> 'w io \<Rightarrow> 'w io" where
  "sendSetupMessage c io =
     (let tools = getToolsForGemini
      in send (Setup gemini_model (lv_systemInstruction c) tools) c io)"

definition sendToolResponse_live ::
  "string \<Rightarrow> string \<Rightarrow> json \<Rightarrow> live_client \<Rightarrow> 'w io \<Rightarrow> 'w io" where
  "sendToolResponse_live ident name resp c io =
     (if ws c = None then io else send (ToolResponse ident name resp) c io)"

definition sendAudio :: "string \<Rightarrow> live_client \<Rightarrow> 'w io \<Rightarrow> 'w io" where
  "sendAudio audioData c io =
     (if \<not> isConnected c \<or> ws c = None then io
      else send (RealtimeInput ''audio/pcm;rate=16000'' audioData) c io)"

definition sendText_live :: "string \<Rightarrow> live_client \<Rightarrow> 'w io \<Rightarrow> 'w io" where
  "sendText_live t c io =
     (if \<not> isConnected c \<or> ws c = None then io
      else send (ClientContent (Some t) True) c io)"

definition sendInterrupt :: "live_client \<Rightarrow> 'w io \<Rightarrow> 'w io" where
  "sendInterrupt c io =
     (if \<not> isConnected c \<or> ws c = None then io
      else send (ClientContent None True) c io)"

text \<open>The body of the loop over \<^verbatim>\<open>turn.parts\<close>.\<close>

definition livePart :: "bool \<Rightarrow> live_part \<Rightarrow> 'w io \<Rightarrow> 'w io" where
  "livePart final part io =
     (let io1 = (if truthy_str (lp_text part)
                 then emit (OnTextResponse (the (lp_text part)) (\<not> final)) io else io)
      in case lp_inlineData part of
           None \<Rightarrow> io1
         | Some inlineData \<Rightarrow>
             if take 6 (mimeType inlineData) = ''audio/''
             then emit (OnAudioResponse (inline_payload inlineData)) io1 else io1)"

fun liveParts :: "bool \<Rightarrow> live_part list \<Rightarrow> 'w io \<Rightarrow> 'w io" where
  "liveParts final [] io = io"
| "liveParts final (part # parts) io = liveParts final parts (livePart final part io)"

definition handleServerContent :: "server_content \<Rightarrow> 'w io \<Rightarrow> 'w io" where
  "handleServerContent content io =
     (case modelTurn content of
        Some (Some parts) \<Rightarrow> liveParts (turnComplete content) parts io
      | _ \<Rightarrow> io)"

text \<open>
  The body of the loop over \<^verbatim>\<open>toolCall.functionCalls\<close>: dispatch, reply upstream, then
  notify; the \<^verbatim>\<open>catch\<close> branch replies with an error object and notifies with a null
  result. The callback object \<^verbatim>\<open>{...fc, result}\<close> holds a reference to
  \<^verbatim>\<open>fc.args\<close>, the object the dispatcher was handed; so the callback carries the
  arguments as the dispatcher left them. \<open>c\<close> is the session as it is when the
  dispatcher has returned: while the handler waited for it, the socket may have closed or
  \<^verbatim>\<open>disconnect()\<close> may have run.
\<close>

definition handleFunctionCall :: "'w env \<Rightarrow> live_client \<Rightarrow> live_call \<Rightarrow> 'w io \<Rightarrow> 'w io" where
  "handleFunctionCall env c fc io =
     (let (r, left, io1) = callTool env (lc_name fc) (lc_args fc) io
      in case r of
           Inr result \<Rightarrow>
             emit (OnToolCall \<lparr>tc_id = lc_id fc, tc_name = lc_name fc, tc_args = left,
                               tc_result = Some result\<rparr>)
               (sendToolResponse_live (lc_id fc) (lc_name fc) result c io1)
         | Inl error \<Rightarrow>
             emit (OnToolCall \<lparr>tc_id = lc_id fc, tc_name = lc_name fc, tc_args = left,
                               tc_result = None\<rparr>)
               (sendToolResponse_live (lc_id fc) (lc_name fc)
                  (JObj [(''error'', JStr (errorMessage error))]) c io1))"

fun handleFunctionCalls :: "'w env \<Rightarrow> live_client \<Rightarrow> live_call list \<Rightarrow> 'w io \<Rightarrow> 'w io" where
  "handleFunctionCalls env c [] io = io"
| "handleFunctionCalls env c (fc # fcs) io =
     handleFunctionCalls env c fcs (handleFunctionCall env c fc io)"

definition handleGeminiMessage :: "'w env \<Rightarrow> live_client \<Rightarrow> live_message \<Rightarrow> 'w io \<Rightarrow> 'w io" where
  "handleGeminiMessage env c msg io =
     (if setupComplete msg then io
      else
        let io1 = (case serverContent msg of
                     None \<Rightarrow> io
                   | Some content \<Rightarrow> handleServerContent content io)
        in case toolCall msg of
             Some (Some functionCalls) \<Rightarrow> handleFunctionCalls env c functionCalls io1
           | _ \<Rightarrow> io1)"

text \<open>
  \<^verbatim>\<open>disconnect()\<close>: the listeners are removed and an open socket is closed, a
  connecting one terminated; from then on the client holds no socket.
\<close>

definition disconnect :: "live_client \<Rightarrow> 'w io \<Rightarrow> live_client \<times> 'w io" where
  "disconnect c io =
     (c\<lparr>isDisconnecting := True, ws := None, isConnected := False\<rparr>,
      case ws c of
        Some OPEN \<Rightarrow> emit CloseTransport io
      | Some CONNECTING \<Rightarrow> emit CloseTransport io
      | _ \<Rightarrow> io)"

text \<open>
  The promise of \<^verbatim>\<open>connect()\<close>: \<open>None\<close> while pending, then the first settlement
  (\<open>Inr ()\<close> resolved, \<open>Inl e\<close> rejected); later calls of \<^verbatim>\<open>resolve\<close> and
  \<^verbatim>\<open>reject\<close> do nothing.
\<close>

type_synonym promise = "(thrown + unit) option"

definition settle :: "thrown + unit \<Rightarrow> promise \<Rightarrow> promise" where
  "settle r p = (case p of None \<Rightarrow> Some r | Some x \<Rightarrow> Some x)"

text \<open>
  The four socket handlers installed by \<^verbatim>\<open>connect()\<close>. The ready state changes as the
  socket library changes it before emitting the event. A client without a socket has had
  its listeners removed.
\<close>

definition onWsEvent ::
  "'w env \<Rightarrow> ws_event \<Rightarrow> promise \<times> live_client \<times> 'w io \<Rightarrow> promise \<times> live_client \<times> 'w io" where
  "onWsEvent env ev s =
     (case s of (p, c, io) \<Rightarrow>
        if ws c = None then s
        else case ev of
          WsOpen \<Rightarrow>
            (let c1 = c\<lparr>ws := Some OPEN\<rparr> in (p, c1, sendSetupMessage c1 io))
        | WsMessage None \<Rightarrow> s
        | WsMessage (Some message) \<Rightarrow>
            (let io1 = handleGeminiMessage env c message io
             in if setupComplete message
                then (settle (Inr ()) p, c\<lparr>isConnected := True\<rparr>, emit OnSetupComplete io1)
                else (p, c, io1))
        | WsError error \<Rightarrow>
            (let c1 = c\<lparr>ws := Some CLOSING\<rparr>
             in if \<not> isDisconnecting c
                then (settle (Inl error) p, c1, emit (OnError error) io)
                else (p, c1, io))
        | WsClose code reason \<Rightarrow>
            (let c1 = c\<lparr>ws := Some CLOSED, isConnected := False\<rparr>
             in if \<not> isDisconnecting c
                then ((if \<not> isConnected c
                       then settle (Inl (Error (''WebSocket closed before setup complete: ''
                                                 @ code @ '' - '' @ reason))) p
                       else p),
                      c1, emit OnClose io)
                else (p, c1, io)))"

fun onWsEvents ::
  "'w env \<Rightarrow> ws_event list \<Rightarrow> promise \<times> live_client \<times> 'w io \<Rightarrow> promise \<times> live_client \<times> 'w io" where
  "onWsEvents env [] s = s"
| "onWsEvents env (ev # evs) s = onWsEvents env evs (onWsEvent env ev s)"

text \<open>
  \<^verbatim>\<open>connect()\<close>, awaited: the socket is created, the events of this attempt reach the
  handlers, and a promise still pending after them is rejected by the 30 second timer
  (the client cannot be connected then, since only a setup-complete frame connects it and
  that frame resolves the promise).
\<close>

definition connect :: "'w env \<Rightarrow> live_client \<Rightarrow> 'w io \<Rightarrow> (thrown + unit) \<times> live_client \<times> 'w io" where
  "connect env c io =
     (let (evs, w) = transport env (world io);
          (p, c1, io1) = onWsEvents env evs (None, c\<lparr>ws := Some CONNECTING\<rparr>, io\<lparr>world := w\<rparr>)
      in case p of
           Some r \<Rightarrow> (r, c1, io1)
         | None \<Rightarrow> (Inl (Error ''Connection timeout''), c1, io1))"

section \<open>Client Session Manager (clientHandler.ts)\<close>

datatype control_action = Start | Stop | Reset | Interrupt

text \<open>
  A client message after \<^verbatim>\<open>JSON.parse\<close>: \<open>Malformed\<close> when parsing throws,
  \<open>OtherType\<close> for an unknown \<^verbatim>\<open>type\<close>, \<open>Control None\<close> for a missing or unknown
  action; \<open>data\<close> may be absent.
\<close>

datatype client_message =
    Control "control_action option"
  | AudioData "string option"
  | TextData "string option"
  | OtherType
  | Malformed

text \<open>
  The variables of one \<^verbatim>\<open>handleClientConnection\<close> closure. \<open>clientOpen\<close> is
  \<^verbatim>\<open>clientWs.readyState === WebSocket.OPEN\<close>; \<open>mio\<close> holds the environment and
  everything that has left the bridge so far, towards the client and upstream.
\<close>

record 'w manager =
  geminiClient :: "live_client option"
  geminiTextClient :: "text_client option"
  isSessionActive :: bool
  isClientConnected :: bool
  isInitializing :: bool
  useTextFallback :: bool
  clientOpen :: bool
  mio :: "'w io"

definition sendToClient :: "server_message \<Rightarrow> 'w manager \<Rightarrow> 'w manager" where
  "sendToClient message m =
     (if isClientConnected m \<and> clientOpen m then m\<lparr>mio := emit (ToClient message) (mio m)\<rparr> else m)"

text \<open>JavaScript truthiness of a value, and property access on it.\<close>

fun truthy :: "json \<Rightarrow> bool" where
  "truthy JNull = False"
| "truthy (JBool b) = b"
| "truthy (JNum n) = (n \<noteq> 0)"
| "truthy (JStr s) = (s \<noteq> [])"
| "truthy (JArr xs) = True"
| "truthy (JObj kvs) = True"

fun field :: "json \<Rightarrow> string \<Rightarrow> json option" where
  "field (JObj kvs) k = map_of kvs k"
| "field _ k = None"

text \<open>
  The \<^verbatim>\<open>onToolCall\<close> callback, the same for both session kinds: the tool-call event,
  then the itinerary carried by an \<^verbatim>\<open>update_itinerary\<close> result, then the sources event
  of a data-fetching tool.
\<close>

definition onToolCall :: "'w env \<Rightarrow> toolcall \<Rightarrow> 'w manager \<Rightarrow> 'w manager" where
  "onToolCall env call m =
     (let m1 = sendToClient (ToolCallMsg (tc_name call) (tc_args call)) m;
          m2 = (if tc_name call = ''update_itinerary''
                then (case tc_result call of
                        None \<Rightarrow> m1
                      | Some result \<Rightarrow>
                          if truthy result
                          then (case field result ''itinerary'' of
                                  None \<Rightarrow> m1
                                | Some itinerary \<Rightarrow>
                                    if truthy itinerary then sendToClient (ItineraryMsg itinerary) m1
                                    else m1)
                          else m1)
                else m1)
      in if tc_name call = ''poi_search'' \<or> tc_name call = ''get_city_info''
            \<or> tc_name call = ''search_destination_info''
         then sendToClient (Sources (tc_name call) (isoNow env (world (mio m2)))) m2
         else m2)"

definition thrownMessage :: "thrown \<Rightarrow> string option" where
  "thrownMessage e = (case e of Error msg \<Rightarrow> Some msg | NonError \<Rightarrow> None)"

text \<open>
  What an event of a session does once it reaches the manager: a callback runs the
  closure registered for it (the Live and the Fallback callbacks agree wherever both
  exist), anything else has already left the bridge and is recorded as it is.
\<close>

definition relay :: "'w env \<Rightarrow> event \<Rightarrow> 'w manager \<Rightarrow> 'w manager" where
  "relay env e m =
     (case e of
        OnSetupComplete \<Rightarrow>
          sendToClient (Status ''ready'' ''AI assistant ready'') (m\<lparr>isSessionActive := True\<rparr>)
      | OnTextResponse t isPartial \<Rightarrow> sendToClient (Transcript t isPartial ''assistant'') m
      | OnText t \<Rightarrow> sendToClient (Transcript t False ''assistant'') m
      | OnAudioResponse audioData \<Rightarrow> sendToClient (Audio audioData) m
      | OnToolCall call \<Rightarrow> onToolCall env call m
      | OnError error \<Rightarrow> sendToClient (ErrorMsg (thrownMessage error) None) m
      | OnClose \<Rightarrow>
          sendToClient (Status ''disconnected'' ''AI connection closed'') (m\<lparr>isSessionActive := False\<rparr>)
      | _ \<Rightarrow> m\<lparr>mio := emit e (mio m)\<rparr>)"

fun relayAll :: "'w env \<Rightarrow> event list \<Rightarrow> 'w manager \<Rightarrow> 'w manager" where
  "relayAll env [] m = m"
| "relayAll env (e # es) m = relayAll env es (relay env e m)"

text \<open>
  A session operation runs on the manager's environment with an empty trace of its own;
  its events then reach the manager in order. (A time stamp taken by a callback is read
  from the environment as the operation leaves it.)
\<close>

definition sessionIO :: "'w manager \<Rightarrow> 'w io" where
  "sessionIO m = \<lparr>world = world (mio m), trace = []\<rparr>"

definition absorb :: "'w env \<Rightarrow> 'w io \<Rightarrow> 'w manager \<Rightarrow> 'w manager" where
  "absorb env io m = relayAll env (trace io) (m\<lparr>mio := (mio m)\<lparr>world := world io\<rparr>\<rparr>)"

text \<open>
  \<^verbatim>\<open>initializeGemini\<close>: the Live Session is tried first; when its \<^verbatim>\<open>connect()\<close>
  rejects, the Fallback Session is constructed. The variable \<^verbatim>\<open>geminiClient\<close> is
  assigned before \<^verbatim>\<open>connect()\<close> and keeps the client whatever the outcome.
\<close>

definition startFallback :: "'w env \<Rightarrow> 'w manager \<Rightarrow> 'w manager" where
  "startFallback env m =
     (let m1 = m\<lparr>useTextFallback := True\<rparr>;
          systemInstruction = getSystemInstruction env (world (mio m1));
          m2 = m1\<lparr>geminiTextClient := Some (newTextClient systemInstruction)\<rparr>;
          m3 = m2\<lparr>isSessionActive := True\<rparr>
      in sendToClient (Status ''ready'' ''AI assistant ready (text mode)'') m3)"

definition initializeGemini :: "'w env \<Rightarrow> 'w manager \<Rightarrow> 'w manager" where
  "initializeGemini env m =
     (if \<not> isClientConnected m \<or> isInitializing m then m
      else
        let m1 = sendToClient (Status ''connecting'' ''Connecting to AI...'') (m\<lparr>isInitializing := True\<rparr>);
            systemInstruction = getSystemInstruction env (world (mio m1))
        in if \<not> isClientConnected m1 then m1
           else
             let (r, c, io) = connect env (newGeminiClient systemInstruction) (sessionIO m1);
                 m2 = absorb env io (m1\<lparr>geminiClient := Some c\<rparr>);
                 m3 = m2\<lparr>isInitializing := False\<rparr>
             in case r of
                  Inr u \<Rightarrow> m3
                | Inl error \<Rightarrow> if isClientConnected m3 then startFallback env m3 else m3)"

text \<open>
  A socket event that reaches the handlers of the Live Session after the
  \<^verbatim>\<open>connect()\<close> of \<^verbatim>\<open>initializeGemini\<close> has settled. The handlers belong to the
  client the variable \<^verbatim>\<open>geminiClient\<close> holds: wherever the variable is set to null,
  \<^verbatim>\<open>disconnect()\<close> has removed the listeners first. The handlers stay installed
  whether the promise was resolved or rejected; once it has settled, \<^verbatim>\<open>resolve\<close> and
  \<^verbatim>\<open>reject\<close> do nothing, so the promise is of no account here.
\<close>

definition handleUpstreamEvent :: "'w env \<Rightarrow> ws_event \<Rightarrow> 'w manager \<Rightarrow> 'w manager" where
  "handleUpstreamEvent env ev m =
     (case geminiClient m of
        None \<Rightarrow> m
      | Some c \<Rightarrow>
          (let (p, c1, io) = onWsEvent env ev (None, c, sessionIO m)
           in absorb env io (m\<lparr>geminiClient := Some c1\<rparr>)))"

text \<open>\<^verbatim>\<open>geminiClient.disconnect(); geminiClient = null\<close>\<close>

definition dropLiveClient :: "'w env \<Rightarrow> live_client \<Rightarrow> 'w manager \<Rightarrow> 'w manager" where
  "dropLiveClient env c m =
     (let (c1, io) = disconnect c (sessionIO m)
      in (absorb env io m)\<lparr>geminiClient := None\<rparr>)"

text \<open>The \<^verbatim>\<open>message\<close> handler of the client socket.\<close>

definition handleControl :: "'w env \<Rightarrow> control_action option \<Rightarrow> 'w manager \<Rightarrow> 'w manager" where
  "handleControl env action m =
     (case action of
        Some Start \<Rightarrow>
          if geminiClient m = None \<and> \<not> isSessionActive m \<and> \<not> isInitializing m
          then initializeGemini env m else m
      | Some Stop \<Rightarrow>
          (case geminiClient m of
             Some c \<Rightarrow> (dropLiveClient env c m)\<lparr>isSessionActive := False\<rparr>
           | None \<Rightarrow> m)
      | Some Reset \<Rightarrow>
          (let m1 = (case geminiClient m of Some c \<Rightarrow> dropLiveClient env c m | None \<Rightarrow> m)
           in initializeGemini env (m1\<lparr>isSessionActive := False, isInitializing := False\<rparr>))
      | Some Interrupt \<Rightarrow>
          (case geminiClient m of
             Some c \<Rightarrow> if isSessionActive m then absorb env (sendInterrupt c (sessionIO m)) m else m
           | None \<Rightarrow> m)
      | None \<Rightarrow> m)"

definition handleText :: "'w env \<Rightarrow> string option \<Rightarrow> 'w manager \<Rightarrow> 'w manager" where
  "handleText env d m =
     (if isSessionActive m \<and> truthy_str d
      then
        let text = the d;
            m1 = sendToClient (Transcript text False ''user'') m
        in case (if useTextFallback m1 then geminiTextClient m1 else None) of
             Some tc \<Rightarrow>
               (let (tc1, io) = sendText env text (tc, sessionIO m1)
                in absorb env io (m1\<lparr>geminiTextClient := Some tc1\<rparr>))
           | None \<Rightarrow>
               (case geminiClient m1 of
                  Some c \<Rightarrow> absorb env (sendText_live text c (sessionIO m1)) m1
                | None \<Rightarrow> m1)
      else m)"

definition handleAudio :: "'w env \<Rightarrow> string option \<Rightarrow> 'w manager \<Rightarrow> 'w manager" where
  "handleAudio env d m =
     (case geminiClient m of
        Some c \<Rightarrow>
          if isSessionActive m \<and> truthy_str d
          then absorb env (sendAudio (the d) c (sessionIO m)) m else m
      | None \<Rightarrow> m)"

definition handleClientMessage :: "'w env \<Rightarrow> client_message \<Rightarrow> 'w manager \<Rightarrow> 'w manager" where
  "handleClientMessage env message m =
     (case message of
        Control action \<Rightarrow> handleControl env action m
      | AudioData d \<Rightarrow> handleAudio env d m
      | TextData d \<Rightarrow> handleText env d m
      | OtherType \<Rightarrow> m
      | Malformed \<Rightarrow> sendToClient (ErrorMsg (Some ''Invalid message format'') None) m)"

text \<open>The \<^verbatim>\<open>close\<close> handler of the client socket.\<close>

definition handleClientClose :: "'w env \<Rightarrow> 'w manager \<Rightarrow> 'w manager" where
  "handleClientClose env m =
     (let m1 = m\<lparr>isClientConnected := False\<rparr>;
          m2 = (case geminiClient m1 of Some c \<Rightarrow> dropLiveClient env c m1 | None \<Rightarrow> m1)
      in m2\<lparr>isSessionActive := False\<rparr>)"

text \<open>\<^verbatim>\<open>handleClientConnection\<close>: the initial variables, then the automatic start.\<close>

definition newManager :: "'w \<Rightarrow> 'w manager" where
  "newManager w =
     \<lparr>geminiClient = None, geminiTextClient = None, isSessionActive = False,
      isClientConnected = True, isInitializing = False, useTextFallback = False,
      clientOpen = True, mio = \<lparr>world = w, trace = []\<rparr>\<rparr>"

definition handleClientConnection :: "'w env \<Rightarrow> 'w \<Rightarrow> 'w manager" where
  "handleClientConnection env w = initializeGemini env (newManager w)"

fun handleClientMessages :: "'w env \<Rightarrow> client_message list \<Rightarrow> 'w manager \<Rightarrow> 'w manager" where
  "handleClientMessages env [] m = m"
| "handleClientMessages env (message # messages) m =
     handleClientMessages env messages (handleClientMessage env message m)"

section \<open>Tool Dispatcher (toolExecutor.ts)\<close>

text \<open>
  A JavaScript value read from a property is a JSON value or \<^verbatim>\<open>undefined\<close>
  (\<open>None\<close>). \<open>truthyOpt\<close> is its truthiness, \<open>orElse a b\<close> is \<^verbatim>\<open>a || b\<close>, and
  \<open>mkObj\<close> builds an object literal, in which a property whose value is undefined does
  not survive serialisation.
\<close>

definition truthyOpt :: "json option \<Rightarrow> bool" where
  "truthyOpt v = (case v of None \<Rightarrow> False | Some x \<Rightarrow> truthy x)"

definition orElse :: "json option \<Rightarrow> json \<Rightarrow> json" where
  "orElse a b = (case a of None \<Rightarrow> b | Some x \<Rightarrow> if truthy x then x else b)"

definition mkObj :: "(string \<times> json option) list \<Rightarrow> json" where
  "mkObj kvs = JObj (concat (map (\<lambda>(k, v). case v of None \<Rightarrow> [] | Some x \<Rightarrow> [(k, x)]) kvs))"

text \<open>\<^verbatim>\<open>obj.k = v\<close> on an object: an existing property keeps its place, a new one is added last.\<close>

definition setProp :: "string \<Rightarrow> json \<Rightarrow> (string \<times> json) list \<Rightarrow> (string \<times> json) list" where
  "setProp k v kvs =
     (if k \<in> set (map fst kvs) then map (\<lambda>(k', v'). if k' = k then (k', v) else (k', v')) kvs
      else kvs @ [(k, v)])"

text \<open>\<^verbatim>\<open>String.prototype.toLowerCase\<close> on the ASCII letters.\<close>

definition lower_char :: "char \<Rightarrow> char" where
  "lower_char c =
     (case map_of (zip ''ABCDEFGHIJKLMNOPQRSTUVWXYZ'' ''abcdefghijklmnopqrstuvwxyz'') c of
        Some l \<Rightarrow> l
      | None \<Rightarrow> c)"

definition toLowerCase :: "string \<Rightarrow> string" where
  "toLowerCase s = map lower_char s"

text \<open>\<^verbatim>\<open>Math.round(x * 10) / 10\<close>; a value that is not a number serialises as null.\<close>

definition roundTenth :: "json \<Rightarrow> json" where
  "roundTenth d = (case d of JNum x \<Rightarrow> JNum (of_int \<lfloor>x * 10 + 1 / 2\<rfloor> / 10) | _ \<Rightarrow> JNull)"

text \<open>
  Everything the dispatcher imports: the four external services, the two itinerary
  builders, the distance and travel-time estimates, and the built-ins it relies on
  (\<^verbatim>\<open>JSON.parse\<close>, and the string a value becomes inside a template literal). \<open>'x\<close>
  is the state of the outside world the services read and change; an \<open>Inl\<close> result is a
  throw.
\<close>

record 'x collaborators =
  c_searchPOIs :: "'x \<Rightarrow> json \<Rightarrow> json option \<Rightarrow> json option \<Rightarrow> json \<Rightarrow> (thrown + json list) \<times> 'x"
  c_getCityInfo :: "'x \<Rightarrow> json \<Rightarrow> json option \<Rightarrow> (thrown + json) \<times> 'x"
  c_getWeather :: "'x \<Rightarrow> json \<Rightarrow> json option \<Rightarrow> (thrown + json) \<times> 'x"
  c_searchDestinationInfo :: "'x \<Rightarrow> json \<Rightarrow> json option \<Rightarrow> (thrown + json) \<times> 'x"
  c_buildItinerary :: "'x \<Rightarrow> json \<Rightarrow> json \<Rightarrow> json \<Rightarrow> (thrown + json) \<times> 'x"
  c_updateItinerary :: "json \<Rightarrow> json option \<Rightarrow> json option \<Rightarrow> json option \<Rightarrow> thrown + json"
  c_calculateDistance :: "json option \<Rightarrow> json option \<Rightarrow> json option \<Rightarrow> json option \<Rightarrow> json"
  c_estimateTravelTime :: "json \<Rightarrow> json \<Rightarrow> json"
  c_jsonParse :: "json \<Rightarrow> thrown + json"
  c_template :: "json option \<Rightarrow> string"

text \<open>
  The module variables: \<^verbatim>\<open>currentItinerary\<close> (\<open>JNull\<close> is null), the map
  \<^verbatim>\<open>poiCoordinates\<close> from lower-cased names to \<^verbatim>\<open>{lat, lon}\<close>, and the world of the
  collaborators.
\<close>

record 'x dispatcher =
  currentItinerary :: json
  poiCoordinates :: "string \<rightharpoonup> json option \<times> json option"
  outside :: 'x

definition failure :: "string \<Rightarrow> json" where
  "failure message = JObj [(''success'', JBool False), (''error'', JStr message)]"

text \<open>
  \<^verbatim>\<open>pois.forEach(poi => poiCoordinates.set(poi.name.toLowerCase(), ...))\<close>: a name
  that is not a string has no \<^verbatim>\<open>toLowerCase\<close>, and the throw leaves the entries set so
  far.
\<close>

fun storeCoordinates ::
  "json list \<Rightarrow> (string \<rightharpoonup> json option \<times> json option)
     \<Rightarrow> thrown option \<times> (string \<rightharpoonup> json option \<times> json option)" where
  "storeCoordinates [] coords = (None, coords)"
| "storeCoordinates (poi # pois) coords =
     (case field poi ''name'' of
        Some (JStr name) \<Rightarrow>
          storeCoordinates pois
            (coords(toLowerCase name \<mapsto> (field poi ''lat'', field poi ''lon'')))
      | _ \<Rightarrow> (Some (typeError ''undefined'' ''toLowerCase''), coords))"

definition poiSearchCase ::
  "'x collaborators \<Rightarrow> json \<Rightarrow> 'x dispatcher \<Rightarrow> (thrown + json) \<times> 'x dispatcher" where
  "poiSearchCase C params st =
     (let destination = field params ''destination'';
          category = field params ''category'';
          interests = field params ''interests'';
          limit = orElse (field params ''limit'') (JNum 5)
      in if \<not> truthyOpt destination
         then (Inr (failure ''Destination is required for POI search''), st)
         else
           case c_searchPOIs C (outside st) (the destination) category interests limit of
             (Inl e, x) \<Rightarrow> (Inl e, st\<lparr>outside := x\<rparr>)
           | (Inr pois, x) \<Rightarrow>
               (case storeCoordinates pois (poiCoordinates st) of
                  (Some e, coords) \<Rightarrow> (Inl e, st\<lparr>outside := x, poiCoordinates := coords\<rparr>)
                | (None, coords) \<Rightarrow>
                    (Inr (JObj [(''success'', JBool True),
                                (''destination'', the destination),
                                (''results'', JArr pois),
                                (''count'', JNum (real (length pois))),
                                (''source'', JStr ''OpenStreetMap'')]),
                     st\<lparr>outside := x, poiCoordinates := coords\<rparr>)))"

text \<open>
  The \<^verbatim>\<open>set\<close> action of \<^verbatim>\<open>update_itinerary\<close>, up to its \<^verbatim>\<open>return\<close>:
  \<open>Inl\<close> is the result returned, \<open>Inr\<close> the itinerary the rest of the case goes on with.
\<close>

definition namedItinerary :: "'x collaborators \<Rightarrow> json \<Rightarrow> json \<Rightarrow> json" where
  "namedItinerary C params itinerary =
     (case itinerary of
        JObj kvs \<Rightarrow>
          if truthyOpt (field params ''name'')
          then JObj (setProp ''name'' (the (field params ''name'')) kvs)
          else if \<not> truthyOpt (map_of kvs ''name'') \<and> truthyOpt (map_of kvs ''destination'')
          then JObj (setProp ''name''
                       (JStr (c_template C (map_of kvs ''destination'') @ '' Adventure'')) kvs)
          else itinerary
      | _ \<Rightarrow> itinerary)"

definition setAction :: "'x collaborators \<Rightarrow> json \<Rightarrow> json \<Rightarrow> json + json" where
  "setAction C params current =
     (let parsed =
            (if truthyOpt (field params ''itinerary_json'')
             then (case c_jsonParse C (the (field params ''itinerary_json'')) of
                     Inl e \<Rightarrow> Inl (failure ''Invalid itinerary_json format'')
                   | Inr v \<Rightarrow> Inr v)
             else if truthyOpt (field params ''full_itinerary'')
             then Inr (the (field params ''full_itinerary''))
             else Inr current)
      in case parsed of
           Inl result \<Rightarrow> Inl result
         | Inr itinerary \<Rightarrow> Inr itinerary)"

text \<open>
  Updating destination and name of an existing itinerary. Assigning a property of a
  number, string or boolean throws in strict mode; an array takes the assignment without
  any serialisable effect.
\<close>

definition retitle :: "'x collaborators \<Rightarrow> json \<Rightarrow> json \<Rightarrow> thrown + json" where
  "retitle C params itinerary =
     (case itinerary of
        JObj kvs \<Rightarrow>
          (let kvs1 = (if truthyOpt (field params ''destination'')
                       then setProp ''destination'' (the (field params ''destination'')) kvs
                       else kvs);
               kvs2 = (if truthyOpt (field params ''name'')
                       then setProp ''name'' (the (field params ''name'')) kvs1
                       else kvs1);
               kvs3 = (if \<not> truthyOpt (map_of kvs2 ''name'') \<and> truthyOpt (map_of kvs2 ''destination'')
                       then setProp ''name''
                              (JStr (c_template C (map_of kvs2 ''destination'') @ '' Adventure'')) kvs2
                       else kvs2)
           in Inr (JObj kvs3))
      | JArr xs \<Rightarrow> Inr itinerary
      | _ \<Rightarrow>
          if truthyOpt (field params ''destination'') \<or> truthyOpt (field params ''name'')
          then Inl (Error ''Cannot create property on a primitive value'')
          else Inr itinerary)"

definition emptyItinerary :: "'x collaborators \<Rightarrow> json \<Rightarrow> json" where
  "emptyItinerary C params =
     (let destination = orElse (field params ''destination'') (JStr ''Unknown'');
          name = orElse (field params ''name'') (JStr (c_template C (Some destination) @ '' Trip''))
      in JObj [(''name'', name), (''destination'', destination),
               (''days'', JArr []), (''sources'', JArr [])])"

definition activityOf :: "json \<Rightarrow> json option" where
  "activityOf params =
     (if \<not> truthyOpt (field params ''activity'')
         \<and> (truthyOpt (field params ''poi_name'') \<or> truthyOpt (field params ''time_slot''))
      then Some (mkObj [(''time_slot'', Some (orElse (field params ''time_slot'') (JStr ''Morning''))),
                        (''poi_name'', field params ''poi_name''),
                        (''duration_minutes'', Some (orElse (field params ''duration_minutes'') (JNum 60))),
                        (''notes'', Some (orElse (field params ''notes'') (JStr '''')))])
      else field params ''activity'')"

definition updateItineraryCase ::
  "'x collaborators \<Rightarrow> json \<Rightarrow> 'x dispatcher \<Rightarrow> (thrown + json) \<times> 'x dispatcher" where
  "updateItineraryCase C params st =
     (let action = field params ''action'';
          afterSet = (if action = Some (JStr ''set'')
                      then setAction C params (currentItinerary st)
                      else Inr (currentItinerary st))
      in case afterSet of
           Inl result \<Rightarrow> (Inr result, st)
         | Inr itinerary \<Rightarrow>
             if action = Some (JStr ''set'') \<and> truthy itinerary \<and> truthyOpt (field itinerary ''days'')
             then
               (let named = namedItinerary C params itinerary
                in (Inr (JObj [(''success'', JBool True), (''itinerary'', named),
                               (''message'', JStr ''Itinerary set successfully'')]),
                    st\<lparr>currentItinerary := named\<rparr>))
             else
               case (if \<not> truthy itinerary then Inr (emptyItinerary C params)
                     else retitle C params itinerary) of
                 Inl e \<Rightarrow> (Inl e, st\<lparr>currentItinerary := itinerary\<rparr>)
               | Inr current \<Rightarrow>
                   (let dayNumber = field params ''day_number'';
                        activity = activityOf params
                    in if action = Some (JStr ''build'') \<and> truthyOpt (field params ''num_days'')
                       then
                         (case c_buildItinerary C (outside st)
                                 (orElse (field params ''pois'') (JArr []))
                                 (the (field params ''num_days''))
                                 (orElse (field params ''preferences'') (JObj [])) of
                            (Inl e, x) \<Rightarrow> (Inl e, st\<lparr>currentItinerary := current, outside := x\<rparr>)
                          | (Inr built, x) \<Rightarrow>
                              (Inr (JObj [(''success'', JBool True), (''itinerary'', built),
                                          (''message'',
                                           JStr (''Built '' @ c_template C (field params ''num_days'')
                                                   @ ''-day itinerary''))]),
                               st\<lparr>currentItinerary := built, outside := x\<rparr>))
                       else
                         (case c_updateItinerary C current action dayNumber activity of
                            Inl e \<Rightarrow> (Inl e, st\<lparr>currentItinerary := current\<rparr>)
                          | Inr updated \<Rightarrow>
                              (Inr (JObj [(''success'', JBool True), (''itinerary'', updated),
                                          (''message'',
                                           JStr (''Itinerary updated: '' @ c_template C action))]),
                               st\<lparr>currentItinerary := updated\<rparr>))))"

definition cityInfoCase ::
  "'x collaborators \<Rightarrow> json \<Rightarrow> 'x dispatcher \<Rightarrow> (thrown + json) \<times> 'x dispatcher" where
  "cityInfoCase C params st =
     (let destination = field params ''destination'';
          topic = field params ''topic''
      in if \<not> truthyOpt destination
         then (Inr (failure ''Destination is required for city info''), st)
         else
           case c_getCityInfo C (outside st) (the destination) topic of
             (Inl e, x) \<Rightarrow> (Inl e, st\<lparr>outside := x\<rparr>)
           | (Inr info, x) \<Rightarrow>
               (Inr (mkObj [(''success'', Some (JBool True)),
                            (''destination'', destination),
                            (''topic'', topic),
                            (''content'', field info ''content''),
                            (''source'', field info ''source'')]),
                st\<lparr>outside := x\<rparr>))"

definition weatherCase ::
  "'x collaborators \<Rightarrow> json \<Rightarrow> 'x dispatcher \<Rightarrow> (thrown + json) \<times> 'x dispatcher" where
  "weatherCase C params st =
     (let destination = field params ''destination'';
          date = field params ''date''
      in if \<not> truthyOpt destination
         then (Inr (failure ''Destination is required for weather''), st)
         else
           case c_getWeather C (outside st) (the destination) date of
             (Inl e, x) \<Rightarrow> (Inl e, st\<lparr>outside := x\<rparr>)
           | (Inr weather, x) \<Rightarrow>
               (Inr (JObj [(''success'', JBool True), (''weather'', weather)]),
                st\<lparr>outside := x\<rparr>))"

definition travelTimeCase ::
  "'x collaborators \<Rightarrow> json \<Rightarrow> 'x dispatcher \<Rightarrow> (thrown + json) \<times> 'x dispatcher" where
  "travelTimeCase C params st =
     (case field params ''from_poi'' of
        Some (JStr from_poi) \<Rightarrow>
          (case field params ''to_poi'' of
             Some (JStr to_poi) \<Rightarrow>
               (let fromPoi = toLowerCase from_poi;
                    toPoi = toLowerCase to_poi;
                    mode = orElse (field params ''mode'') (JStr ''auto'')
                in case (poiCoordinates st fromPoi, poiCoordinates st toPoi) of
                     (Some fromCoords, Some toCoords) \<Rightarrow>
                       (let distance = c_calculateDistance C (fst fromCoords) (snd fromCoords)
                                         (fst toCoords) (snd toCoords);
                            travelTime = c_estimateTravelTime C distance mode
                        in (Inr (JObj [(''success'', JBool True),
                                       (''from'', JStr from_poi),
                                       (''to'', JStr to_poi),
                                       (''distance_km'', roundTenth distance),
                                       (''travel_time_minutes'', travelTime),
                                       (''mode'', mode)]),
                            st))
                   | _ \<Rightarrow>
                       (Inr (failure ''Location coordinates not found. Please search for POIs first.''),
                        st))
           | _ \<Rightarrow> (Inl (typeError ''undefined'' ''toLowerCase''), st))
      | _ \<Rightarrow> (Inl (typeError ''undefined'' ''toLowerCase''), st))"

definition destinationInfoCase ::
  "'x collaborators \<Rightarrow> json \<Rightarrow> 'x dispatcher \<Rightarrow> (thrown + json) \<times> 'x dispatcher" where
  "destinationInfoCase C params st =
     (let destination = field params ''destination'';
          queryType = field params ''query_type''
      in if \<not> truthyOpt destination
         then (Inr (failure ''Destination is required for web search''), st)
         else
           case c_searchDestinationInfo C (outside st) (the destination) queryType of
             (Inl e, x) \<Rightarrow> (Inl e, st\<lparr>outside := x\<rparr>)
           | (Inr info, x) \<Rightarrow>
               (Inr (mkObj [(''success'', Some (JBool True)),
                            (''destination'', destination),
                            (''query_type'', queryType),
                            (''content'', field info ''content''),
                            (''sources'', field info ''sources'')]),
                st\<lparr>outside := x\<rparr>))"

text \<open>
  \<^verbatim>\<open>executeToolCall(toolName, args)\<close>. Every known tool reads a property of the
  arguments first, which throws when they are null; the default case does not look at
  them.
\<close>

definition knownTools :: "string list" where
  "knownTools = [''poi_search'', ''update_itinerary'', ''get_city_info'', ''get_weather'',
                 ''calculate_travel_time'', ''search_destination_info'']"

definition executeToolCall ::
  "'x collaborators \<Rightarrow> 'x dispatcher \<Rightarrow> string \<Rightarrow> json \<Rightarrow> (thrown + json) \<times> 'x dispatcher" where
  "executeToolCall C st toolName args =
     (let params = args
      in if toolName \<in> set knownTools \<and> params = JNull
         then (Inl (typeError ''null'' ''a property''), st)
         else if toolName = ''poi_search'' then poiSearchCase C params st
         else if toolName = ''update_itinerary'' then updateItineraryCase C params st
         else if toolName = ''get_city_info'' then cityInfoCase C params st
         else if toolName = ''get_weather'' then weatherCase C params st
         else if toolName = ''calculate_travel_time'' then travelTimeCase C params st
         else if toolName = ''search_destination_info'' then destinationInfoCase C params st
         else (Inr (failure (''Unknown tool: '' @ toolName)), st))"

text \<open>
  The arguments object as a call leaves it. The dispatcher writes to it in one place: the
  \<^verbatim>\<open>set\<close> action of \<^verbatim>\<open>update_itinerary\<close> without \<^verbatim>\<open>itinerary_json\<close> makes
  \<^verbatim>\<open>args.full_itinerary\<close> itself the current itinerary and then assigns to it: the
  name when it has days, destination and name when it has none. (The activity pushed by
  \<^verbatim>\<open>updateItinerary\<close> is not written to, and everything else the dispatcher builds is
  new.)
\<close>

definition argsAfter :: "'x collaborators \<Rightarrow> string \<Rightarrow> json \<Rightarrow> json" where
  "argsAfter C toolName args =
     (case args of
        JObj kvs \<Rightarrow>
          if toolName = ''update_itinerary'' \<and> field args ''action'' = Some (JStr ''set'')
             \<and> \<not> truthyOpt (field args ''itinerary_json'') \<and> truthyOpt (field args ''full_itinerary'')
          then
            (let itinerary = the (field args ''full_itinerary'');
                 written = (if truthyOpt (field itinerary ''days'')
                            then namedItinerary C args itinerary
                            else case retitle C args itinerary of
                                   Inr current \<Rightarrow> current
                                 | Inl e \<Rightarrow> itinerary)
             in JObj (setProp ''full_itinerary'' written kvs))
          else args
      | _ \<Rightarrow> args)"

text \<open>
  The dispatcher as the sessions call it: what it returns or throws, the arguments object
  as it leaves it, and the module state.
\<close>

definition dispatchWith ::
  "'x collaborators \<Rightarrow> 'x dispatcher \<Rightarrow> string \<Rightarrow> json \<Rightarrow> (thrown + json) \<times> json \<times> 'x dispatcher" where
  "dispatchWith C st toolName args =
     (let (r, st1) = executeToolCall C st toolName args
      in (r, argsAfter C toolName args, st1))"

text \<open>\<^verbatim>\<open>resetItinerary()\<close>\<close>

definition resetItinerary :: "'x dispatcher \<Rightarrow> 'x dispatcher" where
  "resetItinerary st = st\<lparr>currentItinerary := JNull, poiCoordinates := Map.empty\<rparr>"

section \<open>Itinerary updates on the heap (itineraryBuilder.ts)\<close>

text \<open>
  \<^verbatim>\<open>updateItinerary\<close> works on objects and arrays that other code holds references to,
  so it is modelled on an explicit heap. The heap has one region per type of the module
  (\<^verbatim>\<open>Itinerary\<close>, \<^verbatim>\<open>Day[]\<close>, \<^verbatim>\<open>Day\<close>, \<^verbatim>\<open>Activity[]\<close>, \<^verbatim>\<open>Activity\<close>); an
  address is an index into its region, allocation appends to the region, and a write is
  an update at an address. Numbers are idealised as reals.
\<close>

type_synonym addr = nat

text \<open>\<^verbatim>\<open>Partial<Activity>\<close>: every property may be absent.\<close>

record activity =
  a_time_slot :: "string option"
  a_poi_name :: "string option"
  a_poi_id :: "string option"
  a_duration_minutes :: "real option"
  a_travel_time_to_next :: "real option"
  a_notes :: "string option"
  a_source :: "string option"
  a_lat :: "real option"
  a_lon :: "real option"

text \<open>\<^verbatim>\<open>Day\<close>: \<open>d_activities\<close> is the reference to its array.\<close>

record day_obj =
  d_day_number :: real
  d_date :: "string option"
  d_activities :: addr

text \<open>
  \<^verbatim>\<open>Itinerary\<close>: \<open>it_days\<close> is the reference to its array of days. The sources are
  copied with the itinerary and never written, so they are kept as a value.
\<close>

record itinerary_obj =
  it_name :: "string option"
  it_destination :: string
  it_days :: addr
  it_sources :: "json list"

record heap =
  itineraryObjs :: "itinerary_obj list"
  dayArrays :: "addr list list"
  dayObjs :: "day_obj list"
  activityArrays :: "addr list list"
  activityObjs :: "activity list"

text \<open>What \<^verbatim>\<open>JSON.stringify\<close> reads of an itinerary: a tree without references.\<close>

record day_value =
  dv_day_number :: real
  dv_date :: "string option"
  dv_activities :: "activity list"

record itinerary_value =
  iv_name :: "string option"
  iv_destination :: string
  iv_days :: "day_value list"
  iv_sources :: "json list"

definition stringifyDay :: "heap \<Rightarrow> addr \<Rightarrow> day_value" where
  "stringifyDay h d =
     (let day = dayObjs h ! d
      in \<lparr>dv_day_number = d_day_number day, dv_date = d_date day,
          dv_activities = map (\<lambda>a. activityObjs h ! a) (activityArrays h ! d_activities day)\<rparr>)"

definition stringifyItinerary :: "heap \<Rightarrow> addr \<Rightarrow> itinerary_value" where
  "stringifyItinerary h it =
     (let itinerary = itineraryObjs h ! it
      in \<lparr>iv_name = it_name itinerary, iv_destination = it_destination itinerary,
          iv_days = map (stringifyDay h) (dayArrays h ! it_days itinerary),
          iv_sources = it_sources itinerary\<rparr>)"

text \<open>Allocation: the new object or array gets the next address of its region.\<close>

definition newActivities :: "activity list \<Rightarrow> heap \<Rightarrow> addr list \<times> heap" where
  "newActivities as h =
     ([length (activityObjs h) ..< length (activityObjs h) + length as],
      h\<lparr>activityObjs := activityObjs h @ as\<rparr>)"

definition newActivityArray :: "addr list \<Rightarrow> heap \<Rightarrow> addr \<times> heap" where
  "newActivityArray as h =
     (length (activityArrays h), h\<lparr>activityArrays := activityArrays h @ [as]\<rparr>)"

definition newDay :: "day_obj \<Rightarrow> heap \<Rightarrow> addr \<times> heap" where
  "newDay day h = (length (dayObjs h), h\<lparr>dayObjs := dayObjs h @ [day]\<rparr>)"

definition newDayArray :: "addr list \<Rightarrow> heap \<Rightarrow> addr \<times> heap" where
  "newDayArray ds h = (length (dayArrays h), h\<lparr>dayArrays := dayArrays h @ [ds]\<rparr>)"

definition newItinerary :: "itinerary_obj \<Rightarrow> heap \<Rightarrow> addr \<times> heap" where
  "newItinerary itinerary h =
     (length (itineraryObjs h), h\<lparr>itineraryObjs := itineraryObjs h @ [itinerary]\<rparr>)"

text \<open>What \<^verbatim>\<open>JSON.parse\<close> builds from the tree: new objects and arrays throughout.\<close>

definition parseDay :: "day_value \<Rightarrow> heap \<Rightarrow> addr \<times> heap" where
  "parseDay dv h =
     (let (as, h1) = newActivities (dv_activities dv) h;
          (arr, h2) = newActivityArray as h1
      in newDay \<lparr>d_day_number = dv_day_number dv, d_date = dv_date dv, d_activities = arr\<rparr> h2)"

fun parseDays :: "day_value list \<Rightarrow> heap \<Rightarrow> addr list \<times> heap" where
  "parseDays [] h = ([], h)"
| "parseDays (dv # dvs) h =
     (let (d, h1) = parseDay dv h;
          (ds, h2) = parseDays dvs h1
      in (d # ds, h2))"

definition parseItinerary :: "itinerary_value \<Rightarrow> heap \<Rightarrow> addr \<times> heap" where
  "parseItinerary iv h =
     (let (ds, h1) = parseDays (iv_days iv) h;
          (arr, h2) = newDayArray ds h1
      in newItinerary \<lparr>it_name = iv_name iv, it_destination = iv_destination iv,
                        it_days = arr, it_sources = iv_sources iv\<rparr> h2)"

text \<open>Reads and writes through a reference.\<close>

definition daysOf :: "heap \<Rightarrow> addr \<Rightarrow> addr list" where
  "daysOf h it = dayArrays h ! it_days (itineraryObjs h ! it)"

definition activitiesOf :: "heap \<Rightarrow> addr \<Rightarrow> addr list" where
  "activitiesOf h d = activityArrays h ! d_activities (dayObjs h ! d)"

definition setDays :: "addr \<Rightarrow> addr list \<Rightarrow> heap \<Rightarrow> heap" where
  "setDays it ds h = h\<lparr>dayArrays := (dayArrays h)[it_days (itineraryObjs h ! it) := ds]\<rparr>"

definition setActivities :: "addr \<Rightarrow> addr list \<Rightarrow> heap \<Rightarrow> heap" where
  "setActivities d as h =
     h\<lparr>activityArrays := (activityArrays h)[d_activities (dayObjs h ! d) := as]\<rparr>"

text \<open>\<^verbatim>\<open>updated.days.find((d) => d.day_number === dayNumber)\<close>\<close>

definition findDay :: "heap \<Rightarrow> addr \<Rightarrow> real \<Rightarrow> addr option" where
  "findDay h it dayNumber = find (\<lambda>d. d_day_number (dayObjs h ! d) = dayNumber) (daysOf h it)"

text \<open>Truthiness of an optional number and of an optional string.\<close>

definition truthy_num :: "real option \<Rightarrow> bool" where
  "truthy_num n = (case n of None \<Rightarrow> False | Some x \<Rightarrow> x \<noteq> 0)"

text \<open>\<^verbatim>\<open>activity?.poi_name\<close>\<close>

definition poiNameOf :: "heap \<Rightarrow> addr option \<Rightarrow> string option" where
  "poiNameOf h activity =
     (case activity of None \<Rightarrow> None | Some a \<Rightarrow> a_poi_name (activityObjs h ! a))"

text \<open>
  The case \<^verbatim>\<open>add_activity\<close>: a missing day is created, appended and the days sorted by
  number (the sort is stable); then the reference to the activity is pushed.
\<close>

definition addActivity :: "addr \<Rightarrow> real \<Rightarrow> addr \<Rightarrow> heap \<Rightarrow> heap" where
  "addActivity updated dayNumber activity h =
     (case findDay h updated dayNumber of
        Some day \<Rightarrow> setActivities day (activitiesOf h day @ [activity]) h
      | None \<Rightarrow>
          (let (arr, h1) = newActivityArray [] h;
               (day, h2) = newDay \<lparr>d_day_number = dayNumber, d_date = None, d_activities = arr\<rparr> h1;
               h3 = setDays updated (daysOf h2 updated @ [day]) h2;
               h4 = setDays updated
                      (sort_key (\<lambda>d. d_day_number (dayObjs h3 ! d)) (daysOf h3 updated)) h3
           in setActivities day (activitiesOf h4 day @ [activity]) h4))"

text \<open>
  The case \<^verbatim>\<open>remove_activity\<close>: the day gets a new, filtered array.
\<close>

definition removeActivity :: "addr \<Rightarrow> real \<Rightarrow> string \<Rightarrow> heap \<Rightarrow> heap" where
  "removeActivity updated dayNumber name h =
     (case findDay h updated dayNumber of
        None \<Rightarrow> h
      | Some day \<Rightarrow>
          (let (arr, h1) = newActivityArray
                 (filter (\<lambda>a. a_poi_name (activityObjs h ! a) \<noteq> Some name) (activitiesOf h day)) h
           in h1\<lparr>dayObjs := (dayObjs h1)[day := (dayObjs h1 ! day)\<lparr>d_activities := arr\<rparr>]\<rparr>))"

text \<open>\<^verbatim>\<open>{...old, ...activity}\<close>: the properties present in \<open>new\<close> win.\<close>

definition orOld :: "'a option \<Rightarrow> 'a option \<Rightarrow> 'a option" where
  "orOld new old = (case new of None \<Rightarrow> old | Some x \<Rightarrow> Some x)"

definition spread :: "activity \<Rightarrow> activity \<Rightarrow> activity" where
  "spread old new =
     \<lparr>a_time_slot = orOld (a_time_slot new) (a_time_slot old),
      a_poi_name = orOld (a_poi_name new) (a_poi_name old),
      a_poi_id = orOld (a_poi_id new) (a_poi_id old),
      a_duration_minutes = orOld (a_duration_minutes new) (a_duration_minutes old),
      a_travel_time_to_next = orOld (a_travel_time_to_next new) (a_travel_time_to_next old),
      a_notes = orOld (a_notes new) (a_notes old),
      a_source = orOld (a_source new) (a_source old),
      a_lat = orOld (a_lat new) (a_lat old),
      a_lon = orOld (a_lon new) (a_lon old)\<rparr>"

text \<open>\<^verbatim>\<open>day.activities.findIndex((a) => a.poi_name === activity.poi_name)\<close>\<close>

fun findIndex :: "('a \<Rightarrow> bool) \<Rightarrow> 'a list \<Rightarrow> nat option" where
  "findIndex P [] = None"
| "findIndex P (x # xs) = (if P x then Some 0 else map_option Suc (findIndex P xs))"

text \<open>
  The case \<^verbatim>\<open>update_activity\<close>: the slot of the first activity of that name gets a
  new, merged object.
\<close>

definition updateActivity :: "addr \<Rightarrow> real \<Rightarrow> string \<Rightarrow> addr \<Rightarrow> heap \<Rightarrow> heap" where
  "updateActivity updated dayNumber name activity h =
     (case findDay h updated dayNumber of
        None \<Rightarrow> h
      | Some day \<Rightarrow>
          (case findIndex (\<lambda>a. a_poi_name (activityObjs h ! a) = Some name) (activitiesOf h day) of
             None \<Rightarrow> h
           | Some actIndex \<Rightarrow>
               (let (merged, h1) =
                      newActivities [spread (activityObjs h ! (activitiesOf h day ! actIndex))
                                            (activityObjs h ! activity)] h
                in setActivities day ((activitiesOf h1 day)[actIndex := hd merged]) h1)))"

text \<open>The case \<^verbatim>\<open>clear_day\<close>: the day gets a new, empty array.\<close>

definition clearDay :: "addr \<Rightarrow> real \<Rightarrow> heap \<Rightarrow> heap" where
  "clearDay updated dayNumber h =
     (case findDay h updated dayNumber of
        None \<Rightarrow> h
      | Some day \<Rightarrow>
          (let (arr, h1) = newActivityArray [] h
           in h1\<lparr>dayObjs := (dayObjs h1)[day := (dayObjs h1 ! day)\<lparr>d_activities := arr\<rparr>]\<rparr>))"

text \<open>
  \<^verbatim>\<open>estimateTravelTime(distanceKm)\<close> with the default mode, 20 km/h. The haversine
  distance \<^verbatim>\<open>calculateDistance\<close> is floating-point trigonometry and stays a parameter.
\<close>

definition estimateTravelTime :: "real \<Rightarrow> real" where
  "estimateTravelTime distanceKm = max 10 (of_int \<lceil>distanceKm / 20 * 60\<rceil> + 5)"

text \<open>
  The loop over \<open>i < day.activities.length - 1\<close>: the travel time is written into the
  activity at \<open>i\<close> when it and the next one both have coordinates.
\<close>

fun recalculateActivities ::
  "(real \<Rightarrow> real \<Rightarrow> real \<Rightarrow> real \<Rightarrow> real) \<Rightarrow> addr list \<Rightarrow> heap \<Rightarrow> heap" where
  "recalculateActivities calculateDistance (current # next # rest) h =
     recalculateActivities calculateDistance (next # rest)
       (let c = activityObjs h ! current; n = activityObjs h ! next
        in if truthy_num (a_lat c) \<and> truthy_num (a_lon c) \<and> truthy_num (a_lat n) \<and> truthy_num (a_lon n)
           then h\<lparr>activityObjs := (activityObjs h)
                    [current := c\<lparr>a_travel_time_to_next :=
                       Some (estimateTravelTime
                               (calculateDistance (the (a_lat c)) (the (a_lon c))
                                  (the (a_lat n)) (the (a_lon n))))\<rparr>]\<rparr>
           else h)"
| "recalculateActivities calculateDistance as h = h"

fun recalculateDays ::
  "(real \<Rightarrow> real \<Rightarrow> real \<Rightarrow> real \<Rightarrow> real) \<Rightarrow> addr list \<Rightarrow> heap \<Rightarrow> heap" where
  "recalculateDays calculateDistance [] h = h"
| "recalculateDays calculateDistance (day # days) h =
     recalculateDays calculateDistance days
       (recalculateActivities calculateDistance (activitiesOf h day) h)"

text \<open>
  \<^verbatim>\<open>updateItinerary(itinerary, action, dayNumber, activity)\<close>: the itinerary and the
  activity are references, the day number and the activity may be undefined. The result
  is the reference to the updated itinerary, and the heap after the call.
\<close>

definition applyAction ::
  "addr \<Rightarrow> string \<Rightarrow> real option \<Rightarrow> addr option \<Rightarrow> heap \<Rightarrow> heap" where
  "applyAction updated action dayNumber activity h =
     (if action = ''add_activity'' then
        (if truthy_num dayNumber \<and> activity \<noteq> None
         then addActivity updated (the dayNumber) (the activity) h else h)
      else if action = ''remove_activity'' then
        (if truthy_num dayNumber \<and> truthy_str (poiNameOf h activity)
         then removeActivity updated (the dayNumber) (the (poiNameOf h activity)) h else h)
      else if action = ''update_activity'' then
        (if truthy_num dayNumber \<and> truthy_str (poiNameOf h activity)
         then updateActivity updated (the dayNumber) (the (poiNameOf h activity)) (the activity) h
         else h)
      else if action = ''clear_day'' then
        (if truthy_num dayNumber then clearDay updated (the dayNumber) h else h)
      else h)"

definition updateItinerary ::
  "(real \<Rightarrow> real \<Rightarrow> real \<Rightarrow> real \<Rightarrow> real) \<Rightarrow> addr \<Rightarrow> string \<Rightarrow> real option \<Rightarrow> addr option
     \<Rightarrow> heap \<Rightarrow> addr \<times> heap" where
  "updateItinerary calculateDistance itinerary action dayNumber activity h =
     (let (updated, h1) = parseItinerary (stringifyItinerary h itinerary) h;
          h2 = applyAction updated action dayNumber activity h1;
          h3 = recalculateDays calculateDistance (daysOf h2 updated) h2
      in (updated, h3))"

section \<open>Reading traces and histories\<close>

text \<open>The callbacks, dispatches, requests and frames of a trace, in order.\<close>

fun toolCallbacks :: "event list \<Rightarrow> toolcall list" where
  "toolCallbacks [] = []"
| "toolCallbacks (OnToolCall tc # evs) = tc # toolCallbacks evs"
| "toolCallbacks (_ # evs) = toolCallbacks evs"

fun dispatches :: "event list \<Rightarrow> (string \<times> json) list" where
  "dispatches [] = []"
| "dispatches (Dispatch n a # evs) = (n, a) # dispatches evs"
| "dispatches (_ # evs) = dispatches evs"

fun requests :: "event list \<Rightarrow> request list" where
  "requests [] = []"
| "requests (ApiRequest r # evs) = r # requests evs"
| "requests (_ # evs) = requests evs"

fun errorCallbacks :: "event list \<Rightarrow> thrown list" where
  "errorCallbacks [] = []"
| "errorCallbacks (OnError e # evs) = e # errorCallbacks evs"
| "errorCallbacks (_ # evs) = errorCallbacks evs"

fun frames :: "event list \<Rightarrow> frame list" where
  "frames [] = []"
| "frames (Upstream f # evs) = f # frames evs"
| "frames (_ # evs) = frames evs"

text \<open>
  The callbacks of a trace that change whether the manager's session is active: setup
  complete (\<open>True\<close>) and close (\<open>False\<close>).
\<close>

fun lifecycle :: "event list \<Rightarrow> bool list" where
  "lifecycle [] = []"
| "lifecycle (OnSetupComplete # evs) = True # lifecycle evs"
| "lifecycle (OnClose # evs) = False # lifecycle evs"
| "lifecycle (_ # evs) = lifecycle evs"

text \<open>The \<^verbatim>\<open>tool_call\<close> events sent to the client: tool name and arguments.\<close>

fun toolCallEvents :: "event list \<Rightarrow> (string \<times> json) list" where
  "toolCallEvents [] = []"
| "toolCallEvents (ToClient (ToolCallMsg n a) # evs) = (n, a) # toolCallEvents evs"
| "toolCallEvents (_ # evs) = toolCallEvents evs"

text \<open>
  The tool-result replies and tool-call callbacks of a trace, each with the call id it
  carries.
\<close>

datatype exchange = Reply string | Notify string

fun exchanges :: "event list \<Rightarrow> exchange list" where
  "exchanges [] = []"
| "exchanges (Upstream (ToolResponse i n r) # evs) = Reply i # exchanges evs"
| "exchanges (OnToolCall tc # evs) = Notify (tc_id tc) # exchanges evs"
| "exchanges (_ # evs) = exchanges evs"

text \<open>The non-empty text of a part, and the texts and function calls of a part list.\<close>

definition textOf :: "content_part \<Rightarrow> string list" where
  "textOf part = (case part_text part of None \<Rightarrow> [] | Some t \<Rightarrow> if t = [] then [] else [t])"

definition partTexts :: "content_part list \<Rightarrow> string list" where
  "partTexts parts = concat (map textOf parts)"

definition partCalls :: "content_part list \<Rightarrow> function_call list" where
  "partCalls parts =
     concat (map (\<lambda>p. case part_functionCall p of None \<Rightarrow> [] | Some fc \<Rightarrow> [fc]) parts)"

definition modelTextTurn :: "string \<Rightarrow> turn" where
  "modelTextTurn t = \<lparr>role = ''model'', turn_text = t\<rparr>"

definition userTurn :: "string \<Rightarrow> turn" where
  "userTurn t = \<lparr>role = ''user'', turn_text = t\<rparr>"

definition functionTurn :: "'w env \<Rightarrow> string \<Rightarrow> json \<Rightarrow> turn" where
  "functionTurn env n r = \<lparr>role = ''function'', turn_text = functionTurnText env n r\<rparr>"

text \<open>The request a client with a given history sends.\<close>

definition requestOf :: "text_client \<Rightarrow> request" where
  "requestOf c =
     \<lparr>req_contents = conversationHistory c, req_systemInstruction = systemInstruction c,
      req_tools = getToolsForGemini\<rparr>"

definition firstRequest :: "string \<Rightarrow> text_client \<Rightarrow> request" where
  "firstRequest userText c = requestOf (pushTurn ''user'' userText c)"

text \<open>
  What the outcome of the first request of a turn means for the turn: the error it is
  aborted with (none or one), and the parts that are processed. The turn is aborted when
  the request throws, when the response carries an error object, and when the first
  candidate of the response has no content or no parts.
\<close>

definition turnFails :: "thrown + response \<Rightarrow> thrown list" where
  "turnFails out =
     (case out of
        Inl e \<Rightarrow> [asError e]
      | Inr resp \<Rightarrow>
          (case resp_error resp of
             Some m \<Rightarrow> [Error m]
           | None \<Rightarrow>
               (case firstCandidate resp of
                  Some None \<Rightarrow> [typeError ''undefined'' ''parts'']
                | Some (Some None) \<Rightarrow> [notIterable ''parts'']
                | _ \<Rightarrow> [])))"

definition turnParts :: "thrown + response \<Rightarrow> content_part list" where
  "turnParts out =
     (case out of
        Inl e \<Rightarrow> []
      | Inr resp \<Rightarrow>
          (case resp_error resp of
             Some m \<Rightarrow> []
           | None \<Rightarrow> (case firstCandidate resp of Some (Some (Some parts)) \<Rightarrow> parts | _ \<Rightarrow> [])))"

text \<open>The texts of a follow-up response that are appended and emitted.\<close>

definition followUpTexts :: "thrown + response \<Rightarrow> string list" where
  "followUpTexts r =
     (case r of
        Inl e \<Rightarrow> []
      | Inr resp \<Rightarrow>
          (case firstCandidate resp of Some (Some (Some parts)) \<Rightarrow> partTexts parts | _ \<Rightarrow> []))"

text \<open>The function calls of a live frame that are handled.\<close>

definition requestedCalls :: "live_message \<Rightarrow> live_call list" where
  "requestedCalls msg = (case toolCall msg of Some (Some functionCalls) \<Rightarrow> functionCalls | _ \<Rightarrow> [])"

text \<open>What a dispatch outcome is replied upstream as, and the result the callback carries.\<close>

definition toolReply :: "thrown + json \<Rightarrow> json" where
  "toolReply r =
     (case r of Inr result \<Rightarrow> result | Inl error \<Rightarrow> JObj [(''error'', JStr (errorMessage error))])"

definition toolResult :: "thrown + json \<Rightarrow> json option" where
  "toolResult r = (case r of Inr result \<Rightarrow> Some result | Inl error \<Rightarrow> None)"

text \<open>
  The history invariant as the data model states it, as far as a history of text turns can
  express it: every \<^verbatim>\<open>function\<close> turn comes directly after a \<^verbatim>\<open>model\<close> turn.
  \<open>prev\<close> is the role of the turn before the list.
\<close>

fun answersModelTurn :: "string option \<Rightarrow> turn list \<Rightarrow> bool" where
  "answersModelTurn prev [] = True"
| "answersModelTurn prev (t # ts) =
     ((role t = ''function'' \<longrightarrow> prev = Some ''model'') \<and> answersModelTurn (Some (role t)) ts)"

text \<open>
  The invariant the session keeps: every \<^verbatim>\<open>function\<close> turn comes directly after a
  \<^verbatim>\<open>user\<close>, \<^verbatim>\<open>model\<close> or \<^verbatim>\<open>function\<close> turn.
\<close>

fun followsTurn :: "string option \<Rightarrow> turn list \<Rightarrow> bool" where
  "followsTurn prev [] = True"
| "followsTurn prev (t # ts) =
     ((role t = ''function'' \<longrightarrow> prev \<in> {Some ''user'', Some ''model'', Some ''function''})
      \<and> followsTurn (Some (role t)) ts)"

definition replyTurn :: "turn \<Rightarrow> bool" where
  "replyTurn t = (role t = ''model'' \<or> role t = ''function'')"

text \<open>Every \<^verbatim>\<open>type\<close> value of a tool declaration: of the parameters, of each property, of each item.\<close>

definition typeValues :: "tool_definition \<Rightarrow> string list" where
  "typeValues tool =
     td_param_type tool #
     concat (map (\<lambda>(k, p). (case p_type p of None \<Rightarrow> [] | Some t \<Rightarrow> [t])
                            @ (case p_items p of None \<Rightarrow> [] | Some t \<Rightarrow> [t]))
               (td_properties tool))"

section \<open>Example environments\<close>

text \<open>
  A scripted environment: the \<open>n\<close>-th request gets the \<open>n\<close>-th scripted outcome, the
  \<open>n\<close>-th connection attempt sees the \<open>n\<close>-th scripted list of socket events, and the
  dispatcher (its outcome, and the arguments as it leaves them) is a function of the tool
  name and arguments.
\<close>

record script_world =
  apiCalls :: nat
  connects :: nat

definition scripted_env ::
  "(thrown + response) list \<Rightarrow> ws_event list list
     \<Rightarrow> (string \<Rightarrow> json \<Rightarrow> (thrown + json) \<times> json) \<Rightarrow> script_world env" where
  "scripted_env script handshakes tool =
     \<lparr>api = (\<lambda>w req. (if apiCalls w < length script then script ! apiCalls w
                       else Inl (Error ''offline''),
                       w\<lparr>apiCalls := Suc (apiCalls w)\<rparr>)),
      dispatch = (\<lambda>w name args. (fst (tool name args), snd (tool name args), w)),
      stringify = (\<lambda>j. ''{}''),
      dateNow = (\<lambda>w. ''0''),
      isoNow = (\<lambda>w. ''1970-01-01T00:00:00.000Z''),
      getSystemInstruction = (\<lambda>w. ''You are a travel assistant.''),
      transport = (\<lambda>w. (if connects w < length handshakes then handshakes ! connects w else [],
                        w\<lparr>connects := Suc (connects w)\<rparr>))\<rparr>"

definition w0 :: script_world where
  "w0 = \<lparr>apiCalls = 0, connects = 0\<rparr>"

definition io0 :: "script_world io" where
  "io0 = \<lparr>world = w0, trace = []\<rparr>"

definition io1 :: "script_world io" where
  "io1 = \<lparr>world = w0\<lparr>apiCalls := 1\<rparr>, trace = []\<rparr>"

definition callPart :: "string \<Rightarrow> json \<Rightarrow> content_part" where
  "callPart n a = \<lparr>part_text = None, part_functionCall = Some \<lparr>fc_name = n, fc_args = a\<rparr>\<rparr>"

definition textPart :: "string \<Rightarrow> content_part" where
  "textPart t = \<lparr>part_text = Some t, part_functionCall = None\<rparr>"

definition okResponse :: "content_part list \<Rightarrow> thrown + response" where
  "okResponse parts = Inr \<lparr>resp_error = None, resp_candidates = Some [Some (Some parts)]\<rparr>"

text \<open>A response whose only candidate was blocked: it has a finish reason and no content.\<close>

definition blockedResponse :: "thrown + response" where
  "blockedResponse = Inr \<lparr>resp_error = None, resp_candidates = Some [None]\<rparr>"

definition okTool :: "string \<Rightarrow> json \<Rightarrow> (thrown + json) \<times> json" where
  "okTool n a = (Inr (JObj [(''success'', JBool True)]), a)"

text \<open>A dispatcher whose weather lookup throws.\<close>

definition flakyTool :: "string \<Rightarrow> json \<Rightarrow> (thrown + json) \<times> json" where
  "flakyTool n a =
     (if n = ''get_weather'' then (Inl (Error ''weather service down''), a)
      else (Inr (JObj [(''success'', JBool True)]), a))"

definition jaipur :: json where
  "jaipur = JObj [(''destination'', JStr ''Jaipur'')]"

text \<open>The model asks for the weather, then answers in text.\<close>

definition weather_env :: "script_world env" where
  "weather_env =
     scripted_env [okResponse [callPart ''get_weather'' jaipur], okResponse [textPart ''Sunny.'']]
       [] okTool"

text \<open>
  The connection attempt is refused; the model asks for two tools in one response; the
  weather lookup fails.
\<close>

definition two_calls_env :: "script_world env" where
  "two_calls_env =
     scripted_env
       [okResponse [callPart ''poi_search'' jaipur, callPart ''get_weather'' jaipur],
        okResponse [textPart ''Found places.''], okResponse [textPart ''No forecast.'']]
       [[WsError (Error ''connect ECONNREFUSED''), WsClose ''1006'' ''none'']] flakyTool"

text \<open>The follow-up request after the tool call fails; the first response goes on in text.\<close>

definition broken_followup_env :: "script_world env" where
  "broken_followup_env =
     scripted_env
       [okResponse [callPart ''poi_search'' jaipur, textPart ''Here you go.''],
        Inl (Error ''API request failed: 503'')]
       [] okTool"

text \<open>The very first request fails.\<close>

definition offline_env :: "script_world env" where
  "offline_env = scripted_env [Inl (Error ''API request failed: 500'')] [] okTool"

text \<open>The first request is answered with a blocked candidate.\<close>

definition blocked_env :: "script_world env" where
  "blocked_env = scripted_env [blockedResponse] [] okTool"

text \<open>A connected Live Session and a tool-call frame with two calls.\<close>

definition openClient :: live_client where
  "openClient =
     \<lparr>lv_systemInstruction = ''You are a travel assistant.'', ws = Some OPEN,
      isConnected = True, isDisconnecting = False\<rparr>"

definition twoCallsFrame :: live_message where
  "twoCallsFrame =
     \<lparr>setupComplete = False, serverContent = None,
      toolCall = Some (Some [\<lparr>lc_id = ''c1'', lc_name = ''poi_search'', lc_args = jaipur\<rparr>,
                              \<lparr>lc_id = ''c2'', lc_name = ''get_weather'', lc_args = jaipur\<rparr>])\<rparr>"

text \<open>
  The same session once its socket has closed: what a handler that was waiting for the
  dispatcher finds when it goes on.
\<close>

definition closedClient :: live_client where
  "closedClient = openClient\<lparr>ws := Some CLOSED, isConnected := False\<rparr>"

definition freshClient :: text_client where
  "freshClient = newTextClient ''You are a travel assistant.''"

text \<open>Socket events of a refused and of a completed handshake.\<close>

definition setupCompleteFrame :: live_message where
  "setupCompleteFrame = \<lparr>setupComplete = True, serverContent = None, toolCall = None\<rparr>"

definition refused :: "ws_event list" where
  "refused = [WsError (Error ''connect ECONNREFUSED''), WsClose ''1006'' ''none'']"

definition established :: "ws_event list" where
  "established = [WsOpen, WsMessage (Some setupCompleteFrame)]"

text \<open>
  The first connection attempt is refused, the second one succeeds; the fallback endpoint
  answers in text.
\<close>

definition reset_env :: "script_world env" where
  "reset_env =
     scripted_env [okResponse [textPart ''Hello.''], okResponse [textPart ''Again.'']]
       [refused, established] okTool"

text \<open>The connection attempt succeeds; the weather lookup fails.\<close>

definition live_env :: "script_world env" where
  "live_env = scripted_env [] [established] flakyTool"

text \<open>
  The socket opens, but no setup-complete frame arrives before the connection timer
  fires.
\<close>

definition slow_env :: "script_world env" where
  "slow_env = scripted_env [okResponse [textPart ''Hello.'']] [[WsOpen]] okTool"

text \<open>
  A connection whose Live Session was refused, after one text turn in fallback mode and a
  reset during which the Live Session connects.
\<close>

definition after_reset :: "script_world manager" where
  "after_reset =
     handleClientMessages reset_env [TextData (Some ''A''), Control (Some Reset)]
       (handleClientConnection reset_env w0)"

text \<open>The state variables of the manager that say whether a session is ready, and in which mode.\<close>

definition liveReady :: "'w manager \<Rightarrow> bool" where
  "liveReady m =
     (case geminiClient m of
        None \<Rightarrow> False
      | Some c \<Rightarrow> isSessionActive m \<and> isConnected c \<and> ws c = Some OPEN)"

definition fallbackReady :: "'w manager \<Rightarrow> bool" where
  "fallbackReady m = (isSessionActive m \<and> useTextFallback m \<and> geminiTextClient m \<noteq> None)"

text \<open>No frame of a list of socket events completes the setup.\<close>

definition setupNeverCompletes :: "ws_event list \<Rightarrow> bool" where
  "setupNeverCompletes evs =
     list_all (\<lambda>ev. case ev of WsMessage (Some msg) \<Rightarrow> \<not> setupComplete msg | _ \<Rightarrow> True) evs"

text \<open>The states the connection of \<open>reset_env\<close> goes through.\<close>

definition m_fallback :: "script_world manager" where
  "m_fallback =
     \<lparr>geminiClient = Some \<lparr>lv_systemInstruction = ''You are a travel assistant.'',
                            ws = Some CLOSED, isConnected = False, isDisconnecting = False\<rparr>,
      geminiTextClient = Some freshClient,
      isSessionActive = True, isClientConnected = True, isInitializing = False,
      useTextFallback = True, clientOpen = True,
      mio = \<lparr>world = \<lparr>apiCalls = 0, connects = Suc 0\<rparr>,
             trace = [ToClient (Status ''connecting'' ''Connecting to AI...''),
                      ToClient (ErrorMsg (Some ''connect ECONNREFUSED'') None),
                      ToClient (Status ''disconnected'' ''AI connection closed''),
                      ToClient (Status ''ready'' ''AI assistant ready (text mode)'')]\<rparr>\<rparr>"

definition talked :: text_client where
  "talked = freshClient\<lparr>conversationHistory := [userTurn ''A'', modelTextTurn ''Hello.'']\<rparr>"

definition m_talked :: "script_world manager" where
  "m_talked =
     m_fallback\<lparr>geminiTextClient := Some talked,
       mio := \<lparr>world = \<lparr>apiCalls = Suc 0, connects = Suc 0\<rparr>,
               trace = trace (mio m_fallback) @
                 [ToClient (Transcript ''A'' False ''user''),
                  ApiRequest (firstRequest ''A'' freshClient),
                  ToClient (Transcript ''Hello.'' False ''assistant'')]\<rparr>\<rparr>"

definition m_reset :: "script_world manager" where
  "m_reset =
     m_talked\<lparr>geminiClient := Some openClient,
       mio := \<lparr>world = \<lparr>apiCalls = Suc 0, connects = Suc (Suc 0)\<rparr>,
               trace = trace (mio m_talked) @
                 [ToClient (Status ''connecting'' ''Connecting to AI...''),
                  Upstream (Setup gemini_model ''You are a travel assistant.'' getToolsForGemini),
                  ToClient (Status ''ready'' ''AI assistant ready'')]\<rparr>\<rparr>"

text \<open>The connection of \<open>live_env\<close> once the Live Session is ready.\<close>

definition m_live :: "script_world manager" where
  "m_live =
     \<lparr>geminiClient = Some openClient, geminiTextClient = None,
      isSessionActive = True, isClientConnected = True, isInitializing = False,
      useTextFallback = False, clientOpen = True,
      mio = \<lparr>world = \<lparr>apiCalls = 0, connects = Suc 0\<rparr>,
             trace = [ToClient (Status ''connecting'' ''Connecting to AI...''),
                      Upstream (Setup gemini_model ''You are a travel assistant.'' getToolsForGemini),
                      ToClient (Status ''ready'' ''AI assistant ready'')]\<rparr>\<rparr>"

text \<open>
  The connection of \<open>slow_env\<close> after the connection timer has fired: the manager has
  fallen back, and it still holds the Live Session, whose socket is open and whose
  handlers are installed.
\<close>

definition m_slow :: "script_world manager" where
  "m_slow =
     \<lparr>geminiClient = Some \<lparr>lv_systemInstruction = ''You are a travel assistant.'',
                            ws = Some OPEN, isConnected = False, isDisconnecting = False\<rparr>,
      geminiTextClient = Some freshClient,
      isSessionActive = True, isClientConnected = True, isInitializing = False,
      useTextFallback = True, clientOpen = True,
      mio = \<lparr>world = \<lparr>apiCalls = 0, connects = Suc 0\<rparr>,
             trace = [ToClient (Status ''connecting'' ''Connecting to AI...''),
                      Upstream (Setup gemini_model ''You are a travel assistant.'' getToolsForGemini),
                      ToClient (Status ''ready'' ''AI assistant ready (text mode)'')]\<rparr>\<rparr>"

text \<open>The same connection after the setup-complete frame has arrived at last.\<close>

definition late_setup :: "script_world manager" where
  "late_setup =
     handleUpstreamEvent slow_env (WsMessage (Some setupCompleteFrame))
       (handleClientConnection slow_env w0)"

section \<open>Example collaborators\<close>

text \<open>
  Collaborators for the examples: the point-of-interest search finds nothing, the weather
  service throws, everything else answers with an empty object.
\<close>

definition example_collaborators :: "unit collaborators" where
  "example_collaborators =
     \<lparr>c_searchPOIs = (\<lambda>x destination category interests limit. (Inr [], x)),
      c_getCityInfo = (\<lambda>x destination topic. (Inr (JObj []), x)),
      c_getWeather = (\<lambda>x destination date. (Inl (Error ''weather service down''), x)),
      c_searchDestinationInfo = (\<lambda>x destination queryType. (Inr (JObj []), x)),
      c_buildItinerary = (\<lambda>x pois numDays preferences. (Inr (JObj []), x)),
      c_updateItinerary = (\<lambda>itinerary action dayNumber activity. Inr itinerary),
      c_calculateDistance = (\<lambda>lat1 lon1 lat2 lon2. JNum 0),
      c_estimateTravelTime = (\<lambda>distance mode. JNum 10),
      c_jsonParse = (\<lambda>s. Inl (Error ''Unexpected token'')),
      c_template = (\<lambda>v. case v of Some (JStr s) \<Rightarrow> s | _ \<Rightarrow> ''undefined'')\<rparr>"

definition newDispatcher :: "unit dispatcher" where
  "newDispatcher = \<lparr>currentItinerary = JNull, poiCoordinates = Map.empty, outside = ()\<rparr>"

text \<open>The message of the result returned when a tool is called without a destination.\<close>

definition destinationRequired :: "string \<Rightarrow> string" where
  "destinationRequired toolName =
     (if toolName = ''poi_search'' then ''Destination is required for POI search''
      else if toolName = ''get_city_info'' then ''Destination is required for city info''
      else if toolName = ''get_weather'' then ''Destination is required for weather''
      else ''Destination is required for web search'')"


text \<open>
  A request to set the itinerary from an object, with a name for it, and the dispatcher of
  the examples as a session calls it in its initial state.
\<close>

definition setRequest :: json where
  "setRequest =
     JObj [(''action'', JStr ''set''),
           (''name'', JStr ''Pink City Adventure''),
           (''full_itinerary'',
            JObj [(''destination'', JStr ''Jaipur''), (''days'', JArr [])])]"

definition exampleTool :: "string \<Rightarrow> json \<Rightarrow> (thrown + json) \<times> json" where
  "exampleTool n a =
     (fst (dispatchWith example_collaborators newDispatcher n a),
      fst (snd (dispatchWith example_collaborators newDispatcher n a)))"

definition itinerary_env :: "script_world env" where
  "itinerary_env = scripted_env [] [established] exampleTool"

section \<open>Reading heaps\<close>

text \<open>
  \<open>preserved h h'\<close>: every object and array of \<open>h\<close> is in \<open>h'\<close>, at the same address and
  with the same contents; \<open>h'\<close> may hold more.
\<close>

definition startsWith :: "'a list \<Rightarrow> 'a list \<Rightarrow> bool" where
  "startsWith ys xs = (take (length xs) ys = xs)"

definition preserved :: "heap \<Rightarrow> heap \<Rightarrow> bool" where
  "preserved h h' =
     (startsWith (itineraryObjs h') (itineraryObjs h)
      \<and> startsWith (dayArrays h') (dayArrays h)
      \<and> startsWith (dayObjs h') (dayObjs h)
      \<and> startsWith (activityArrays h') (activityArrays h)
      \<and> startsWith (activityObjs h') (activityObjs h))"

text \<open>
  A day of \<open>h\<close> that did not exist in \<open>h0\<close>, whose array did not exist in \<open>h0\<close>, and whose
  activities (all of them when \<open>strict\<close>, all but the last one otherwise) did not exist
  in \<open>h0\<close>; and an itinerary all of whose parts are new in this sense.
\<close>

definition newDayIn :: "bool \<Rightarrow> heap \<Rightarrow> heap \<Rightarrow> addr \<Rightarrow> bool" where
  "newDayIn strict h0 h d =
     (length (dayObjs h0) \<le> d \<and> d < length (dayObjs h)
      \<and> length (activityArrays h0) \<le> d_activities (dayObjs h ! d)
      \<and> d_activities (dayObjs h ! d) < length (activityArrays h)
      \<and> list_all (\<lambda>a. length (activityObjs h0) \<le> a)
           (if strict then activitiesOf h d else butlast (activitiesOf h d)))"

definition newItineraryIn :: "bool \<Rightarrow> heap \<Rightarrow> heap \<Rightarrow> addr \<Rightarrow> bool" where
  "newItineraryIn strict h0 h it =
     (length (itineraryObjs h0) \<le> it \<and> it < length (itineraryObjs h)
      \<and> length (dayArrays h0) \<le> it_days (itineraryObjs h ! it)
      \<and> it_days (itineraryObjs h ! it) < length (dayArrays h)
      \<and> list_all (newDayIn strict h0 h) (daysOf h it))"

text \<open>
  An itinerary all of whose references point into the heap, so that it can be read.
\<close>

definition validDay :: "heap \<Rightarrow> addr \<Rightarrow> bool" where
  "validDay h d =
     (d < length (dayObjs h) \<and> d_activities (dayObjs h ! d) < length (activityArrays h)
      \<and> list_all (\<lambda>a. a < length (activityObjs h)) (activitiesOf h d))"

definition validItinerary :: "heap \<Rightarrow> addr \<Rightarrow> bool" where
  "validItinerary h it =
     (it < length (itineraryObjs h) \<and> it_days (itineraryObjs h ! it) < length (dayArrays h)
      \<and> list_all (validDay h) (daysOf h it))"

section \<open>Example heap\<close>

text \<open>
  An example heap: one itinerary with one day and two activities that have coordinates.
  \<open>flat\<close> stands in for the haversine distance.
\<close>

definition place :: "string \<Rightarrow> real \<Rightarrow> real \<Rightarrow> activity" where
  "place name la lo =
     \<lparr>a_time_slot = Some ''Morning'', a_poi_name = Some name, a_poi_id = None,
      a_duration_minutes = Some 60, a_travel_time_to_next = None, a_notes = Some [],
      a_source = None, a_lat = Some la, a_lon = Some lo\<rparr>"

definition tripHeap :: heap where
  "tripHeap =
     \<lparr>itineraryObjs = [\<lparr>it_name = Some ''Pink City Adventure'', it_destination = ''Jaipur'',
                        it_days = 0, it_sources = []\<rparr>],
      dayArrays = [[0]],
      dayObjs = [\<lparr>d_day_number = 1, d_date = None, d_activities = 0\<rparr>],
      activityArrays = [[0, 1]],
      activityObjs = [place ''Amber Fort'' 27 76, place ''City Palace'' 26 75]\<rparr>"

definition flat :: "real \<Rightarrow> real \<Rightarrow> real \<Rightarrow> real \<Rightarrow> real" where
  "flat lat1 lon1 lat2 lon2 = 10"

section \<open>Properties of the Fallback Session\<close>

lemma toolCallbacks_append [simp]: "toolCallbacks (xs @ ys) = toolCallbacks xs @ toolCallbacks ys"
  by (induction xs rule: toolCallbacks.induct) simp_all

lemma dispatches_append [simp]: "dispatches (xs @ ys) = dispatches xs @ dispatches ys"
  by (induction xs rule: dispatches.induct) simp_all

lemma requests_append [simp]: "requests (xs @ ys) = requests xs @ requests ys"
  by (induction xs rule: requests.induct) simp_all

lemma errorCallbacks_append [simp]:
  "errorCallbacks (xs @ ys) = errorCallbacks xs @ errorCallbacks ys"
  by (induction xs rule: errorCallbacks.induct) simp_all

lemma frames_append [simp]: "frames (xs @ ys) = frames xs @ frames ys"
  by (induction xs rule: frames.induct) simp_all

lemma exchanges_append [simp]: "exchanges (xs @ ys) = exchanges xs @ exchanges ys"
  by (induction xs rule: exchanges.induct) simp_all

lemma toolCallEvents_append [simp]:
  "toolCallEvents (xs @ ys) = toolCallEvents xs @ toolCallEvents ys"
  by (induction xs rule: toolCallEvents.induct) simp_all

lemma lifecycle_append [simp]: "lifecycle (xs @ ys) = lifecycle xs @ lifecycle ys"
  by (induction xs rule: lifecycle.induct) simp_all

lemma proj_OnText [simp]:
  "toolCallbacks (map OnText ts) = []" "dispatches (map OnText ts) = []"
  "requests (map OnText ts) = []" "errorCallbacks (map OnText ts) = []"
  "frames (map OnText ts) = []" "toolCallEvents (map OnText ts) = []"
  "lifecycle (map OnText ts) = []"
  by (induction ts) simp_all

lemma proj_OnError [simp]:
  "toolCallbacks (map OnError es) = []" "dispatches (map OnError es) = []"
  "requests (map OnError es) = []" "errorCallbacks (map OnError es) = es"
  "toolCallEvents (map OnError es) = []" "lifecycle (map OnError es) = []"
  by (induction es) simp_all

text \<open>Each operation of the session, written as what it appends.\<close>

lemma modelText_eq:
  "modelText part (c, io) =
     (c\<lparr>conversationHistory := conversationHistory c @ map modelTextTurn (textOf part)\<rparr>,
      io\<lparr>trace := trace io @ map OnText (textOf part)\<rparr>)"
  by (simp add: modelText_def textOf_def pushTurn_def emit_def modelTextTurn_def split: option.splits)

lemma followUpParts_eq:
  "followUpParts parts (c, io) =
     (c\<lparr>conversationHistory := conversationHistory c @ map modelTextTurn (partTexts parts)\<rparr>,
      io\<lparr>trace := trace io @ map OnText (partTexts parts)\<rparr>)"
  by (induction parts arbitrary: c io) (simp_all add: modelText_eq partTexts_def)

lemma callGeminiAPI_eq:
  "callGeminiAPI env c io =
     (fst (api env (world io) (requestOf c)),
      \<lparr>world = snd (api env (world io) (requestOf c)),
       trace = trace io @ [ApiRequest (requestOf c)]\<rparr>)"
  by (simp add: callGeminiAPI_def requestOf_def emit_def Let_def split: prod.splits)

lemma sendToolResponse_eq:
  "sendToolResponse env n r (c, io) =
     (let c1 = pushTurn ''function'' (functionTurnText env n r) c;
          out = api env (world io) (requestOf c1);
          texts = followUpTexts (fst out)
      in (c1\<lparr>conversationHistory := conversationHistory c1 @ map modelTextTurn texts\<rparr>,
          \<lparr>world = snd out, trace = trace io @ ApiRequest (requestOf c1) # map OnText texts\<rparr>))"
  by (simp add: sendToolResponse_def callGeminiAPI_eq followUpTexts_def followUpParts_eq Let_def
        partsOf_def split: sum.splits option.splits)

text \<open>
  One function call of the part loop: the dispatch, the callback (with the arguments as
  the dispatcher left them and the result, or null), and the round trip.
\<close>

lemma runFunctionCall_eq:
  "runFunctionCall env fc (c, io) =
     (let (r, left, w) = dispatch env (world io) (fc_name fc) (fc_args fc)
      in sendToolResponse env (fc_name fc) (toolReply r)
           (c, \<lparr>world = w,
                trace = trace io @
                  [Dispatch (fc_name fc) (fc_args fc),
                   OnToolCall \<lparr>tc_id = ''call_'' @ dateNow env (world io), tc_name = fc_name fc,
                               tc_args = left, tc_result = toolResult r\<rparr>]\<rparr>))"
  by (cases io)
     (simp add: runFunctionCall_def callTool_def emit_def toolReply_def toolResult_def Let_def
        split: prod.splits sum.splits)

lemma runFunctionCall_proj:
  "dispatches (trace (snd (runFunctionCall env fc (c, io))))
     = dispatches (trace io) @ [(fc_name fc, fc_args fc)]"
  "map tc_name (toolCallbacks (trace (snd (runFunctionCall env fc (c, io)))))
     = map tc_name (toolCallbacks (trace io)) @ [fc_name fc]"
  "length (requests (trace (snd (runFunctionCall env fc (c, io)))))
     = Suc (length (requests (trace io)))"
  "errorCallbacks (trace (snd (runFunctionCall env fc (c, io)))) = errorCallbacks (trace io)"
  "toolCallEvents (trace (snd (runFunctionCall env fc (c, io)))) = toolCallEvents (trace io)"
  "lifecycle (trace (snd (runFunctionCall env fc (c, io)))) = lifecycle (trace io)"
  by (simp_all add: runFunctionCall_eq sendToolResponse_eq Let_def split: prod.splits)

lemma modelText_proj:
  "dispatches (trace (snd (modelText p (c, io)))) = dispatches (trace io)"
  "toolCallbacks (trace (snd (modelText p (c, io)))) = toolCallbacks (trace io)"
  "requests (trace (snd (modelText p (c, io)))) = requests (trace io)"
  "errorCallbacks (trace (snd (modelText p (c, io)))) = errorCallbacks (trace io)"
  "toolCallEvents (trace (snd (modelText p (c, io)))) = toolCallEvents (trace io)"
  "lifecycle (trace (snd (modelText p (c, io)))) = lifecycle (trace io)"
  by (simp_all add: modelText_eq)

lemma sendTextParts_dispatches:
  "dispatches (trace (snd (sendTextParts env parts s)))
     = dispatches (trace (snd s)) @ map (\<lambda>fc. (fc_name fc, fc_args fc)) (partCalls parts)"
proof (induction parts arbitrary: s)
  case Nil
  then show ?case by (simp add: partCalls_def)
next
  case (Cons p ps)
  obtain c io where s: "s = (c, io)" by (cases s)
  obtain c1 io1 where m: "modelText p (c, io) = (c1, io1)" by (cases "modelText p (c, io)")
  have t: "dispatches (trace io1) = dispatches (trace io)"
    using modelText_proj(1)[of p c io] m by simp
  show ?case
    using Cons.IH t runFunctionCall_proj(1)[of env _ c1 io1]
    by (simp add: s m partCalls_def split: option.splits)
qed

lemma sendTextParts_toolCallbacks:
  "map tc_name (toolCallbacks (trace (snd (sendTextParts env parts s))))
     = map tc_name (toolCallbacks (trace (snd s))) @ map fc_name (partCalls parts)"
proof (induction parts arbitrary: s)
  case Nil
  then show ?case by (simp add: partCalls_def)
next
  case (Cons p ps)
  obtain c io where s: "s = (c, io)" by (cases s)
  obtain c1 io1 where m: "modelText p (c, io) = (c1, io1)" by (cases "modelText p (c, io)")
  have t: "toolCallbacks (trace io1) = toolCallbacks (trace io)"
    using modelText_proj(2)[of p c io] m by simp
  show ?case
    using Cons.IH t runFunctionCall_proj(2)[of env _ c1 io1]
    by (simp add: s m partCalls_def split: option.splits)
qed

lemma sendTextParts_requests:
  "length (requests (trace (snd (sendTextParts env parts s))))
     = length (requests (trace (snd s))) + length (partCalls parts)"
proof (induction parts arbitrary: s)
  case Nil
  then show ?case by (simp add: partCalls_def)
next
  case (Cons p ps)
  obtain c io where s: "s = (c, io)" by (cases s)
  obtain c1 io1 where m: "modelText p (c, io) = (c1, io1)" by (cases "modelText p (c, io)")
  have t: "requests (trace io1) = requests (trace io)"
    using modelText_proj(3)[of p c io] m by simp
  show ?case
    using Cons.IH t runFunctionCall_proj(3)[of env _ c1 io1]
    by (simp add: s m partCalls_def split: option.splits)
qed

lemma sendTextParts_errorCallbacks:
  "errorCallbacks (trace (snd (sendTextParts env parts s))) = errorCallbacks (trace (snd s))"
proof (induction parts arbitrary: s)
  case Nil
  then show ?case by simp
next
  case (Cons p ps)
  obtain c io where s: "s = (c, io)" by (cases s)
  obtain c1 io1 where m: "modelText p (c, io) = (c1, io1)" by (cases "modelText p (c, io)")
  have t: "errorCallbacks (trace io1) = errorCallbacks (trace io)"
    using modelText_proj(4)[of p c io] m by simp
  show ?case
    using Cons.IH t runFunctionCall_proj(4)[of env _ c1 io1]
    by (simp add: s m split: option.splits)
qed

lemma sendTextParts_toolCallEvents:
  "toolCallEvents (trace (snd (sendTextParts env parts s))) = toolCallEvents (trace (snd s))"
proof (induction parts arbitrary: s)
  case Nil
  then show ?case by simp
next
  case (Cons p ps)
  obtain c io where s: "s = (c, io)" by (cases s)
  obtain c1 io1 where m: "modelText p (c, io) = (c1, io1)" by (cases "modelText p (c, io)")
  have t: "toolCallEvents (trace io1) = toolCallEvents (trace io)"
    using modelText_proj(5)[of p c io] m by simp
  show ?case
    using Cons.IH t runFunctionCall_proj(5)[of env _ c1 io1]
    by (simp add: s m split: option.splits)
qed

lemma sendTextParts_lifecycle:
  "lifecycle (trace (snd (sendTextParts env parts s))) = lifecycle (trace (snd s))"
proof (induction parts arbitrary: s)
  case Nil
  then show ?case by simp
next
  case (Cons p ps)
  obtain c io where s: "s = (c, io)" by (cases s)
  obtain c1 io1 where m: "modelText p (c, io) = (c1, io1)" by (cases "modelText p (c, io)")
  have t: "lifecycle (trace io1) = lifecycle (trace io)"
    using modelText_proj(6)[of p c io] m by simp
  show ?case
    using Cons.IH t runFunctionCall_proj(6)[of env _ c1 io1]
    by (simp add: s m split: option.splits)
qed

lemma modelText_history:
  "\<exists>ts. conversationHistory (fst (modelText p s)) = conversationHistory (fst s) @ ts
        \<and> list_all replyTurn ts"
  by (cases s)
     (simp add: modelText_eq modelTextTurn_def replyTurn_def textOf_def split: option.splits)

lemma runFunctionCall_history:
  "\<exists>ts. conversationHistory (fst (runFunctionCall env fc s)) = conversationHistory (fst s) @ ts
        \<and> list_all replyTurn ts"
  by (cases s)
     (auto simp add: runFunctionCall_eq sendToolResponse_eq Let_def pushTurn_def
        modelTextTurn_def replyTurn_def list_all_iff split: prod.splits)

lemma sendTextParts_history:
  "\<exists>ts. conversationHistory (fst (sendTextParts env parts s)) = conversationHistory (fst s) @ ts
        \<and> list_all replyTurn ts"
proof (induction parts arbitrary: s)
  case Nil
  then show ?case by simp
next
  case (Cons p ps)
  let ?s1 = "modelText p s"
  let ?s2 = "case part_functionCall p of None \<Rightarrow> ?s1 | Some fc \<Rightarrow> runFunctionCall env fc ?s1"
  obtain ts1 where 1: "conversationHistory (fst ?s1) = conversationHistory (fst s) @ ts1"
      "list_all replyTurn ts1"
    using modelText_history by blast
  obtain ts2 where 2: "conversationHistory (fst ?s2) = conversationHistory (fst ?s1) @ ts2"
      "list_all replyTurn ts2"
  proof (cases "part_functionCall p")
    case None
    then show ?thesis using that[of "[]"] by simp
  next
    case (Some fc)
    then show ?thesis using runFunctionCall_history[of env fc ?s1] that by auto
  qed
  obtain ts3 where 3:
      "conversationHistory (fst (sendTextParts env ps ?s2)) = conversationHistory (fst ?s2) @ ts3"
      "list_all replyTurn ts3"
    using Cons.IH by blast
  have "conversationHistory (fst (sendTextParts env (p # ps) s))
          = conversationHistory (fst s) @ (ts1 @ ts2 @ ts3)"
    using 1 2 3 by simp
  moreover have "list_all replyTurn (ts1 @ ts2 @ ts3)" using 1 2 3 by simp
  ultimately show ?case by blast
qed

lemma sendText_eq:
  "sendText env t (c, io) =
     (let c1 = pushTurn ''user'' t c;
          out = api env (world io) (firstRequest t c);
          io1 = \<lparr>world = snd out, trace = trace io @ [ApiRequest (firstRequest t c)]\<rparr>
      in if turnFails (fst out) \<noteq> []
         then (c1, io1\<lparr>trace := trace io1 @ map OnError (turnFails (fst out))\<rparr>)
         else sendTextParts env (turnParts (fst out)) (c1, io1))"
  by (simp add: sendText_def sendTextTry_def callGeminiAPI_eq firstRequest_def turnFails_def
        turnParts_def partsOf_def asError_def typeError_def notIterable_def Let_def emit_def
        split: sum.splits option.splits)

lemma turnFails_parts: "turnFails out \<noteq> [] \<Longrightarrow> turnParts out = []"
  by (simp add: turnFails_def turnParts_def split: sum.splits option.splits)

lemma sendText_toolCallbacks:
  "map tc_name (toolCallbacks (trace (snd (sendText env t (c, io)))))
     = map tc_name (toolCallbacks (trace io))
       @ map fc_name (partCalls (turnParts (fst (api env (world io) (firstRequest t c)))))"
  by (simp add: sendText_eq Let_def sendTextParts_toolCallbacks turnFails_parts partCalls_def)

lemma sendText_toolCallEvents:
  "toolCallEvents (trace (snd (sendText env t (c, io)))) = toolCallEvents (trace io)"
  by (simp add: sendText_eq Let_def sendTextParts_toolCallEvents)

lemma sendText_lifecycle:
  "lifecycle (trace (snd (sendText env t (c, io)))) = lifecycle (trace io)"
  by (simp add: sendText_eq Let_def sendTextParts_lifecycle)

lemma sendText_dispatches:
  "dispatches (trace (snd (sendText env t (c, io))))
     = dispatches (trace io)
       @ map (\<lambda>fc. (fc_name fc, fc_args fc))
           (partCalls (turnParts (fst (api env (world io) (firstRequest t c)))))"
  by (simp add: sendText_eq Let_def sendTextParts_dispatches turnFails_parts partCalls_def)

lemma sendText_requests:
  "length (requests (trace (snd (sendText env t (c, io)))))
     = length (requests (trace io)) + 1
       + length (partCalls (turnParts (fst (api env (world io) (firstRequest t c)))))"
  by (simp add: sendText_eq Let_def sendTextParts_requests turnFails_parts partCalls_def)

lemma sendText_errorCallbacks:
  "errorCallbacks (trace (snd (sendText env t (c, io))))
     = errorCallbacks (trace io) @ turnFails (fst (api env (world io) (firstRequest t c)))"
  by (simp add: sendText_eq Let_def sendTextParts_errorCallbacks)

lemma sendText_history:
  "\<exists>ts. conversationHistory (fst (sendText env t (c, io)))
           = conversationHistory c @ userTurn t # ts \<and> list_all replyTurn ts"
proof (cases "turnFails (fst (api env (world io) (firstRequest t c))) = []")
  case True
  show ?thesis
    using sendTextParts_history[of env "turnParts (fst (api env (world io) (firstRequest t c)))"
        "(pushTurn ''user'' t c, \<lparr>world = snd (api env (world io) (firstRequest t c)),
            trace = trace io @ [ApiRequest (firstRequest t c)]\<rparr>)"] True
    by (auto simp add: sendText_eq Let_def pushTurn_def userTurn_def)
next
  case False
  then show ?thesis by (simp add: sendText_eq Let_def pushTurn_def userTurn_def)
qed

lemma io0_simps: "world io0 = w0" "trace io0 = []"
  by (simp_all add: io0_def)

section \<open>Properties of the Live Session\<close>

lemma livePart_proj:
  "toolCallbacks (trace (livePart f p io)) = toolCallbacks (trace io)"
  "exchanges (trace (livePart f p io)) = exchanges (trace io)"
  "toolCallEvents (trace (livePart f p io)) = toolCallEvents (trace io)"
  by (simp_all add: livePart_def emit_def Let_def split: option.splits)

lemma liveParts_proj:
  "toolCallbacks (trace (liveParts f ps io)) = toolCallbacks (trace io)"
  "exchanges (trace (liveParts f ps io)) = exchanges (trace io)"
  "toolCallEvents (trace (liveParts f ps io)) = toolCallEvents (trace io)"
  by (induction ps arbitrary: io) (simp_all add: livePart_proj)

lemma handleServerContent_proj:
  "toolCallbacks (trace (handleServerContent sc io)) = toolCallbacks (trace io)"
  "exchanges (trace (handleServerContent sc io)) = exchanges (trace io)"
  "toolCallEvents (trace (handleServerContent sc io)) = toolCallEvents (trace io)"
  by (simp_all add: handleServerContent_def liveParts_proj split: option.splits)

text \<open>
  One function call of a tool-call frame: the dispatch, the reply if the socket is open,
  and the callback.
\<close>

lemma handleFunctionCall_eq:
  "handleFunctionCall env c fc io =
     (let (r, left, w) = dispatch env (world io) (lc_name fc) (lc_args fc)
      in \<lparr>world = w,
          trace = trace io
            @ [Dispatch (lc_name fc) (lc_args fc)]
            @ (if ws c = Some OPEN
               then [Upstream (ToolResponse (lc_id fc) (lc_name fc) (toolReply r))] else [])
            @ [OnToolCall \<lparr>tc_id = lc_id fc, tc_name = lc_name fc, tc_args = left,
                           tc_result = toolResult r\<rparr>]\<rparr>)"
  by (cases io)
     (simp add: handleFunctionCall_def callTool_def sendToolResponse_live_def send_def emit_def
        toolReply_def toolResult_def Let_def
        split: prod.splits sum.splits option.splits ready_state.splits)

lemma handleFunctionCall_proj:
  "map (\<lambda>tc. (tc_id tc, tc_name tc)) (toolCallbacks (trace (handleFunctionCall env c fc io)))
     = map (\<lambda>tc. (tc_id tc, tc_name tc)) (toolCallbacks (trace io)) @ [(lc_id fc, lc_name fc)]"
  "exchanges (trace (handleFunctionCall env c fc io))
     = exchanges (trace io)
       @ (if ws c = Some OPEN then [Reply (lc_id fc)] else []) @ [Notify (lc_id fc)]"
  "toolCallEvents (trace (handleFunctionCall env c fc io)) = toolCallEvents (trace io)"
  by (simp_all add: handleFunctionCall_eq Let_def split: prod.splits)

lemma handleFunctionCalls_proj:
  "map (\<lambda>tc. (tc_id tc, tc_name tc)) (toolCallbacks (trace (handleFunctionCalls env c fcs io)))
     = map (\<lambda>tc. (tc_id tc, tc_name tc)) (toolCallbacks (trace io))
       @ map (\<lambda>fc. (lc_id fc, lc_name fc)) fcs"
  "exchanges (trace (handleFunctionCalls env c fcs io))
     = exchanges (trace io)
       @ concat (map (\<lambda>fc. (if ws c = Some OPEN then [Reply (lc_id fc)] else [])
                             @ [Notify (lc_id fc)]) fcs)"
  "toolCallEvents (trace (handleFunctionCalls env c fcs io)) = toolCallEvents (trace io)"
  by (induction fcs arbitrary: io) (simp_all add: handleFunctionCall_proj)

lemma handleGeminiMessage_toolCallbacks:
  "\<not> setupComplete msg \<Longrightarrow>
   map (\<lambda>tc. (tc_id tc, tc_name tc)) (toolCallbacks (trace (handleGeminiMessage env c msg io)))
     = map (\<lambda>tc. (tc_id tc, tc_name tc)) (toolCallbacks (trace io))
       @ map (\<lambda>fc. (lc_id fc, lc_name fc)) (requestedCalls msg)"
  by (simp add: handleGeminiMessage_def requestedCalls_def handleFunctionCalls_proj
        handleServerContent_proj Let_def split: option.splits)

lemma handleGeminiMessage_exchanges:
  "\<not> setupComplete msg \<Longrightarrow>
   exchanges (trace (handleGeminiMessage env c msg io))
     = exchanges (trace io)
       @ concat (map (\<lambda>fc. (if ws c = Some OPEN then [Reply (lc_id fc)] else [])
                             @ [Notify (lc_id fc)]) (requestedCalls msg))"
  by (simp add: handleGeminiMessage_def requestedCalls_def handleFunctionCalls_proj
        handleServerContent_proj Let_def split: option.splits)

lemma handleGeminiMessage_toolCallEvents:
  "toolCallEvents (trace (handleGeminiMessage env c msg io)) = toolCallEvents (trace io)"
  by (simp add: handleGeminiMessage_def handleFunctionCalls_proj handleServerContent_proj Let_def
        split: option.splits)

lemma requestedCalls_twoCallsFrame:
  "requestedCalls twoCallsFrame =
     [\<lparr>lc_id = ''c1'', lc_name = ''poi_search'', lc_args = jaipur\<rparr>,
      \<lparr>lc_id = ''c2'', lc_name = ''get_weather'', lc_args = jaipur\<rparr>]"
  by (simp add: requestedCalls_def twoCallsFrame_def)

lemma two_calls_first:
  "fst (api two_calls_env w0 r) =
     okResponse [callPart ''poi_search'' jaipur, callPart ''get_weather'' jaipur]"
  by (simp add: two_calls_env_def scripted_env_def w0_def)

lemma turnParts_ok: "turnParts (okResponse parts) = parts" "turnFails (okResponse parts) = []"
  by (simp_all add: turnParts_def turnFails_def okResponse_def firstCandidate_def)

lemma partCalls_simps:
  "partCalls [] = []"
  "partCalls (callPart n a # ps) = \<lparr>fc_name = n, fc_args = a\<rparr> # partCalls ps"
  "partCalls (textPart t # ps) = partCalls ps"
  by (simp_all add: partCalls_def callPart_def textPart_def)

lemma flaky_dispatch:
  "dispatch two_calls_env w ''poi_search'' a = (Inr (JObj [(''success'', JBool True)]), a, w)"
  "dispatch two_calls_env w ''get_weather'' a = (Inl (Error ''weather service down''), a, w)"
  "dispatch live_env w ''poi_search'' a = (Inr (JObj [(''success'', JBool True)]), a, w)"
  "dispatch live_env w ''get_weather'' a = (Inl (Error ''weather service down''), a, w)"
  by (simp_all add: two_calls_env_def live_env_def scripted_env_def flakyTool_def)

lemma toolReply_simps:
  "toolReply (Inr x) = x" "toolReply (Inl (Error m)) = JObj [(''error'', JStr m)]"
  "toolResult (Inr x) = Some x" "toolResult (Inl e) = None"
  by (simp_all add: toolReply_def toolResult_def errorMessage_def)

section \<open>The order of reply and callback in the Live Session\<close>

text \<open>
  C5, as stated, fails: the reply is written only to an open socket. When the socket has
  closed while the handler waited for the dispatcher, each call of the frame is still
  dispatched and its callback is still made, but no tool result goes upstream, neither
  for the call that succeeds nor for the one that fails.
\<close>

theorem callback_without_reply_on_closed_socket:
  "trace (handleGeminiMessage two_calls_env closedClient twoCallsFrame io0)
     = [Dispatch ''poi_search'' jaipur,
        OnToolCall \<lparr>tc_id = ''c1'', tc_name = ''poi_search'', tc_args = jaipur,
                    tc_result = Some (JObj [(''success'', JBool True)])\<rparr>,
        Dispatch ''get_weather'' jaipur,
        OnToolCall \<lparr>tc_id = ''c2'', tc_name = ''get_weather'', tc_args = jaipur,
                    tc_result = None\<rparr>]"
  by (simp add: handleGeminiMessage_def twoCallsFrame_def handleFunctionCall_eq closedClient_def
        openClient_def io0_simps flaky_dispatch toolReply_simps Let_def)

text \<open>
  C5, amended. Handling a tool-call frame produces, for each requested call in request
  order, the tool-response frame tagged with the call's id, if the upstream socket is
  open, and then the tool-call callback for that id; nothing else of either kind. A single
  call is dispatched; while the socket is open it is answered upstream with the result
  (or, when the dispatcher throws, with an object carrying the error message); and only
  then it is reported to the owner, with the result or with null. So whenever a reply is
  sent, it precedes the callback, in both branches; when the socket is not open, there is
  no reply, and the callback is made all the same.
\<close>

theorem reply_precedes_callback_on_open_socket:
  "(\<not> setupComplete msg \<longrightarrow>
      exchanges (trace (handleGeminiMessage env c msg io))
        = exchanges (trace io)
          @ concat (map (\<lambda>fc. (if ws c = Some OPEN then [Reply (lc_id fc)] else [])
                                @ [Notify (lc_id fc)]) (requestedCalls msg)))
   \<and> handleFunctionCall env c fc io =
       (let (r, left, w) = dispatch env (world io) (lc_name fc) (lc_args fc)
        in \<lparr>world = w,
            trace = trace io
              @ [Dispatch (lc_name fc) (lc_args fc)]
              @ (if ws c = Some OPEN
                 then [Upstream (ToolResponse (lc_id fc) (lc_name fc) (toolReply r))] else [])
              @ [OnToolCall \<lparr>tc_id = lc_id fc, tc_name = lc_name fc, tc_args = left,
                             tc_result = toolResult r\<rparr>]\<rparr>)"
  using handleGeminiMessage_exchanges[of msg env c io] handleFunctionCall_eq[of env c fc io]
  by blast

theorem reply_precedes_callback_on_open_socket_witness:
  "\<not> setupComplete twoCallsFrame
   \<and> exchanges (trace (handleGeminiMessage two_calls_env openClient twoCallsFrame io0))
       = [Reply ''c1'', Notify ''c1'', Reply ''c2'', Notify ''c2'']
   \<and> exchanges (trace (handleGeminiMessage two_calls_env closedClient twoCallsFrame io0))
       = [Notify ''c1'', Notify ''c2'']
   \<and> trace (handleFunctionCall two_calls_env openClient
         \<lparr>lc_id = ''c2'', lc_name = ''get_weather'', lc_args = jaipur\<rparr> io0)
       = [Dispatch ''get_weather'' jaipur,
          Upstream (ToolResponse ''c2'' ''get_weather''
                      (JObj [(''error'', JStr ''weather service down'')])),
          OnToolCall \<lparr>tc_id = ''c2'', tc_name = ''get_weather'', tc_args = jaipur,
                      tc_result = None\<rparr>]
   \<and> trace (handleFunctionCall two_calls_env openClient
         \<lparr>lc_id = ''c1'', lc_name = ''poi_search'', lc_args = jaipur\<rparr> io0)
       = [Dispatch ''poi_search'' jaipur,
          Upstream (ToolResponse ''c1'' ''poi_search'' (JObj [(''success'', JBool True)])),
          OnToolCall \<lparr>tc_id = ''c1'', tc_name = ''poi_search'', tc_args = jaipur,
                      tc_result = Some (JObj [(''success'', JBool True)])\<rparr>]"
proof -
  have h: "\<not> setupComplete twoCallsFrame" by (simp add: twoCallsFrame_def)
  have o: "ws openClient = Some OPEN" "ws closedClient = Some CLOSED"
    by (simp_all add: openClient_def closedClient_def)
  have A: "exchanges (trace (handleGeminiMessage two_calls_env openClient twoCallsFrame io0))
       = [Reply ''c1'', Notify ''c1'', Reply ''c2'', Notify ''c2'']"
    using h reply_precedes_callback_on_open_socket[of twoCallsFrame two_calls_env openClient io0]
    by (simp add: requestedCalls_twoCallsFrame io0_simps o)
  have B: "exchanges (trace (handleGeminiMessage two_calls_env closedClient twoCallsFrame io0))
       = [Notify ''c1'', Notify ''c2'']"
    using h reply_precedes_callback_on_open_socket[of twoCallsFrame two_calls_env closedClient io0]
    by (simp add: requestedCalls_twoCallsFrame io0_simps o)
  have C: "trace (handleFunctionCall two_calls_env openClient
         \<lparr>lc_id = ''c2'', lc_name = ''get_weather'', lc_args = jaipur\<rparr> io0)
       = [Dispatch ''get_weather'' jaipur,
          Upstream (ToolResponse ''c2'' ''get_weather''
                      (JObj [(''error'', JStr ''weather service down'')])),
          OnToolCall \<lparr>tc_id = ''c2'', tc_name = ''get_weather'', tc_args = jaipur,
                      tc_result = None\<rparr>]"
    using reply_precedes_callback_on_open_socket[of twoCallsFrame two_calls_env openClient io0
        "\<lparr>lc_id = ''c2'', lc_name = ''get_weather'', lc_args = jaipur\<rparr>"]
    by (simp add: io0_simps o flaky_dispatch toolReply_simps)
  have D: "trace (handleFunctionCall two_calls_env openClient
         \<lparr>lc_id = ''c1'', lc_name = ''poi_search'', lc_args = jaipur\<rparr> io0)
       = [Dispatch ''poi_search'' jaipur,
          Upstream (ToolResponse ''c1'' ''poi_search'' (JObj [(''success'', JBool True)])),
          OnToolCall \<lparr>tc_id = ''c1'', tc_name = ''poi_search'', tc_args = jaipur,
                      tc_result = Some (JObj [(''success'', JBool True)])\<rparr>]"
    using reply_precedes_callback_on_open_socket[of twoCallsFrame two_calls_env openClient io0
        "\<lparr>lc_id = ''c1'', lc_name = ''poi_search'', lc_args = jaipur\<rparr>"]
    by (simp add: io0_simps o flaky_dispatch toolReply_simps)
  show ?thesis
    using h A B C D by blast
qed

section \<open>The claims about the Fallback Session\<close>

lemma textOf_simps:
  "textOf (callPart n a) = []" "textOf (textPart t) = (if t = [] then [] else [t])"
  by (simp_all add: textOf_def callPart_def textPart_def)

lemma partTexts_simps:
  "partTexts [] = []" "partTexts (p # ps) = textOf p @ partTexts ps"
  by (simp_all add: partTexts_def)

lemma followUpTexts_simps:
  "followUpTexts (Inl e) = []" "followUpTexts (okResponse parts) = partTexts parts"
  by (simp_all add: followUpTexts_def okResponse_def firstCandidate_def)

lemma functionCall_simps:
  "part_functionCall (callPart n a) = Some \<lparr>fc_name = n, fc_args = a\<rparr>"
  "part_functionCall (textPart t) = None"
  by (simp_all add: callPart_def textPart_def)

lemma scripted_api:
  "api (scripted_env script hs tool) w r =
     (if apiCalls w < length script then script ! apiCalls w else Inl (Error ''offline''),
      w\<lparr>apiCalls := Suc (apiCalls w)\<rparr>)"
  "dispatch (scripted_env script hs tool) w n a = (fst (tool n a), snd (tool n a), w)"
  "stringify (scripted_env script hs tool) j = ''{}''"
  "dateNow (scripted_env script hs tool) w = ''0''"
  by (simp_all add: scripted_env_def)

lemma history_followsTurn_append:
  "followsTurn prev (xs @ ys)
     = (followsTurn prev xs \<and> followsTurn (if xs = [] then prev else Some (role (last xs))) ys)"
  by (induction xs arbitrary: prev) auto

lemma replies_followsTurn:
  "list_all replyTurn ts \<Longrightarrow> prev \<in> {Some ''user'', Some ''model'', Some ''function''}
     \<Longrightarrow> followsTurn prev ts"
  by (induction ts arbitrary: prev) (auto simp add: replyTurn_def)

lemma weather_history:
  "conversationHistory (fst (sendText weather_env ''Weather?'' (freshClient, io0)))
     = [userTurn ''Weather?'', functionTurn weather_env ''get_weather'' (JObj [(''success'', JBool True)]),
        modelTextTurn ''Sunny.'']"
  by (simp add: sendText_eq sendToolResponse_eq modelText_eq runFunctionCall_eq
        weather_env_def scripted_api io0_simps w0_def turnParts_ok functionCall_simps textOf_simps
        followUpTexts_simps partTexts_simps okTool_def toolReply_simps freshClient_def
        newTextClient_def firstRequest_def requestOf_def pushTurn_def Let_def userTurn_def
        functionTurn_def modelTextTurn_def)





text \<open>
  C4, as stated, fails: when the response to a user turn carries two function calls, both
  are dispatched, and each is followed by a request of its own.
\<close>

theorem two_round_trips_in_one_turn:
  "\<not> length (dispatches (trace (snd (sendText two_calls_env ''Plan a trip'' (freshClient, io0))))) \<le> 1"
  by (simp add: sendText_dispatches io0_simps two_calls_first turnParts_ok partCalls_simps)

text \<open>
  C4, amended. A user turn dispatches exactly the function calls of the response to its
  first request, one round trip for each, and sends one request more than it dispatches.
  Each round trip appends the function turn and issues exactly one follow-up request; the
  non-empty texts of the follow-up response are appended as model turns and emitted as
  text responses, and nothing else happens: whatever function calls the follow-up
  response carries, none is dispatched or reported.
\<close>

theorem one_round_trip_per_function_call:
  "dispatches (trace (snd (sendText env t (c, io))))
     = dispatches (trace io)
       @ map (\<lambda>fc. (fc_name fc, fc_args fc))
           (partCalls (turnParts (fst (api env (world io) (firstRequest t c)))))
   \<and> length (requests (trace (snd (sendText env t (c, io)))))
     = length (requests (trace io)) + 1
       + length (partCalls (turnParts (fst (api env (world io) (firstRequest t c)))))
   \<and> sendToolResponse env n r (c, io) =
       (let c1 = pushTurn ''function'' (functionTurnText env n r) c;
            out = api env (world io) (requestOf c1);
            texts = followUpTexts (fst out)
        in (c1\<lparr>conversationHistory := conversationHistory c1 @ map modelTextTurn texts\<rparr>,
            \<lparr>world = snd out, trace = trace io @ ApiRequest (requestOf c1) # map OnText texts\<rparr>))"
  using sendText_dispatches[of env t c io] sendText_requests[of env t c io]
    sendToolResponse_eq[of env n r c io]
  by blast

lemma broken_followup_trace:
  "trace (snd (sendText broken_followup_env ''Find food'' (freshClient, io0)))
     = [ApiRequest (firstRequest ''Find food'' freshClient),
        Dispatch ''poi_search'' jaipur,
        OnToolCall \<lparr>tc_id = ''call_0'', tc_name = ''poi_search'', tc_args = jaipur,
                    tc_result = Some (JObj [(''success'', JBool True)])\<rparr>,
        ApiRequest (requestOf (pushTurn ''function'' ''{}'' (pushTurn ''user'' ''Find food'' freshClient))),
        OnText ''Here you go.'']"
  by (simp add: sendText_eq sendToolResponse_eq modelText_eq runFunctionCall_eq
        broken_followup_env_def scripted_api io0_simps w0_def turnParts_ok functionCall_simps
        textOf_simps followUpTexts_simps okTool_def toolReply_simps functionTurnText_def Let_def)

text \<open>
  C7, as stated, fails: when the follow-up request after a tool call fails, no error
  callback is made and the turn is not aborted; the remaining part of the first response
  is still processed.
\<close>

theorem follow_up_failure_is_silent:
  "fst (api broken_followup_env (w0\<lparr>apiCalls := 1\<rparr>)
         (requestOf (pushTurn ''function'' ''{}'' (pushTurn ''user'' ''Find food'' freshClient))))
     = Inl (Error ''API request failed: 503'')
   \<and> errorCallbacks (trace (snd (sendText broken_followup_env ''Find food'' (freshClient, io0)))) = []
   \<and> last (trace (snd (sendText broken_followup_env ''Find food'' (freshClient, io0))))
       = OnText ''Here you go.''"
  by (simp add: broken_followup_trace) (simp add: broken_followup_env_def scripted_api w0_def)

lemma offline_first:
  "fst (api offline_env w0 r) = Inl (Error ''API request failed: 500'')"
  by (simp add: offline_env_def scripted_api w0_def)

lemma blocked_first:
  "api blocked_env w0 r = (blockedResponse, w0\<lparr>apiCalls := 1\<rparr>)"
  by (simp add: blocked_env_def scripted_api w0_def)

lemma turnFails_blocked:
  "turnFails blockedResponse = [typeError ''undefined'' ''parts'']"
  by (simp add: turnFails_def blockedResponse_def firstCandidate_def)

text \<open>
  C7, amended. A user turn makes one error callback when its first request fails (the
  request throws, the response carries an error object, or its first candidate has no
  content or no parts to read) and none otherwise. When the first request fails, the turn
  ends there: the history has gained the user turn, the trace the request and the error
  callback. When a follow-up request throws, the failure is swallowed: the function turn
  stays in the history, no callback is made, and the caller goes on with the next part.
  In every case the history after the turn is the history before it, extended.
\<close>

theorem first_request_failure_reported_once:
  "errorCallbacks (trace (snd (sendText env t (c, io))))
     = errorCallbacks (trace io) @ turnFails (fst (api env (world io) (firstRequest t c)))
   \<and> length (turnFails (fst (api env (world io) (firstRequest t c)))) \<le> 1
   \<and> (turnFails (fst (api env (world io) (firstRequest t c))) \<noteq> [] \<longrightarrow>
        sendText env t (c, io) =
          (pushTurn ''user'' t c,
           \<lparr>world = snd (api env (world io) (firstRequest t c)),
            trace = trace io @ ApiRequest (firstRequest t c)
                      # map OnError (turnFails (fst (api env (world io) (firstRequest t c))))\<rparr>))
   \<and> (fst (api env (world io) (requestOf (pushTurn ''function'' (functionTurnText env n r) c)))
          = Inl e \<longrightarrow>
        sendToolResponse env n r (c, io) =
          (pushTurn ''function'' (functionTurnText env n r) c,
           \<lparr>world = snd (api env (world io)
                           (requestOf (pushTurn ''function'' (functionTurnText env n r) c))),
            trace = trace io
              @ [ApiRequest (requestOf (pushTurn ''function'' (functionTurnText env n r) c))]\<rparr>))
   \<and> (\<exists>ts. conversationHistory (fst (sendText env t (c, io)))
              = conversationHistory c @ userTurn t # ts)"
proof -
  have 1: "length (turnFails (fst (api env (world io) (firstRequest t c)))) \<le> 1"
    by (simp add: turnFails_def split: sum.splits option.splits)
  have 2: "turnFails (fst (api env (world io) (firstRequest t c))) \<noteq> [] \<longrightarrow>
        sendText env t (c, io) =
          (pushTurn ''user'' t c,
           \<lparr>world = snd (api env (world io) (firstRequest t c)),
            trace = trace io @ ApiRequest (firstRequest t c)
                      # map OnError (turnFails (fst (api env (world io) (firstRequest t c))))\<rparr>)"
    by (simp add: sendText_eq Let_def)
  have 3: "fst (api env (world io) (requestOf (pushTurn ''function'' (functionTurnText env n r) c)))
          = Inl e \<longrightarrow>
        sendToolResponse env n r (c, io) =
          (pushTurn ''function'' (functionTurnText env n r) c,
           \<lparr>world = snd (api env (world io)
                           (requestOf (pushTurn ''function'' (functionTurnText env n r) c))),
            trace = trace io
              @ [ApiRequest (requestOf (pushTurn ''function'' (functionTurnText env n r) c))]\<rparr>)"
    by (simp add: sendToolResponse_eq Let_def followUpTexts_def)
  show ?thesis
    using sendText_errorCallbacks[of env t c io] 1 2 3 sendText_history[of env t c io]
    by blast
qed

theorem first_request_failure_reported_once_witness:
  "turnFails (fst (api offline_env (world io0) (firstRequest ''Hello'' freshClient))) \<noteq> []
   \<and> turnFails (fst (api blocked_env (world io0) (firstRequest ''Hello'' freshClient))) \<noteq> []
   \<and> fst (api broken_followup_env (world io1)
            (requestOf (pushTurn ''function''
               (functionTurnText broken_followup_env ''poi_search'' JNull) freshClient)))
       = Inl (Error ''API request failed: 503'')
   \<and> sendText offline_env ''Hello'' (freshClient, io0)
       = (pushTurn ''user'' ''Hello'' freshClient,
          \<lparr>world = w0\<lparr>apiCalls := 1\<rparr>,
           trace = [ApiRequest (firstRequest ''Hello'' freshClient),
                    OnError (Error ''API request failed: 500'')]\<rparr>)
   \<and> sendText blocked_env ''Hello'' (freshClient, io0)
       = (pushTurn ''user'' ''Hello'' freshClient,
          \<lparr>world = w0\<lparr>apiCalls := 1\<rparr>,
           trace = [ApiRequest (firstRequest ''Hello'' freshClient),
                    OnError (typeError ''undefined'' ''parts'')]\<rparr>)
   \<and> sendToolResponse broken_followup_env ''poi_search'' JNull (freshClient, io1)
       = (pushTurn ''function'' ''{}'' freshClient,
          \<lparr>world = w0\<lparr>apiCalls := 2\<rparr>,
           trace = [ApiRequest (requestOf (pushTurn ''function'' ''{}'' freshClient))]\<rparr>)"
proof -
  have h0: "turnFails (fst (api blocked_env (world io0) (firstRequest ''Hello'' freshClient))) \<noteq> []"
    by (simp add: io0_simps blocked_first turnFails_blocked)
  have A0: "sendText blocked_env ''Hello'' (freshClient, io0)
       = (pushTurn ''user'' ''Hello'' freshClient,
          \<lparr>world = w0\<lparr>apiCalls := 1\<rparr>,
           trace = [ApiRequest (firstRequest ''Hello'' freshClient),
                    OnError (typeError ''undefined'' ''parts'')]\<rparr>)"
    using h0 first_request_failure_reported_once[of blocked_env "''Hello''" freshClient io0]
    by (simp add: io0_simps blocked_first turnFails_blocked)
  have f: "turnFails (fst (api offline_env w0 (firstRequest ''Hello'' freshClient)))
      = [Error ''API request failed: 500'']"
    by (simp add: offline_first turnFails_def asError_def)
  have h1: "turnFails (fst (api offline_env (world io0) (firstRequest ''Hello'' freshClient))) \<noteq> []"
    by (simp add: f io0_simps)
  have h2: "fst (api broken_followup_env (world io1)
            (requestOf (pushTurn ''function''
               (functionTurnText broken_followup_env ''poi_search'' JNull) freshClient)))
       = Inl (Error ''API request failed: 503'')"
    by (simp add: broken_followup_env_def scripted_api w0_def io1_def)
  have w: "snd (api offline_env w0 rq) = w0\<lparr>apiCalls := 1\<rparr>" for rq
    by (simp add: offline_env_def scripted_api w0_def)
  have w2: "snd (api broken_followup_env (world io1) rq) = w0\<lparr>apiCalls := 2\<rparr>" for rq
    by (simp add: broken_followup_env_def scripted_api w0_def io1_def)
  have t: "functionTurnText broken_followup_env ''poi_search'' JNull = ''{}''"
    by (simp add: functionTurnText_def broken_followup_env_def scripted_api)
  have A: "sendText offline_env ''Hello'' (freshClient, io0)
       = (pushTurn ''user'' ''Hello'' freshClient,
          \<lparr>world = w0\<lparr>apiCalls := 1\<rparr>,
           trace = [ApiRequest (firstRequest ''Hello'' freshClient),
                    OnError (Error ''API request failed: 500'')]\<rparr>)"
    using h1 first_request_failure_reported_once[of offline_env "''Hello''" freshClient io0]
    by (simp add: f w io0_simps)
  have B: "sendToolResponse broken_followup_env ''poi_search'' JNull (freshClient, io1)
       = (pushTurn ''function'' ''{}'' freshClient,
          \<lparr>world = w0\<lparr>apiCalls := 2\<rparr>,
           trace = [ApiRequest (requestOf (pushTurn ''function'' ''{}'' freshClient))]\<rparr>)"
    using h2 first_request_failure_reported_once[of broken_followup_env "''Hello''" freshClient io1
        "''poi_search''" JNull "Error ''API request failed: 503''"]
    by (simp add: w2 t) (simp add: io1_def)
  show ?thesis
    using h0 h1 h2 A0 A B by blast
qed

section \<open>The tool catalog in both modes\<close>

lemma convertType_simps:
  "convertType ''object'' = ''OBJECT''" "convertType ''string'' = ''STRING''"
  "convertType ''array'' = ''ARRAY''" "convertType ''number'' = ''NUMBER''"
  "convertType ''integer'' = ''INTEGER''"
  by (simp_all add: convertType_def upper_char_def)

lemma convertProperty_simps:
  "t \<noteq> [] \<Longrightarrow> d \<noteq> [] \<Longrightarrow> convertProperty (mk_prop t d) = mk_prop (convertType t) d"
  "t \<noteq> [] \<Longrightarrow> d \<noteq> [] \<Longrightarrow> convertProperty (mk_prop_enum t e d) = mk_prop_enum (convertType t) e d"
  "t \<noteq> [] \<Longrightarrow> d \<noteq> [] \<Longrightarrow> convertProperty (mk_prop_items t i d) = mk_prop_items (convertType t) (convertType i) d"
  by (simp_all add: convertProperty_def mk_prop_def mk_prop_enum_def mk_prop_items_def truthy_str_def)

lemma typeValues_convert:
  assumes "\<forall>(k, p) \<in> set (td_properties tool). p_type p \<noteq> Some []"
  shows "typeValues (convertToGeminiFormat tool) = map convertType (typeValues tool)"
proof -
  have "concat (map (\<lambda>(k, p). (case p_type p of None \<Rightarrow> [] | Some t \<Rightarrow> [t])
                            @ (case p_items p of None \<Rightarrow> [] | Some t \<Rightarrow> [t]))
               (convertProperties ps))
      = map convertType (concat (map (\<lambda>(k, p). (case p_type p of None \<Rightarrow> [] | Some t \<Rightarrow> [t])
                            @ (case p_items p of None \<Rightarrow> [] | Some t \<Rightarrow> [t])) ps))"
    if "\<forall>(k, p) \<in> set ps. p_type p \<noteq> Some []" for ps
    using that
    by (induction ps)
       (auto simp add: convertProperties_def convertProperty_def truthy_str_def split: option.splits)
  then show ?thesis
    using assms by (simp add: typeValues_def convertToGeminiFormat_def)
qed

lemma declared_types_nonempty:
  "\<forall>tool \<in> set toolDefinitions. \<forall>(k, p) \<in> set (td_properties tool). p_type p \<noteq> Some []"
  by (simp add: toolDefinitions_def tool_poi_search_def tool_update_itinerary_def
        tool_get_city_info_def tool_get_weather_def tool_calculate_travel_time_def
        tool_search_destination_info_def mk_prop_def mk_prop_enum_def mk_prop_items_def)

lemma catalog_types:
  "map typeValues getToolsForGemini = map (map convertType \<circ> typeValues) toolDefinitions"
  using declared_types_nonempty
  by (simp add: getToolsForGemini_def typeValues_convert)

lemma poi_search_types:
  "typeValues tool_poi_search = [''object'', ''string'', ''string'', ''array'', ''string'', ''number'']"
  by (simp add: typeValues_def tool_poi_search_def mk_prop_def mk_prop_enum_def mk_prop_items_def)

lemma hd_catalog: "hd getToolsForGemini = convertToGeminiFormat tool_poi_search"
  by (simp add: getToolsForGemini_def toolDefinitions_def)

text \<open>
  C6, as stated, fails for the fallback half: the catalog in a fallback request has its
  type values upper-cased too. Here, the types of the first tool as the request carries
  them and as they are declared.
\<close>

theorem fallback_catalog_is_upper_cased:
  "typeValues (hd (req_tools (hd (requests (trace (snd (callGeminiAPI weather_env freshClient io0)))))))
     = [''OBJECT'', ''STRING'', ''STRING'', ''ARRAY'', ''STRING'', ''NUMBER'']
   \<and> typeValues (hd toolDefinitions)
     = [''object'', ''string'', ''string'', ''array'', ''string'', ''number'']"
proof -
  have "typeValues (convertToGeminiFormat tool_poi_search) = map convertType (typeValues tool_poi_search)"
    using declared_types_nonempty by (intro typeValues_convert) (simp add: toolDefinitions_def)
  then show ?thesis
    by (simp add: callGeminiAPI_eq requestOf_def hd_catalog poi_search_types convertType_simps
          toolDefinitions_def io0_simps)
qed

text \<open>
  C6, amended. Both upstream modes send the same catalog, the one
  \<^verbatim>\<open>getToolsForGemini\<close> computes: every fallback request carries it, and so does the
  setup frame a Live Session writes to its open socket. In that catalog every declared
  type value (of the parameters, of each property, of each item) is upper-cased.
\<close>

theorem both_catalogs_upper_cased:
  "trace (snd (callGeminiAPI env c io))
     = trace io @ [ApiRequest \<lparr>req_contents = conversationHistory c,
                               req_systemInstruction = systemInstruction c,
                               req_tools = getToolsForGemini\<rparr>]
   \<and> (ws lc = Some OPEN \<longrightarrow>
        trace (sendSetupMessage lc io)
          = trace io @ [Upstream (Setup gemini_model (lv_systemInstruction lc) getToolsForGemini)])
   \<and> map typeValues getToolsForGemini = map (map convertType \<circ> typeValues) toolDefinitions"
  using catalog_types
  by (simp add: callGeminiAPI_eq requestOf_def sendSetupMessage_def send_def emit_def)

theorem both_catalogs_upper_cased_witness:
  "ws openClient = Some OPEN
   \<and> frames (trace (sendSetupMessage openClient io0))
       = [Setup ''models/gemini-2.5-flash-latest'' ''You are a travel assistant.'' getToolsForGemini]
   \<and> map req_tools (requests (trace (snd (callGeminiAPI weather_env freshClient io0))))
       = [getToolsForGemini]"
proof -
  have h: "ws openClient = Some OPEN" by (simp add: openClient_def)
  show ?thesis
    using h both_catalogs_upper_cased[of weather_env freshClient io0 openClient]
    by (simp add: io0_simps gemini_model_def openClient_def)
qed

section \<open>Properties of the Client Session Manager\<close>

lemma scripted_transport:
  "transport (scripted_env script hs tool) w =
     (if connects w < length hs then hs ! connects w else [], w\<lparr>connects := Suc (connects w)\<rparr>)"
  "getSystemInstruction (scripted_env script hs tool) w = ''You are a travel assistant.''"
  "isoNow (scripted_env script hs tool) w = ''1970-01-01T00:00:00.000Z''"
  by (simp_all add: scripted_env_def)

lemmas manager_defs = handleClientConnection_def newManager_def initializeGemini_def
  sendToClient_def connect_def onWsEvent_def settle_def sessionIO_def absorb_def relay_def
  startFallback_def newGeminiClient_def newTextClient_def emit_def thrownMessage_def
  handleClientMessage_def handleText_def handleControl_def dropLiveClient_def disconnect_def
  sendSetupMessage_def send_def handleGeminiMessage_def truthy_str_def sendInterrupt_def
  sendText_live_def

lemma fresh_request_eval:
  "firstRequest t freshClient =
     \<lparr>req_contents = [userTurn t], req_systemInstruction = ''You are a travel assistant.'',
      req_tools = getToolsForGemini\<rparr>"
  by (simp add: firstRequest_def requestOf_def pushTurn_def freshClient_def newTextClient_def userTurn_def)

lemma reset_api:
  "api reset_env \<lparr>apiCalls = 0, connects = k\<rparr> r = (okResponse [textPart ''Hello.''], \<lparr>apiCalls = Suc 0, connects = k\<rparr>)"
  "api reset_env \<lparr>apiCalls = Suc 0, connects = k\<rparr> r = (okResponse [textPart ''Again.''], \<lparr>apiCalls = Suc (Suc 0), connects = k\<rparr>)"
  by (simp_all add: reset_env_def scripted_env_def)

lemma sendText_textPart:
  "fst (api env (world io) (firstRequest t c)) = okResponse [textPart a] \<Longrightarrow> a \<noteq> [] \<Longrightarrow>
   sendText env t (c, io) =
     (c\<lparr>conversationHistory := conversationHistory c @ [userTurn t, modelTextTurn a]\<rparr>,
      \<lparr>world = snd (api env (world io) (firstRequest t c)),
       trace = trace io @ [ApiRequest (firstRequest t c), OnText a]\<rparr>)"
  by (simp add: sendText_eq Let_def turnParts_def turnFails_def okResponse_def firstCandidate_def
        modelText_eq textOf_def textPart_def pushTurn_def userTurn_def)

lemma step_text_A:
  "handleClientMessage reset_env (TextData (Some ''A'')) m_fallback =
     m_fallback\<lparr>geminiTextClient := Some talked,
       mio := \<lparr>world = \<lparr>apiCalls = Suc 0, connects = Suc 0\<rparr>,
               trace = trace (mio m_fallback) @
                 [ToClient (Transcript ''A'' False ''user''),
                  ApiRequest (firstRequest ''A'' freshClient),
                  ToClient (Transcript ''Hello.'' False ''assistant'')]\<rparr>\<rparr>"
proof -
  have a: "sendText reset_env ''A'' (freshClient, \<lparr>world = \<lparr>apiCalls = 0, connects = Suc 0\<rparr>, trace = []\<rparr>)
      = (talked, \<lparr>world = \<lparr>apiCalls = Suc 0, connects = Suc 0\<rparr>,
                  trace = [ApiRequest (firstRequest ''A'' freshClient), OnText ''Hello.'']\<rparr>)"
    by (subst sendText_textPart[where a = "''Hello.''"])
       (simp_all add: reset_api talked_def freshClient_def newTextClient_def)
  show ?thesis
    by (simp add: handleClientMessage_def handleText_def truthy_str_def sendToClient_def
          sessionIO_def absorb_def relay_def emit_def m_fallback_def a Let_def)
qed


lemma connected_refused: "handleClientConnection reset_env w0 = m_fallback"
  by (simp add: manager_defs reset_env_def scripted_transport w0_def refused_def freshClient_def
        Let_def m_fallback_def)

lemma step_reset: "handleClientMessage reset_env (Control (Some Reset)) m_talked = m_reset"
  by (simp add: m_reset_def m_talked_def m_fallback_def manager_defs reset_env_def
        scripted_transport established_def setupCompleteFrame_def openClient_def Let_def)


lemma after_reset_eval: "after_reset = m_reset"
  by (simp add: after_reset_def connected_refused m_talked_def[symmetric] step_text_A step_reset)

lemma step_text_B:
  "handleClientMessage reset_env (TextData (Some ''B'')) m_reset =
     m_reset\<lparr>geminiTextClient :=
         Some (talked\<lparr>conversationHistory :=
                 [userTurn ''A'', modelTextTurn ''Hello.'', userTurn ''B'', modelTextTurn ''Again.'']\<rparr>),
       mio := \<lparr>world = \<lparr>apiCalls = Suc (Suc 0), connects = Suc (Suc 0)\<rparr>,
               trace = trace (mio m_reset) @
                 [ToClient (Transcript ''B'' False ''user''),
                  ApiRequest (firstRequest ''B'' talked),
                  ToClient (Transcript ''Again.'' False ''assistant'')]\<rparr>\<rparr>"
proof -
  have a: "sendText reset_env ''B'' (talked, \<lparr>world = \<lparr>apiCalls = Suc 0, connects = Suc (Suc 0)\<rparr>, trace = []\<rparr>)
      = (talked\<lparr>conversationHistory :=
                 [userTurn ''A'', modelTextTurn ''Hello.'', userTurn ''B'', modelTextTurn ''Again.'']\<rparr>,
         \<lparr>world = \<lparr>apiCalls = Suc (Suc 0), connects = Suc (Suc 0)\<rparr>,
          trace = [ApiRequest (firstRequest ''B'' talked), OnText ''Again.'']\<rparr>)"
    by (subst sendText_textPart[where a = "''Again.''"])
       (simp_all add: reset_api talked_def freshClient_def newTextClient_def)
  show ?thesis
    by (simp add: handleClientMessage_def handleText_def truthy_str_def sendToClient_def
          sessionIO_def absorb_def relay_def emit_def m_reset_def m_talked_def m_fallback_def a Let_def)
qed

text \<open>
  C3. The code at the failing input: the Live Session is refused, the user sends ``A'' in
  fallback mode, then resets, and this time the Live Session connects. The manager is
  live and ready, yet the next text turn ``B'' goes to the old Fallback Session: the
  request carries the history of before the reset, and nothing is written to the live
  socket but the setup frame.
\<close>

theorem reset_stays_pinned_to_fallback:
  "liveReady after_reset
   \<and> useTextFallback after_reset
   \<and> map req_contents
        (requests (trace (mio (handleClientMessage reset_env (TextData (Some ''B'')) after_reset))))
       = [[userTurn ''A''],
          [userTurn ''A'', modelTextTurn ''Hello.'', userTurn ''B'']]
   \<and> frames (trace (mio (handleClientMessage reset_env (TextData (Some ''B'')) after_reset)))
       = [Setup gemini_model ''You are a travel assistant.'' getToolsForGemini]"
  by (simp add: after_reset_eval step_text_B)
     (simp add: m_reset_def m_talked_def m_fallback_def liveReady_def openClient_def
        fresh_request_eval firstRequest_def requestOf_def pushTurn_def talked_def userTurn_def
        freshClient_def newTextClient_def)

section \<open>Interrupts\<close>

lemma interrupt_live:
  "liveReady m \<Longrightarrow>
   trace (mio (handleClientMessage env (Control (Some Interrupt)) m))
     = trace (mio m) @ [Upstream (ClientContent None True)]"
  by (auto simp add: liveReady_def handleClientMessage_def handleControl_def sendInterrupt_def
        send_def emit_def absorb_def sessionIO_def relay_def split: option.splits)

lemma interrupt_not_live:
  "\<not> liveReady m \<Longrightarrow> handleClientMessage env (Control (Some Interrupt)) m = m"
  by (auto simp add: liveReady_def handleClientMessage_def handleControl_def sendInterrupt_def
        send_def absorb_def sessionIO_def split: option.splits ready_state.splits)

lemma relay_fields:
  "geminiClient (relay env e m) = geminiClient m"
  "geminiTextClient (relay env e m) = geminiTextClient m"
  "isClientConnected (relay env e m) = isClientConnected m"
  "isInitializing (relay env e m) = isInitializing m"
  "useTextFallback (relay env e m) = useTextFallback m"
  "clientOpen (relay env e m) = clientOpen m"
  by (simp_all add: relay_def sendToClient_def onToolCall_def Let_def split: event.splits option.splits)

lemma relayAll_fields:
  "geminiClient (relayAll env es m) = geminiClient m"
  "geminiTextClient (relayAll env es m) = geminiTextClient m"
  "isClientConnected (relayAll env es m) = isClientConnected m"
  "isInitializing (relayAll env es m) = isInitializing m"
  "useTextFallback (relayAll env es m) = useTextFallback m"
  "clientOpen (relayAll env es m) = clientOpen m"
  by (induction es arbitrary: m) (simp_all add: relay_fields)

text \<open>
  Only the setup-complete and the close callback change whether the session is active;
  a text turn and an audio chunk cause neither.
\<close>

lemma lifecycle_Cons: "lifecycle (e # es) = lifecycle [e] @ lifecycle es"
  using lifecycle_append[of "[e]" es] by simp

lemma relay_isSessionActive:
  "lifecycle [e] = [] \<Longrightarrow> isSessionActive (relay env e m) = isSessionActive m"
  by (cases e) (simp_all add: relay_def sendToClient_def onToolCall_def Let_def split: option.splits)

lemma relayAll_isSessionActive:
  "lifecycle es = [] \<Longrightarrow> isSessionActive (relayAll env es m) = isSessionActive m"
proof (induction es arbitrary: m)
  case Nil
  then show ?case by simp
next
  case (Cons e es)
  have "lifecycle [e] = []" and "lifecycle es = []"
    using Cons.prems lifecycle_Cons[of e es] by simp_all
  then show ?case
    using Cons.IH[of "relay env e m"] relay_isSessionActive[of e env m] by simp
qed

lemma absorb_liveReady:
  "lifecycle (trace io) = [] \<Longrightarrow> liveReady (absorb env io m) = liveReady m"
  by (simp add: liveReady_def absorb_def relayAll_fields relayAll_isSessionActive
        split: option.splits)

lemma sendToClient_liveReady: "liveReady (sendToClient message m) = liveReady m"
  by (simp add: liveReady_def sendToClient_def split: option.splits)

lemma live_send_lifecycle:
  "lifecycle (trace (sendText_live t c (sessionIO m))) = []"
  "lifecycle (trace (sendAudio a c (sessionIO m))) = []"
  by (simp_all add: sendText_live_def sendAudio_def send_def emit_def sessionIO_def
        split: option.splits ready_state.splits)

lemma handleText_liveReady:
  "liveReady (handleClientMessage env (TextData d) m) = liveReady m"
proof (cases "isSessionActive m \<and> truthy_str d")
  case False
  then show ?thesis by (auto simp add: handleClientMessage_def handleText_def)
next
  case True
  let ?m1 = "sendToClient (Transcript (the d) False ''user'') m"
  show ?thesis
  proof (cases "if useTextFallback ?m1 then geminiTextClient ?m1 else None")
    case None
    show ?thesis
    proof (cases "geminiClient ?m1")
      case none: None
      show ?thesis
        using True None none
        by (simp add: handleClientMessage_def handleText_def Let_def sendToClient_liveReady)
    next
      case (Some c)
      show ?thesis
        using True None Some
        by (simp add: handleClientMessage_def handleText_def Let_def sendToClient_liveReady
              absorb_liveReady live_send_lifecycle)
    qed
  next
    case (Some tc)
    obtain tc1 io where s: "sendText env (the d) (tc, sessionIO ?m1) = (tc1, io)"
      by (cases "sendText env (the d) (tc, sessionIO ?m1)")
    have l: "lifecycle (trace io) = []"
      using sendText_lifecycle[of env "the d" tc "sessionIO ?m1"] s by (simp add: sessionIO_def)
    have "liveReady (absorb env io (?m1\<lparr>geminiTextClient := Some tc1\<rparr>))
            = liveReady (?m1\<lparr>geminiTextClient := Some tc1\<rparr>)"
      using l by (rule absorb_liveReady)
    also have "\<dots> = liveReady m"
      by (simp add: liveReady_def sendToClient_def split: option.splits)
    finally show ?thesis
      using True Some s by (simp add: handleClientMessage_def handleText_def Let_def)
  qed
qed

lemma handleAudio_liveReady:
  "liveReady (handleClientMessage env (AudioData d) m) = liveReady m"
  by (simp add: handleClientMessage_def handleAudio_def absorb_liveReady live_send_lifecycle
        split: option.splits)

lemma onWsEvent_never_completes:
  assumes "case ev of WsMessage (Some msg) \<Rightarrow> \<not> setupComplete msg | _ \<Rightarrow> True"
    and "p \<noteq> Some (Inr ())" and "\<not> isConnected c"
    and "onWsEvent env ev (p, c, io) = (p', c', io')"
  shows "p' \<noteq> Some (Inr ()) \<and> \<not> isConnected c'"
  using assms
  by (auto simp add: onWsEvent_def settle_def Let_def
        split: if_splits ws_event.splits option.splits)

lemma onWsEvents_never_completes:
  assumes "setupNeverCompletes evs" and "p \<noteq> Some (Inr ())" and "\<not> isConnected c"
    and "onWsEvents env evs (p, c, io) = (p', c', io')"
  shows "p' \<noteq> Some (Inr ()) \<and> \<not> isConnected c'"
  using assms
proof (induction evs arbitrary: p c io)
  case Nil
  then show ?case by simp
next
  case (Cons ev evs)
  obtain p1 c1 io1 where 1: "onWsEvent env ev (p, c, io) = (p1, c1, io1)"
    by (cases "onWsEvent env ev (p, c, io)")
  have "p1 \<noteq> Some (Inr ()) \<and> \<not> isConnected c1"
    using onWsEvent_never_completes[OF _ Cons.prems(2,3) 1] Cons.prems(1)
    by (simp add: setupNeverCompletes_def)
  then show ?case
    using Cons.IH[of p1 c1 io1] Cons.prems(1,4) 1 by (simp add: setupNeverCompletes_def)
qed

lemma connect_never_completes:
  assumes "setupNeverCompletes (fst (transport env (world io)))"
    and "\<not> isConnected c" and "connect env c io = (r, c', io')"
  shows "(\<exists>e. r = Inl e) \<and> \<not> isConnected c'"
proof -
  obtain evs w where t: "transport env (world io) = (evs, w)" by (cases "transport env (world io)")
  obtain p1 c1 io1 where l:
    "onWsEvents env evs (None, c\<lparr>ws := Some CONNECTING\<rparr>, io\<lparr>world := w\<rparr>) = (p1, c1, io1)"
    by (cases "onWsEvents env evs (None, c\<lparr>ws := Some CONNECTING\<rparr>, io\<lparr>world := w\<rparr>)")
  have "p1 \<noteq> Some (Inr ()) \<and> \<not> isConnected c1"
    using onWsEvents_never_completes[OF _ _ _ l] assms(1,2) t by simp
  then show ?thesis
    using assms(3) t l
    by (cases p1; cases r) (auto simp add: connect_def split: sum.splits)
qed

lemma initializeGemini_fallback:
  assumes "isClientConnected m0" and "\<not> isInitializing m0"
    and "setupNeverCompletes (fst (transport env (world (mio m0))))"
  shows "fallbackReady (initializeGemini env m0) \<and> \<not> liveReady (initializeGemini env m0)"
proof -
  let ?m1 = "sendToClient (Status ''connecting'' ''Connecting to AI...'') (m0\<lparr>isInitializing := True\<rparr>)"
  let ?si = "getSystemInstruction env (world (mio ?m1))"
  have w: "world (sessionIO ?m1) = world (mio m0)"
    by (simp add: sessionIO_def sendToClient_def emit_def)
  have cc: "isClientConnected ?m1" using assms(1) by (simp add: sendToClient_def)
  obtain r c io where k: "connect env (newGeminiClient ?si) (sessionIO ?m1) = (r, c, io)"
    by (cases "connect env (newGeminiClient ?si) (sessionIO ?m1)")
  have "(\<exists>e. r = Inl e) \<and> \<not> isConnected c"
    using connect_never_completes[OF _ _ k] assms(3) w by (simp add: newGeminiClient_def)
  then obtain e where r: "r = Inl e" and nc: "\<not> isConnected c" by blast
  let ?m3 = "(absorb env io (?m1\<lparr>geminiClient := Some c\<rparr>))\<lparr>isInitializing := False\<rparr>"
  have i: "initializeGemini env m0 = startFallback env ?m3"
    using assms(1,2) cc k r
    by (simp add: initializeGemini_def Let_def absorb_def relayAll_fields)
  have "geminiClient (startFallback env ?m3) = Some c"
    by (simp add: startFallback_def sendToClient_def absorb_def relayAll_fields Let_def)
  then have "\<not> liveReady (startFallback env ?m3)"
    using nc by (simp add: liveReady_def)
  moreover have "fallbackReady (startFallback env ?m3)"
    by (simp add: fallbackReady_def startFallback_def sendToClient_def Let_def)
  ultimately show ?thesis using i by simp
qed

lemma initializeGemini_live:
  assumes "isClientConnected m0" and "\<not> isInitializing m0"
    and "fst (transport env (world (mio m0))) = [WsOpen, WsMessage (Some sc)]" and "setupComplete sc"
  shows "liveReady (initializeGemini env m0)"
proof -
  obtain w where t: "transport env (world (mio m0)) = ([WsOpen, WsMessage (Some sc)], w)"
    using assms(3) by (cases "transport env (world (mio m0))") simp
  show ?thesis
    using assms(1,2,4) t
    by (simp add: initializeGemini_def sendToClient_def sessionIO_def connect_def onWsEvent_def
          settle_def handleGeminiMessage_def sendSetupMessage_def send_def emit_def absorb_def
          relay_def newGeminiClient_def liveReady_def Let_def)
qed

lemma connected_live: "handleClientConnection live_env w0 = m_live"
  by (simp add: manager_defs live_env_def scripted_transport w0_def established_def
        setupCompleteFrame_def openClient_def m_live_def Let_def)

lemma connected_slow: "handleClientConnection slow_env w0 = m_slow"
  by (simp add: manager_defs slow_env_def scripted_transport w0_def freshClient_def
        m_slow_def Let_def)

lemma late_setup_eval:
  "late_setup =
     m_slow\<lparr>geminiClient := Some openClient,
       mio := \<lparr>world = \<lparr>apiCalls = 0, connects = Suc 0\<rparr>,
               trace = trace (mio m_slow) @ [ToClient (Status ''ready'' ''AI assistant ready'')]\<rparr>\<rparr>"
  by (simp add: late_setup_def connected_slow)
     (simp add: handleUpstreamEvent_def m_slow_def manager_defs setupCompleteFrame_def
        openClient_def Let_def)




section \<open>Tool-call events sent to the client\<close>

lemma toolCallEvents_Cons: "toolCallEvents (e # es) = toolCallEvents [e] @ toolCallEvents es"
  using toolCallEvents_append[of "[e]" es] by simp

lemma toolCallbacks_Cons: "toolCallbacks (e # es) = toolCallbacks [e] @ toolCallbacks es"
  using toolCallbacks_append[of "[e]" es] by simp

text \<open>
  The callback of the manager: one \<^verbatim>\<open>tool_call\<close> event with the name and the arguments
  the callback carries, if the client socket is open; none if it is not.
\<close>

lemma onToolCall_toolCallEvents:
  "toolCallEvents (trace (mio (onToolCall env call m)))
     = toolCallEvents (trace (mio m))
       @ (if isClientConnected m \<and> clientOpen m then [(tc_name call, tc_args call)] else [])"
  by (auto simp add: onToolCall_def sendToClient_def emit_def Let_def split: option.splits)

lemma relay_toolCallEvents:
  "toolCallEvents [e] = [] \<Longrightarrow>
   toolCallEvents (trace (mio (relay env e m)))
     = toolCallEvents (trace (mio m))
       @ (if isClientConnected m \<and> clientOpen m
          then map (\<lambda>tc. (tc_name tc, tc_args tc)) (toolCallbacks [e]) else [])"
  by (cases e) (simp_all add: relay_def onToolCall_toolCallEvents sendToClient_def emit_def)

lemma relayAll_toolCallEvents:
  "toolCallEvents es = [] \<Longrightarrow>
   toolCallEvents (trace (mio (relayAll env es m)))
     = toolCallEvents (trace (mio m))
       @ (if isClientConnected m \<and> clientOpen m
          then map (\<lambda>tc. (tc_name tc, tc_args tc)) (toolCallbacks es) else [])"
proof (induction es arbitrary: m)
  case Nil
  then show ?case by simp
next
  case (Cons e es)
  have 1: "toolCallEvents [e] = []" and 2: "toolCallEvents es = []"
    using Cons.prems toolCallEvents_Cons[of e es] by simp_all
  show ?case
    using Cons.IH[OF 2, of "relay env e m"] relay_toolCallEvents[OF 1, of env m]
      toolCallbacks_Cons[of e es]
    by (simp add: relay_fields)
qed

lemma absorb_toolCallEvents:
  "toolCallEvents (trace io) = [] \<Longrightarrow>
   toolCallEvents (trace (mio (absorb env io m)))
     = toolCallEvents (trace (mio m))
       @ (if isClientConnected m \<and> clientOpen m
          then map (\<lambda>tc. (tc_name tc, tc_args tc)) (toolCallbacks (trace io)) else [])"
  using relayAll_toolCallEvents[of "trace io" env "m\<lparr>mio := (mio m)\<lparr>world := world io\<rparr>\<rparr>"]
  by (simp add: absorb_def)

text \<open>What the callback for one call carries, in the Live and in the Fallback Session.\<close>

lemma handleFunctionCall_callback:
  "toolCallbacks (trace (handleFunctionCall env lc fc io))
     = toolCallbacks (trace io)
       @ [\<lparr>tc_id = lc_id fc, tc_name = lc_name fc,
           tc_args = fst (snd (dispatch env (world io) (lc_name fc) (lc_args fc))),
           tc_result = toolResult (fst (dispatch env (world io) (lc_name fc) (lc_args fc)))\<rparr>]"
  by (simp add: handleFunctionCall_eq Let_def split: prod.splits)

lemma runFunctionCall_callback:
  "toolCallbacks (trace (snd (runFunctionCall env fc (c, io))))
     = toolCallbacks (trace io)
       @ [\<lparr>tc_id = ''call_'' @ dateNow env (world io), tc_name = fc_name fc,
           tc_args = fst (snd (dispatch env (world io) (fc_name fc) (fc_args fc))),
           tc_result = toolResult (fst (dispatch env (world io) (fc_name fc) (fc_args fc)))\<rparr>]"
  by (simp add: runFunctionCall_eq sendToolResponse_eq Let_def split: prod.splits)

text \<open>A frame that reaches the Live Session the manager holds, and a text turn in fallback mode.\<close>

lemma upstream_frame:
  assumes "geminiClient m = Some c" and "ws c \<noteq> None" and "\<not> setupComplete msg"
  shows "handleUpstreamEvent env (WsMessage (Some msg)) m
           = absorb env (handleGeminiMessage env c msg (sessionIO m)) m"
proof -
  have e: "m\<lparr>geminiClient := Some c\<rparr> = m" using assms(1) by simp
  show ?thesis
    using assms(2,3) by (auto simp add: handleUpstreamEvent_def onWsEvent_def Let_def assms(1) e)
qed

lemma upstream_frame_events:
  assumes "geminiClient m = Some c" and "ws c \<noteq> None" and "\<not> setupComplete msg"
  shows "map fst (toolCallEvents (trace (mio (handleUpstreamEvent env (WsMessage (Some msg)) m))))
           = map fst (toolCallEvents (trace (mio m)))
             @ (if isClientConnected m \<and> clientOpen m then map lc_name (requestedCalls msg) else [])"
proof -
  let ?io = "handleGeminiMessage env c msg (sessionIO m)"
  have e: "toolCallEvents (trace ?io) = []"
    by (simp add: handleGeminiMessage_toolCallEvents sessionIO_def)
  have "map (\<lambda>tc. (tc_id tc, tc_name tc)) (toolCallbacks (trace ?io))
          = map (\<lambda>fc. (lc_id fc, lc_name fc)) (requestedCalls msg)"
    using handleGeminiMessage_toolCallbacks[OF assms(3), of env c "sessionIO m"]
    by (simp add: sessionIO_def)
  then have "map snd (map (\<lambda>tc. (tc_id tc, tc_name tc)) (toolCallbacks (trace ?io)))
          = map snd (map (\<lambda>fc. (lc_id fc, lc_name fc)) (requestedCalls msg))"
    by simp
  then have n: "map tc_name (toolCallbacks (trace ?io)) = map lc_name (requestedCalls msg)"
    by (simp add: comp_def)
  show ?thesis
    using absorb_toolCallEvents[OF e, of env m] n
    by (simp add: upstream_frame[OF assms] comp_def)
qed

lemma fallback_turn_events:
  assumes "isSessionActive m" and "useTextFallback m" and "geminiTextClient m = Some tc"
    and "t \<noteq> []"
  shows "map fst (toolCallEvents (trace (mio (handleClientMessage env (TextData (Some t)) m))))
           = map fst (toolCallEvents (trace (mio m)))
             @ (if isClientConnected m \<and> clientOpen m
                then map fc_name
                       (partCalls (turnParts (fst (api env (world (mio m)) (firstRequest t tc)))))
                else [])"
proof -
  let ?m1 = "sendToClient (Transcript t False ''user'') m"
  obtain tc1 io where s: "sendText env t (tc, sessionIO ?m1) = (tc1, io)"
    by (cases "sendText env t (tc, sessionIO ?m1)")
  have w: "world (sessionIO ?m1) = world (mio m)" "trace (sessionIO ?m1) = []"
    by (simp_all add: sessionIO_def sendToClient_def emit_def)
  have e: "toolCallEvents (trace io) = []"
    using sendText_toolCallEvents[of env t tc "sessionIO ?m1"] s w by simp
  have n: "map tc_name (toolCallbacks (trace io))
            = map fc_name (partCalls (turnParts (fst (api env (world (mio m)) (firstRequest t tc)))))"
    using sendText_toolCallbacks[of env t tc "sessionIO ?m1"] s w by simp
  have f: "isClientConnected (?m1\<lparr>geminiTextClient := Some tc1\<rparr>) = isClientConnected m"
      "clientOpen (?m1\<lparr>geminiTextClient := Some tc1\<rparr>) = clientOpen m"
      "toolCallEvents (trace (mio (?m1\<lparr>geminiTextClient := Some tc1\<rparr>)))
         = toolCallEvents (trace (mio m))"
    by (simp_all add: sendToClient_def emit_def)
  have m1: "useTextFallback ?m1" "geminiTextClient ?m1 = Some tc"
    using assms(2,3) by (simp_all add: sendToClient_def)
  have h: "handleClientMessage env (TextData (Some t)) m
             = absorb env io (?m1\<lparr>geminiTextClient := Some tc1\<rparr>)"
    using assms(1,4) m1 s
    by (simp add: handleClientMessage_def handleText_def truthy_str_def Let_def)
  show ?thesis
    using absorb_toolCallEvents[OF e, of env "?m1\<lparr>geminiTextClient := Some tc1\<rparr>"] n f
    by (simp add: h comp_def)
qed

lemma closing_client_trace:
  "trace (mio (handleUpstreamEvent live_env (WsMessage (Some twoCallsFrame))
                 (m_live\<lparr>clientOpen := False\<rparr>)))
     = trace (mio m_live)
       @ [Dispatch ''poi_search'' jaipur,
          Upstream (ToolResponse ''c1'' ''poi_search'' (JObj [(''success'', JBool True)])),
          Dispatch ''get_weather'' jaipur,
          Upstream (ToolResponse ''c2'' ''get_weather''
                      (JObj [(''error'', JStr ''weather service down'')]))]"
  by (simp add: handleUpstreamEvent_def onWsEvent_def handleGeminiMessage_def twoCallsFrame_def
        handleFunctionCall_eq m_live_def openClient_def sessionIO_def absorb_def relay_def
        onToolCall_def sendToClient_def emit_def flaky_dispatch toolReply_simps Let_def)

text \<open>
  C1, as stated, fails: a tool-call event reaches the client only while the client socket
  is open. On a connection whose Live Session is ready and whose client socket is no
  longer open (it is closing, and its close event has not been delivered yet), a frame
  with two calls is handled in full: both calls are dispatched and both are answered
  upstream, the second with the error of the dispatcher. No \<^verbatim>\<open>tool_call\<close> event is
  sent for either.
\<close>

theorem tool_call_event_dropped_when_client_closed:
  "trace (mio (handleUpstreamEvent live_env (WsMessage (Some twoCallsFrame))
                 ((handleClientConnection live_env w0)\<lparr>clientOpen := False\<rparr>)))
     = trace (mio (handleClientConnection live_env w0))
       @ [Dispatch ''poi_search'' jaipur,
          Upstream (ToolResponse ''c1'' ''poi_search'' (JObj [(''success'', JBool True)])),
          Dispatch ''get_weather'' jaipur,
          Upstream (ToolResponse ''c2'' ''get_weather''
                      (JObj [(''error'', JStr ''weather service down'')]))]
   \<and> toolCallEvents
         (trace (mio (handleUpstreamEvent live_env (WsMessage (Some twoCallsFrame))
                        ((handleClientConnection live_env w0)\<lparr>clientOpen := False\<rparr>)))) = []"
  by (simp add: connected_live closing_client_trace) (simp add: m_live_def)

text \<open>
  C1, amended. Each session makes the tool-call callback exactly once per requested
  function call, in request order, whatever the dispatcher returns or throws: the Live
  Session for the calls of every frame it handles (a frame that is not a setup-complete
  frame), with the id and the name of each call; the Fallback Session for the
  function-call parts of the response to the first request of a user turn. The callback
  for a call carries the name of the call, its arguments as the dispatcher left them, and
  the result, or null when the dispatcher threw. The callback of the manager sends one
  \<^verbatim>\<open>tool_call\<close> event, with the name and the arguments the callback carries, if the
  client socket is open, and nothing if it is not. So a frame that reaches the Live
  Session the manager holds, and a text turn in fallback mode, send the client exactly
  one \<^verbatim>\<open>tool_call\<close> event per requested call, in order, while the client socket is
  open, and none when it is not.
\<close>

theorem tool_call_event_once_per_call_while_client_open:
  "(\<not> setupComplete msg \<longrightarrow>
      map (\<lambda>tc. (tc_id tc, tc_name tc)) (toolCallbacks (trace (handleGeminiMessage env lc msg io)))
        = map (\<lambda>tc. (tc_id tc, tc_name tc)) (toolCallbacks (trace io))
          @ map (\<lambda>fc. (lc_id fc, lc_name fc)) (requestedCalls msg))
   \<and> map tc_name (toolCallbacks (trace (snd (sendText env t (c, io)))))
        = map tc_name (toolCallbacks (trace io))
          @ map fc_name (partCalls (turnParts (fst (api env (world io) (firstRequest t c)))))
   \<and> toolCallbacks (trace (handleFunctionCall env lc lfc io))
        = toolCallbacks (trace io)
          @ [\<lparr>tc_id = lc_id lfc, tc_name = lc_name lfc,
              tc_args = fst (snd (dispatch env (world io) (lc_name lfc) (lc_args lfc))),
              tc_result = toolResult (fst (dispatch env (world io) (lc_name lfc) (lc_args lfc)))\<rparr>]
   \<and> toolCallbacks (trace (snd (runFunctionCall env fc (c, io))))
        = toolCallbacks (trace io)
          @ [\<lparr>tc_id = ''call_'' @ dateNow env (world io), tc_name = fc_name fc,
              tc_args = fst (snd (dispatch env (world io) (fc_name fc) (fc_args fc))),
              tc_result = toolResult (fst (dispatch env (world io) (fc_name fc) (fc_args fc)))\<rparr>]
   \<and> toolCallEvents (trace (mio (onToolCall env call m)))
        = toolCallEvents (trace (mio m))
          @ (if isClientConnected m \<and> clientOpen m then [(tc_name call, tc_args call)] else [])
   \<and> (geminiClient m = Some lc \<and> ws lc \<noteq> None \<and> \<not> setupComplete msg \<longrightarrow>
        map fst (toolCallEvents (trace (mio (handleUpstreamEvent env (WsMessage (Some msg)) m))))
          = map fst (toolCallEvents (trace (mio m)))
            @ (if isClientConnected m \<and> clientOpen m then map lc_name (requestedCalls msg) else []))
   \<and> (isSessionActive m \<and> useTextFallback m \<and> geminiTextClient m = Some c \<and> t \<noteq> [] \<longrightarrow>
        map fst (toolCallEvents (trace (mio (handleClientMessage env (TextData (Some t)) m))))
          = map fst (toolCallEvents (trace (mio m)))
            @ (if isClientConnected m \<and> clientOpen m
               then map fc_name
                      (partCalls (turnParts (fst (api env (world (mio m)) (firstRequest t c)))))
               else []))"
  using handleGeminiMessage_toolCallbacks[of msg env lc io] sendText_toolCallbacks[of env t c io]
    handleFunctionCall_callback[of env lc lfc io] runFunctionCall_callback[of env fc c io]
    onToolCall_toolCallEvents[of env call m] upstream_frame_events[of m lc msg env]
    fallback_turn_events[of m c t env]
  by blast

text \<open>
  Setting the itinerary from an object writes the name into that object, which is part of
  the arguments: the dispatcher leaves the arguments with the name written.
\<close>

lemma set_request_dispatch:
  "dispatch itinerary_env w ''update_itinerary'' setRequest
     = (Inr (JObj [(''success'', JBool True),
                   (''itinerary'',
                    JObj [(''destination'', JStr ''Jaipur''), (''days'', JArr []),
                          (''name'', JStr ''Pink City Adventure'')]),
                   (''message'', JStr ''Itinerary set successfully'')]),
        JObj [(''action'', JStr ''set''),
              (''name'', JStr ''Pink City Adventure''),
              (''full_itinerary'',
               JObj [(''destination'', JStr ''Jaipur''), (''days'', JArr []),
                     (''name'', JStr ''Pink City Adventure'')])],
        w)"
  by (simp add: itinerary_env_def scripted_env_def exampleTool_def dispatchWith_def argsAfter_def
        executeToolCall_def knownTools_def updateItineraryCase_def setAction_def
        namedItinerary_def setProp_def truthyOpt_def setRequest_def example_collaborators_def
        newDispatcher_def Let_def)

lemma two_calls_first_any:
  "fst (api two_calls_env \<lparr>apiCalls = 0, connects = k\<rparr> r) =
     okResponse [callPart ''poi_search'' jaipur, callPart ''get_weather'' jaipur]"
  by (simp add: two_calls_env_def scripted_env_def)

lemma connected_two_calls: "handleClientConnection two_calls_env w0 = m_fallback"
  by (simp add: manager_defs two_calls_env_def scripted_transport w0_def freshClient_def
        Let_def m_fallback_def)

theorem tool_call_event_once_per_call_while_client_open_witness:
  "\<not> setupComplete twoCallsFrame
   \<and> map (\<lambda>tc. (tc_id tc, tc_name tc))
         (toolCallbacks (trace (handleGeminiMessage two_calls_env openClient twoCallsFrame io0)))
       = [(''c1'', ''poi_search''), (''c2'', ''get_weather'')]
   \<and> geminiClient (handleClientConnection live_env w0) = Some openClient \<and> ws openClient \<noteq> None
   \<and> isClientConnected (handleClientConnection live_env w0)
   \<and> clientOpen (handleClientConnection live_env w0)
   \<and> map fst (toolCallEvents
         (trace (mio (handleUpstreamEvent live_env (WsMessage (Some twoCallsFrame))
                        (handleClientConnection live_env w0)))))
       = [''poi_search'', ''get_weather'']
   \<and> isSessionActive (handleClientConnection two_calls_env w0)
   \<and> useTextFallback (handleClientConnection two_calls_env w0)
   \<and> geminiTextClient (handleClientConnection two_calls_env w0) = Some freshClient
   \<and> ''Plan a trip'' \<noteq> []
   \<and> map fst (toolCallEvents
         (trace (mio (handleClientMessage two_calls_env (TextData (Some ''Plan a trip''))
                        (handleClientConnection two_calls_env w0)))))
       = [''poi_search'', ''get_weather'']
   \<and> toolCallbacks (trace (handleFunctionCall itinerary_env openClient
         \<lparr>lc_id = ''c1'', lc_name = ''update_itinerary'', lc_args = setRequest\<rparr> io0))
       = [\<lparr>tc_id = ''c1'', tc_name = ''update_itinerary'',
           tc_args = JObj [(''action'', JStr ''set''),
                           (''name'', JStr ''Pink City Adventure''),
                           (''full_itinerary'',
                            JObj [(''destination'', JStr ''Jaipur''), (''days'', JArr []),
                                  (''name'', JStr ''Pink City Adventure'')])],
           tc_result = Some (JObj [(''success'', JBool True),
                                   (''itinerary'',
                                    JObj [(''destination'', JStr ''Jaipur''), (''days'', JArr []),
                                          (''name'', JStr ''Pink City Adventure'')]),
                                   (''message'', JStr ''Itinerary set successfully'')])\<rparr>]"
proof -
  have h: "\<not> setupComplete twoCallsFrame" by (simp add: twoCallsFrame_def)
  have D: "toolCallbacks (trace (handleFunctionCall itinerary_env openClient
         \<lparr>lc_id = ''c1'', lc_name = ''update_itinerary'', lc_args = setRequest\<rparr> io0))
       = [\<lparr>tc_id = ''c1'', tc_name = ''update_itinerary'',
           tc_args = JObj [(''action'', JStr ''set''),
                           (''name'', JStr ''Pink City Adventure''),
                           (''full_itinerary'',
                            JObj [(''destination'', JStr ''Jaipur''), (''days'', JArr []),
                                  (''name'', JStr ''Pink City Adventure'')])],
           tc_result = Some (JObj [(''success'', JBool True),
                                   (''itinerary'',
                                    JObj [(''destination'', JStr ''Jaipur''), (''days'', JArr []),
                                          (''name'', JStr ''Pink City Adventure'')]),
                                   (''message'', JStr ''Itinerary set successfully'')])\<rparr>]"
    using tool_call_event_once_per_call_while_client_open[where env = itinerary_env
        and lc = openClient and io = io0
        and lfc = "\<lparr>lc_id = ''c1'', lc_name = ''update_itinerary'', lc_args = setRequest\<rparr>"]
    by (simp add: io0_simps set_request_dispatch toolReply_simps)
  have A: "map (\<lambda>tc. (tc_id tc, tc_name tc))
         (toolCallbacks (trace (handleGeminiMessage two_calls_env openClient twoCallsFrame io0)))
       = [(''c1'', ''poi_search''), (''c2'', ''get_weather'')]"
    using h tool_call_event_once_per_call_while_client_open[where msg = twoCallsFrame
        and env = two_calls_env and lc = openClient and io = io0]
    by (simp add: requestedCalls_twoCallsFrame io0_simps)
  have l: "geminiClient m_live = Some openClient" "ws openClient \<noteq> None"
      "isClientConnected m_live" "clientOpen m_live" "toolCallEvents (trace (mio m_live)) = []"
    by (simp_all add: m_live_def openClient_def)
  have B: "map fst (toolCallEvents
         (trace (mio (handleUpstreamEvent live_env (WsMessage (Some twoCallsFrame)) m_live))))
       = [''poi_search'', ''get_weather'']"
    using h l tool_call_event_once_per_call_while_client_open[where msg = twoCallsFrame
        and env = live_env and lc = openClient and m = m_live]
    by (simp add: requestedCalls_twoCallsFrame)
  have f: "isSessionActive m_fallback" "useTextFallback m_fallback"
      "geminiTextClient m_fallback = Some freshClient"
      "isClientConnected m_fallback" "clientOpen m_fallback"
      "toolCallEvents (trace (mio m_fallback)) = []"
      "world (mio m_fallback) = \<lparr>apiCalls = 0, connects = Suc 0\<rparr>"
    by (simp_all add: m_fallback_def)
  have n: "''Plan a trip'' \<noteq> []" by simp
  have C: "map fst (toolCallEvents
         (trace (mio (handleClientMessage two_calls_env (TextData (Some ''Plan a trip'')) m_fallback))))
       = [''poi_search'', ''get_weather'']"
    using f n tool_call_event_once_per_call_while_client_open[where env = two_calls_env
        and c = freshClient and m = m_fallback and t = "''Plan a trip''"]
    by (simp add: two_calls_first_any turnParts_ok partCalls_simps)
  show ?thesis
    using h A B C D l f n by (simp add: connected_live connected_two_calls)
qed

section \<open>The contract of the Tool Dispatcher\<close>

lemma unknown_tool:
  "toolName \<notin> set knownTools \<Longrightarrow>
   executeToolCall C st toolName args = (Inr (failure (''Unknown tool: '' @ toolName)), st)"
  by (simp add: executeToolCall_def knownTools_def)

lemma missing_destination:
  assumes "toolName \<in> {''poi_search'', ''get_city_info'', ''get_weather'', ''search_destination_info''}"
    and "args \<noteq> JNull" and "\<not> truthyOpt (field args ''destination'')"
  shows "executeToolCall C st toolName args = (Inr (failure (destinationRequired toolName)), st)"
  using assms
  by (auto simp add: executeToolCall_def poiSearchCase_def cityInfoCase_def weatherCase_def
        destinationInfoCase_def destinationRequired_def Let_def)

lemma collaborator_throws:
  assumes "truthyOpt (field args ''destination'')"
  shows "fst (c_searchPOIs C (outside st) (the (field args ''destination'')) (field args ''category'')
            (field args ''interests'') (orElse (field args ''limit'') (JNum 5))) = Inl e
         \<Longrightarrow> fst (executeToolCall C st ''poi_search'' args) = Inl e"
    and "fst (c_getCityInfo C (outside st) (the (field args ''destination'')) (field args ''topic'')) = Inl e
         \<Longrightarrow> fst (executeToolCall C st ''get_city_info'' args) = Inl e"
    and "fst (c_getWeather C (outside st) (the (field args ''destination'')) (field args ''date'')) = Inl e
         \<Longrightarrow> fst (executeToolCall C st ''get_weather'' args) = Inl e"
    and "fst (c_searchDestinationInfo C (outside st) (the (field args ''destination''))
            (field args ''query_type'')) = Inl e
         \<Longrightarrow> fst (executeToolCall C st ''search_destination_info'' args) = Inl e"
proof -
  have n: "args \<noteq> JNull" using assms by (auto simp add: truthyOpt_def)
  show "fst (c_searchPOIs C (outside st) (the (field args ''destination'')) (field args ''category'')
            (field args ''interests'') (orElse (field args ''limit'') (JNum 5))) = Inl e
         \<Longrightarrow> fst (executeToolCall C st ''poi_search'' args) = Inl e"
    using assms n by (auto simp add: executeToolCall_def poiSearchCase_def Let_def split: prod.splits)
  show "fst (c_getCityInfo C (outside st) (the (field args ''destination'')) (field args ''topic'')) = Inl e
         \<Longrightarrow> fst (executeToolCall C st ''get_city_info'' args) = Inl e"
    using assms n by (auto simp add: executeToolCall_def cityInfoCase_def Let_def split: prod.splits)
  show "fst (c_getWeather C (outside st) (the (field args ''destination'')) (field args ''date'')) = Inl e
         \<Longrightarrow> fst (executeToolCall C st ''get_weather'' args) = Inl e"
    using assms n by (auto simp add: executeToolCall_def weatherCase_def Let_def split: prod.splits)
  show "fst (c_searchDestinationInfo C (outside st) (the (field args ''destination''))
            (field args ''query_type'')) = Inl e
         \<Longrightarrow> fst (executeToolCall C st ''search_destination_info'' args) = Inl e"
    using assms n by (auto simp add: executeToolCall_def destinationInfoCase_def Let_def split: prod.splits)
qed




section \<open>The itinerary passed to an update is left alone\<close>

lemma startsWith_refl [simp]: "startsWith xs xs"
  by (simp add: startsWith_def)

lemma startsWith_append [simp]: "startsWith (xs @ zs) xs"
  by (simp add: startsWith_def)

lemma startsWith_length: "startsWith ys xs \<Longrightarrow> length xs \<le> length ys"
proof -
  assume "startsWith ys xs"
  then have "length (take (length xs) ys) = length xs" by (simp add: startsWith_def)
  then show ?thesis by simp
qed

lemma startsWith_trans: "startsWith ys xs \<Longrightarrow> startsWith zs ys \<Longrightarrow> startsWith zs xs"
proof -
  assume a: "startsWith ys xs" and b: "startsWith zs ys"
  have l: "length xs \<le> length ys" using a by (rule startsWith_length)
  have "take (length xs) (take (length ys) zs) = take (length xs) zs"
    using l by (simp add: min.absorb1)
  moreover have "take (length xs) (take (length ys) zs) = xs"
    using a b by (simp only: startsWith_def)
  ultimately show ?thesis by (simp add: startsWith_def)
qed

lemma startsWith_nth: "startsWith ys xs \<Longrightarrow> i < length xs \<Longrightarrow> ys ! i = xs ! i"
proof -
  assume a: "startsWith ys xs" and i: "i < length xs"
  have "take (length xs) ys ! i = ys ! i" using i by simp
  then show ?thesis using a by (simp add: startsWith_def)
qed

lemma startsWith_update: "startsWith ys xs \<Longrightarrow> length xs \<le> i \<Longrightarrow> startsWith (ys[i := v]) xs"
  by (simp add: startsWith_def)

lemma preserved_refl [simp]: "preserved h h"
  by (simp add: preserved_def)

lemma preserved_trans: "preserved h0 h1 \<Longrightarrow> preserved h1 h2 \<Longrightarrow> preserved h0 h2"
  unfolding preserved_def by (blast intro: startsWith_trans)

lemma preserved_alloc:
  "preserved h (snd (newActivities as h))"
  "preserved h (snd (newActivityArray xs h))"
  "preserved h (snd (newDay day h))"
  "preserved h (snd (newDayArray ds h))"
  "preserved h (snd (newItinerary it h))"
  by (simp_all add: preserved_def newActivities_def newActivityArray_def newDay_def
        newDayArray_def newItinerary_def)

lemma preserved_lengths:
  assumes "preserved h h'"
  shows "length (itineraryObjs h) \<le> length (itineraryObjs h')"
    and "length (dayArrays h) \<le> length (dayArrays h')"
    and "length (dayObjs h) \<le> length (dayObjs h')"
    and "length (activityArrays h) \<le> length (activityArrays h')"
    and "length (activityObjs h) \<le> length (activityObjs h')"
  using assms by (simp_all add: preserved_def startsWith_length)

lemma preserved_nth:
  assumes "preserved h h'"
  shows "i < length (itineraryObjs h) \<Longrightarrow> itineraryObjs h' ! i = itineraryObjs h ! i"
    and "i < length (dayArrays h) \<Longrightarrow> dayArrays h' ! i = dayArrays h ! i"
    and "i < length (dayObjs h) \<Longrightarrow> dayObjs h' ! i = dayObjs h ! i"
    and "i < length (activityArrays h) \<Longrightarrow> activityArrays h' ! i = activityArrays h ! i"
    and "i < length (activityObjs h) \<Longrightarrow> activityObjs h' ! i = activityObjs h ! i"
  using assms by (simp_all add: preserved_def startsWith_nth)

lemma newDayIn_weaken: "newDayIn True h0 h d \<Longrightarrow> newDayIn strict h0 h d"
  by (auto simp add: newDayIn_def list_all_iff dest: in_set_butlastD)

lemma newItineraryIn_weaken: "newItineraryIn True h0 h it \<Longrightarrow> newItineraryIn strict h0 h it"
  by (auto simp add: newItineraryIn_def list_all_iff intro: newDayIn_weaken)

lemma newDayIn_mono:
  assumes "newDayIn strict h0 h d" and "preserved h h'"
  shows "newDayIn strict h0 h' d"
proof -
  have d: "d < length (dayObjs h)" and a: "d_activities (dayObjs h ! d) < length (activityArrays h)"
    using assms(1) by (simp_all add: newDayIn_def)
  have 1: "dayObjs h' ! d = dayObjs h ! d" using preserved_nth(3)[OF assms(2) d] .
  have 2: "activitiesOf h' d = activitiesOf h d"
    using preserved_nth(4)[OF assms(2) a] 1 by (simp add: activitiesOf_def)
  show ?thesis
    using assms(1) 1 2 preserved_lengths(3,4)[OF assms(2)]
    by (cases strict) (simp_all add: newDayIn_def)
qed

lemma parseDay_eq:
  "parseDay dv h =
     (length (dayObjs h),
      h\<lparr>activityObjs := activityObjs h @ dv_activities dv,
        activityArrays := activityArrays h
           @ [[length (activityObjs h) ..< length (activityObjs h) + length (dv_activities dv)]],
        dayObjs := dayObjs h
           @ [\<lparr>d_day_number = dv_day_number dv, d_date = dv_date dv,
               d_activities = length (activityArrays h)\<rparr>]\<rparr>)"
  by (simp add: parseDay_def newActivities_def newActivityArray_def newDay_def)

lemma parseDay_preserved: "preserved h (snd (parseDay dv h))"
  by (simp add: parseDay_eq preserved_def)

lemma parseDay_new:
  assumes "preserved h0 h"
  shows "newDayIn True h0 (snd (parseDay dv h)) (fst (parseDay dv h))"
  using preserved_lengths[OF assms]
  by (simp add: parseDay_eq newDayIn_def activitiesOf_def list_all_iff)

lemma parseDays_new:
  assumes "preserved h0 h"
  shows "preserved h (snd (parseDays dvs h))
         \<and> list_all (newDayIn True h0 (snd (parseDays dvs h))) (fst (parseDays dvs h))"
  using assms
proof (induction dvs arbitrary: h)
  case Nil
  then show ?case by simp
next
  case (Cons dv dvs)
  obtain d h1 where p: "parseDay dv h = (d, h1)" by (cases "parseDay dv h")
  obtain ds h2 where q: "parseDays dvs h1 = (ds, h2)" by (cases "parseDays dvs h1")
  have 1: "preserved h h1" using parseDay_preserved[of h dv] p by simp
  have 01: "preserved h0 h1" using preserved_trans[OF Cons.prems 1] .
  have n: "newDayIn True h0 h1 d" using parseDay_new[OF Cons.prems, of dv] p by simp
  have ih: "preserved h1 h2 \<and> list_all (newDayIn True h0 h2) ds"
    using Cons.IH[OF 01] q by simp
  have "newDayIn True h0 h2 d" using newDayIn_mono[OF n] ih by blast
  then show ?case
    using p q ih preserved_trans[OF 1] by simp
qed

lemma daysOf_preserved:
  assumes "preserved h h'" and "it < length (itineraryObjs h)"
    and "it_days (itineraryObjs h ! it) < length (dayArrays h)"
  shows "daysOf h' it = daysOf h it" and "itineraryObjs h' ! it = itineraryObjs h ! it"
  using preserved_nth(1)[OF assms(1,2)] preserved_nth(2)[OF assms(1,3)]
  by (simp_all add: daysOf_def)

lemma parseItinerary_new:
  assumes "preserved h0 h"
  shows "preserved h0 (snd (parseItinerary iv h))
         \<and> newItineraryIn True h0 (snd (parseItinerary iv h)) (fst (parseItinerary iv h))"
proof -
  obtain ds h1 where q: "parseDays (iv_days iv) h = (ds, h1)" by (cases "parseDays (iv_days iv) h")
  have 1: "preserved h h1" and n: "list_all (newDayIn True h0 h1) ds"
    using parseDays_new[OF assms, of "iv_days iv"] q by simp_all
  have 01: "preserved h0 h1" using preserved_trans[OF assms 1] .
  let ?h2 = "h1\<lparr>dayArrays := dayArrays h1 @ [ds]\<rparr>"
  let ?it = "\<lparr>it_name = iv_name iv, it_destination = iv_destination iv,
              it_days = length (dayArrays h1), it_sources = iv_sources iv\<rparr>"
  let ?h3 = "?h2\<lparr>itineraryObjs := itineraryObjs ?h2 @ [?it]\<rparr>"
  have e: "parseItinerary iv h = (length (itineraryObjs h1), ?h3)"
    using q by (simp add: parseItinerary_def newDayArray_def newItinerary_def)
  have 13: "preserved h1 ?h3" by (simp add: preserved_def)
  have 03: "preserved h0 ?h3" using preserved_trans[OF 01 13] .
  have dn: "list_all (newDayIn True h0 ?h3) ds"
    using n newDayIn_mono[OF _ 13] by (simp add: list_all_iff)
  have "newItineraryIn True h0 ?h3 (length (itineraryObjs h1))"
    using dn preserved_lengths[OF 01]
    by (simp add: newItineraryIn_def daysOf_def)
  then show ?thesis using e 03 by simp
qed

lemma findDay_in: "findDay h it n = Some day \<Longrightarrow> day \<in> set (daysOf h it)"
  by (auto simp add: findDay_def find_Some_iff)

lemma newItineraryIn_days:
  "newItineraryIn strict h0 h it \<Longrightarrow> d \<in> set (daysOf h it) \<Longrightarrow> newDayIn strict h0 h d"
  by (simp add: newItineraryIn_def list_all_iff)

text \<open>Writing the array of a new day.\<close>

lemma setActivities_new:
  assumes P: "preserved h0 h"
    and D: "newDayIn True h0 h day"
    and A: "list_all (\<lambda>a. length (activityObjs h0) \<le> a) (if strict then as else butlast as)"
  shows "preserved h0 (setActivities day as h)"
    and "newDayIn True h0 h d \<Longrightarrow> newDayIn strict h0 (setActivities day as h) d"
proof -
  let ?arr = "d_activities (dayObjs h ! day)"
  have r: "length (activityArrays h0) \<le> ?arr" "?arr < length (activityArrays h)"
    using D by (simp_all add: newDayIn_def)
  show "preserved h0 (setActivities day as h)"
    using P r(1) by (simp add: preserved_def setActivities_def startsWith_update)
  assume d: "newDayIn True h0 h d"
  have e: "activitiesOf (setActivities day as h) d
      = (if d_activities (dayObjs h ! d) = ?arr then as else activitiesOf h d)"
    using r(2) by (simp add: activitiesOf_def setActivities_def)
  have old: "list_all (\<lambda>a. length (activityObjs h0) \<le> a)
      (if strict then activitiesOf h d else butlast (activitiesOf h d))"
    using newDayIn_weaken[OF d, of strict] by (simp add: newDayIn_def)
  show "newDayIn strict h0 (setActivities day as h) d"
    using d A old e
    by (cases strict) (simp_all add: newDayIn_def setActivities_def)
qed

text \<open>Giving a new day a newly allocated array.\<close>

lemma replaceActivities_new:
  assumes P: "preserved h0 h"
    and D: "newDayIn True h0 h day"
    and A: "list_all (\<lambda>a. length (activityObjs h0) \<le> a) as"
  defines "h' \<equiv> (let (arr, h1) = newActivityArray as h
                  in h1\<lparr>dayObjs := (dayObjs h1)[day := (dayObjs h1 ! day)\<lparr>d_activities := arr\<rparr>]\<rparr>)"
  shows "preserved h0 h'"
    and "newDayIn True h0 h d \<Longrightarrow> newDayIn True h0 h' d"
    and "itineraryObjs h' = itineraryObjs h" and "dayArrays h' = dayArrays h"
proof -
  have e: "h' = h\<lparr>activityArrays := activityArrays h @ [as],
                  dayObjs := (dayObjs h)[day := (dayObjs h ! day)\<lparr>d_activities := length (activityArrays h)\<rparr>]\<rparr>"
    by (simp add: h'_def newActivityArray_def)
  have r: "length (dayObjs h0) \<le> day" "day < length (dayObjs h)"
    using D by (simp_all add: newDayIn_def)
  show "preserved h0 h'"
    using P r(1) unfolding e preserved_def
    by (auto simp add: startsWith_update intro: startsWith_trans[OF _ startsWith_append])
  show "itineraryObjs h' = itineraryObjs h" "dayArrays h' = dayArrays h"
    by (simp_all add: e)
  assume d: "newDayIn True h0 h d"
  have l: "length (activityArrays h0) \<le> length (activityArrays h)"
    using preserved_lengths(4)[OF P] .
  show "newDayIn True h0 h' d"
  proof (cases "d = day")
    case True
    then show ?thesis using d A l r unfolding e
      by (simp add: newDayIn_def activitiesOf_def)
  next
    case False
    then show ?thesis using d unfolding e
      by (simp add: newDayIn_def activitiesOf_def nth_append)
  qed
qed

lemma newItineraryIn_same_days:
  assumes "newItineraryIn True h0 h it"
    and "itineraryObjs h' = itineraryObjs h" and "dayArrays h' = dayArrays h"
    and "\<And>d. newDayIn True h0 h d \<Longrightarrow> newDayIn strict h0 h' d"
  shows "newItineraryIn strict h0 h' it"
  using assms by (simp add: newItineraryIn_def daysOf_def list_all_iff)

lemma clearDay_new:
  assumes P: "preserved h0 h" and N: "newItineraryIn True h0 h it"
  shows "preserved h0 (clearDay it n h) \<and> newItineraryIn True h0 (clearDay it n h) it"
proof (cases "findDay h it n")
  case None
  then show ?thesis using P N by (simp add: clearDay_def)
next
  case (Some day)
  have D: "newDayIn True h0 h day"
    using newItineraryIn_days[OF N findDay_in[OF Some]] .
  have A: "list_all (\<lambda>a. length (activityObjs h0) \<le> a) []" by simp
  show ?thesis
    using replaceActivities_new(1)[OF P D A]
      newItineraryIn_same_days[OF N replaceActivities_new(3,4)[OF P D A]
        replaceActivities_new(2)[OF P D A]] Some
    by (simp add: clearDay_def)
qed

lemma removeActivity_new:
  assumes P: "preserved h0 h" and N: "newItineraryIn True h0 h it"
  shows "preserved h0 (removeActivity it n name h)
         \<and> newItineraryIn True h0 (removeActivity it n name h) it"
proof (cases "findDay h it n")
  case None
  then show ?thesis using P N by (simp add: removeActivity_def)
next
  case (Some day)
  have D: "newDayIn True h0 h day"
    using newItineraryIn_days[OF N findDay_in[OF Some]] .
  let ?as = "filter (\<lambda>a. a_poi_name (activityObjs h ! a) \<noteq> Some name) (activitiesOf h day)"
  have A: "list_all (\<lambda>a. length (activityObjs h0) \<le> a) ?as"
    using D by (simp add: newDayIn_def list_all_iff)
  show ?thesis
    using replaceActivities_new(1)[OF P D A]
      newItineraryIn_same_days[OF N replaceActivities_new(3,4)[OF P D A]
        replaceActivities_new(2)[OF P D A]] Some
    by (simp add: removeActivity_def)
qed

lemma newItineraryIn_mono:
  assumes "newItineraryIn strict h0 h it" and "preserved h h'"
  shows "newItineraryIn strict h0 h' it"
proof -
  have r: "it < length (itineraryObjs h)" "it_days (itineraryObjs h ! it) < length (dayArrays h)"
    using assms(1) by (simp_all add: newItineraryIn_def)
  have "list_all (newDayIn strict h0 h') (daysOf h it)"
    using assms(1) newDayIn_mono[OF _ assms(2)] by (simp add: newItineraryIn_def list_all_iff)
  then show ?thesis
    using assms(1) daysOf_preserved[OF assms(2) r] preserved_lengths(1,2)[OF assms(2)]
    by (simp add: newItineraryIn_def)
qed

lemma setActivities_itinerary:
  assumes P: "preserved h0 h" and N: "newItineraryIn True h0 h it"
    and D: "newDayIn True h0 h day"
    and A: "list_all (\<lambda>a. length (activityObjs h0) \<le> a) (if strict then as else butlast as)"
  shows "preserved h0 (setActivities day as h) \<and> newItineraryIn strict h0 (setActivities day as h) it"
proof -
  have "newItineraryIn strict h0 (setActivities day as h) it"
    by (rule newItineraryIn_same_days[OF N _ _ setActivities_new(2)[OF P D A]])
       (simp_all add: setActivities_def)
  then show ?thesis using setActivities_new(1)[OF P D A] by simp
qed

lemma updateActivity_new:
  assumes P: "preserved h0 h" and N: "newItineraryIn True h0 h it"
  shows "preserved h0 (updateActivity it n name act h)
         \<and> newItineraryIn True h0 (updateActivity it n name act h) it"
proof (cases "findDay h it n")
  case None
  then show ?thesis using P N by (simp add: updateActivity_def)
next
  case (Some day)
  show ?thesis
  proof (cases "findIndex (\<lambda>a. a_poi_name (activityObjs h ! a) = Some name) (activitiesOf h day)")
    case None
    then show ?thesis using P N Some by (simp add: updateActivity_def)
  next
    case (Some i)
    let ?m = "spread (activityObjs h ! (activitiesOf h day ! i)) (activityObjs h ! act)"
    let ?h1 = "h\<lparr>activityObjs := activityObjs h @ [?m]\<rparr>"
    have 1: "preserved h ?h1" by (simp add: preserved_def)
    have P1: "preserved h0 ?h1" using preserved_trans[OF P 1] .
    have N1: "newItineraryIn True h0 ?h1 it" using newItineraryIn_mono[OF N 1] .
    have D: "newDayIn True h0 h day"
      using newItineraryIn_days[OF N findDay_in[OF \<open>findDay h it n = Some day\<close>]] .
    have D1: "newDayIn True h0 ?h1 day" using newDayIn_mono[OF D 1] .
    have f: "list_all (\<lambda>a. length (activityObjs h0) \<le> a) (activitiesOf ?h1 day)"
      using D1 by (simp add: newDayIn_def)
    have "length (activityObjs h0) \<le> length (activityObjs h)"
      using preserved_lengths(5)[OF P] .
    then have A: "list_all (\<lambda>a. length (activityObjs h0) \<le> a)
        (if True then (activitiesOf ?h1 day)[i := length (activityObjs h)]
         else butlast ((activitiesOf ?h1 day)[i := length (activityObjs h)]))"
      using f set_update_subset_insert[of "activitiesOf ?h1 day" i "length (activityObjs h)"]
      by (auto simp add: list_all_iff)
    have e: "updateActivity it n name act h
        = setActivities day ((activitiesOf ?h1 day)[i := length (activityObjs h)]) ?h1"
      using \<open>findDay h it n = Some day\<close> Some
      by (simp add: updateActivity_def newActivities_def)
    show ?thesis
      unfolding e by (rule setActivities_itinerary[OF P1 N1 D1 A])
  qed
qed

lemma setDays_new:
  assumes P: "preserved h0 h" and N: "newItineraryIn True h0 h it"
    and A: "list_all (newDayIn True h0 h) ds"
  shows "preserved h0 (setDays it ds h)"
    and "newItineraryIn True h0 (setDays it ds h) it"
    and "daysOf (setDays it ds h) it = ds"
    and "newDayIn True h0 h d \<Longrightarrow> newDayIn True h0 (setDays it ds h) d"
proof -
  have r: "length (dayArrays h0) \<le> it_days (itineraryObjs h ! it)"
    "it_days (itineraryObjs h ! it) < length (dayArrays h)"
    "length (itineraryObjs h0) \<le> it" "it < length (itineraryObjs h)"
    using N by (simp_all add: newItineraryIn_def)
  show "preserved h0 (setDays it ds h)"
    using P r(1) by (simp add: preserved_def setDays_def startsWith_update)
  show e: "daysOf (setDays it ds h) it = ds"
    using r(2) by (simp add: daysOf_def setDays_def)
  have c: "newDayIn True h0 (setDays it ds h) d = newDayIn True h0 h d" for d
    by (simp add: newDayIn_def setDays_def activitiesOf_def)
  show "newDayIn True h0 h d \<Longrightarrow> newDayIn True h0 (setDays it ds h) d"
    by (simp add: c)
  have "list_all (newDayIn True h0 (setDays it ds h)) ds"
    using A by (simp add: c list_all_iff)
  then show "newItineraryIn True h0 (setDays it ds h) it"
    using r e by (simp add: newItineraryIn_def) (simp add: setDays_def)
qed

lemma addActivity_new:
  assumes P: "preserved h0 h" and N: "newItineraryIn True h0 h it"
  shows "preserved h0 (addActivity it n act h)
         \<and> newItineraryIn False h0 (addActivity it n act h) it"
proof (cases "findDay h it n")
  case (Some day)
  have D: "newDayIn True h0 h day"
    using newItineraryIn_days[OF N findDay_in[OF Some]] .
  have A: "list_all (\<lambda>a. length (activityObjs h0) \<le> a)
      (if False then activitiesOf h day @ [act] else butlast (activitiesOf h day @ [act]))"
    using D by (simp add: newDayIn_def)
  show ?thesis
    using setActivities_itinerary[OF P N D A] Some by (simp add: addActivity_def)
next
  case None
  let ?arr = "length (activityArrays h)"
  let ?day = "length (dayObjs h)"
  let ?h2 = "h\<lparr>activityArrays := activityArrays h @ [[]],
               dayObjs := dayObjs h @ [\<lparr>d_day_number = n, d_date = None, d_activities = ?arr\<rparr>]\<rparr>"
  let ?h3 = "setDays it (daysOf ?h2 it @ [?day]) ?h2"
  let ?h4 = "setDays it (sort_key (\<lambda>d. d_day_number (dayObjs ?h3 ! d)) (daysOf ?h3 it)) ?h3"
  have e: "addActivity it n act h = setActivities ?day (activitiesOf ?h4 ?day @ [act]) ?h4"
    using None by (simp add: addActivity_def newActivityArray_def newDay_def Let_def)
  have 2: "preserved h ?h2" by (simp add: preserved_def)
  have P2: "preserved h0 ?h2" using preserved_trans[OF P 2] .
  have N2: "newItineraryIn True h0 ?h2 it" using newItineraryIn_mono[OF N 2] .
  have D2: "newDayIn True h0 ?h2 ?day"
    using preserved_lengths(3,4)[OF P] by (simp add: newDayIn_def activitiesOf_def)
  have A3: "list_all (newDayIn True h0 ?h2) (daysOf ?h2 it @ [?day])"
    using N2 D2 by (simp add: newItineraryIn_def)
  note s3 = setDays_new[OF P2 N2 A3]
  have A4: "list_all (newDayIn True h0 ?h3)
      (sort_key (\<lambda>d. d_day_number (dayObjs ?h3 ! d)) (daysOf ?h3 it))"
    using s3(2) by (simp add: newItineraryIn_def list_all_iff)
  note s4 = setDays_new[OF s3(1) s3(2) A4]
  have D4: "newDayIn True h0 ?h4 ?day"
    by (rule s4(4)[OF s3(4)[OF D2]])
  have A5: "list_all (\<lambda>a. length (activityObjs h0) \<le> a)
      (if False then activitiesOf ?h4 ?day @ [act] else butlast (activitiesOf ?h4 ?day @ [act]))"
    using D4 by (simp add: newDayIn_def)
  show ?thesis
    unfolding e by (rule setActivities_itinerary[OF s4(1) s4(2) D4 A5])
qed

lemma applyAction_new:
  assumes P: "preserved h0 h" and N: "newItineraryIn True h0 h it"
  shows "preserved h0 (applyAction it action n act h)
         \<and> newItineraryIn False h0 (applyAction it action n act h) it"
  using P N newItineraryIn_weaken[OF N, of False]
    addActivity_new[OF P N] clearDay_new[OF P N] removeActivity_new[OF P N]
    updateActivity_new[OF P N] newItineraryIn_weaken[of h0 _ it False]
  by (simp add: applyAction_def)

text \<open>The recalculation writes travel times, and only into activities that are not last.\<close>

lemma recalculateActivities_frame:
  "itineraryObjs (recalculateActivities D as h) = itineraryObjs h
   \<and> dayArrays (recalculateActivities D as h) = dayArrays h
   \<and> dayObjs (recalculateActivities D as h) = dayObjs h
   \<and> activityArrays (recalculateActivities D as h) = activityArrays h"
  by (induction D as h rule: recalculateActivities.induct) (simp_all add: Let_def)

lemma recalculateActivities_preserved:
  "preserved h0 h \<Longrightarrow> list_all (\<lambda>a. length (activityObjs h0) \<le> a) (butlast as)
     \<Longrightarrow> preserved h0 (recalculateActivities D as h)"
proof (induction D as h rule: recalculateActivities.induct)
  case (1 D current nxt rest h)
  let ?h1 = "(let c = activityObjs h ! current; n = activityObjs h ! nxt
        in if truthy_num (a_lat c) \<and> truthy_num (a_lon c) \<and> truthy_num (a_lat n) \<and> truthy_num (a_lon n)
           then h\<lparr>activityObjs := (activityObjs h)
                    [current := c\<lparr>a_travel_time_to_next :=
                       Some (estimateTravelTime
                               (D (the (a_lat c)) (the (a_lon c)) (the (a_lat n)) (the (a_lon n))))\<rparr>]\<rparr>
           else h)"
  have c: "length (activityObjs h0) \<le> current" using "1.prems"(2) by simp
  have p: "preserved h0 ?h1"
    using "1.prems"(1) c by (simp add: Let_def preserved_def startsWith_update)
  have r: "list_all (\<lambda>a. length (activityObjs h0) \<le> a) (butlast (nxt # rest))"
    using "1.prems"(2) by simp
  show ?case
    using "1.IH"[OF p r] by simp
qed simp_all

lemma newDayIn_structure:
  "dayObjs h' = dayObjs h \<Longrightarrow> activityArrays h' = activityArrays h
     \<Longrightarrow> newDayIn strict h0 h' d = newDayIn strict h0 h d"
  by (simp add: newDayIn_def activitiesOf_def)

lemma recalculateDays_preserved:
  "preserved h0 h \<Longrightarrow> list_all (newDayIn False h0 h) ds
     \<Longrightarrow> preserved h0 (recalculateDays D ds h)"
proof (induction ds arbitrary: h)
  case Nil
  then show ?case by simp
next
  case (Cons d ds)
  let ?h1 = "recalculateActivities D (activitiesOf h d) h"
  have b: "list_all (\<lambda>a. length (activityObjs h0) \<le> a) (butlast (activitiesOf h d))"
    using Cons.prems(2) by (simp add: newDayIn_def)
  have p: "preserved h0 ?h1"
    by (rule recalculateActivities_preserved[OF Cons.prems(1) b])
  have "newDayIn False h0 ?h1 d' = newDayIn False h0 h d'" for d'
    by (rule newDayIn_structure) (simp_all add: recalculateActivities_frame)
  then have r: "list_all (newDayIn False h0 ?h1) ds"
    using Cons.prems(2) by (simp add: list_all_iff)
  show ?case
    using Cons.IH[OF p r] by simp
qed

lemma updateItinerary_preserved:
  "preserved h (snd (updateItinerary D it action n act h))
   \<and> length (itineraryObjs h) \<le> fst (updateItinerary D it action n act h)"
proof -
  obtain updated h1 where p: "parseItinerary (stringifyItinerary h it) h = (updated, h1)"
    by (cases "parseItinerary (stringifyItinerary h it) h")
  have P1: "preserved h h1" and N1: "newItineraryIn True h h1 updated"
    using parseItinerary_new[OF preserved_refl, of h "stringifyItinerary h it"] p by simp_all
  let ?h2 = "applyAction updated action n act h1"
  have P2: "preserved h ?h2" and N2: "newItineraryIn False h ?h2 updated"
    using applyAction_new[OF P1 N1] by simp_all
  have "preserved h (recalculateDays D (daysOf ?h2 updated) ?h2)"
    using recalculateDays_preserved[OF P2] N2 by (simp add: newItineraryIn_def)
  moreover have "length (itineraryObjs h) \<le> updated"
    using N1 by (simp add: newItineraryIn_def)
  ultimately show ?thesis
    using p by (simp add: updateItinerary_def Let_def)
qed

text \<open>An itinerary that can be read reads the same in every heap that preserves it.\<close>

lemma stringifyDay_preserved:
  assumes "preserved h h'" and "validDay h d"
  shows "stringifyDay h' d = stringifyDay h d"
proof -
  have d: "d < length (dayObjs h)" and a: "d_activities (dayObjs h ! d) < length (activityArrays h)"
    and l: "list_all (\<lambda>a. a < length (activityObjs h)) (activitiesOf h d)"
    using assms(2) by (simp_all add: validDay_def)
  have 1: "dayObjs h' ! d = dayObjs h ! d" using preserved_nth(3)[OF assms(1) d] .
  have 2: "activityArrays h' ! d_activities (dayObjs h ! d) = activityArrays h ! d_activities (dayObjs h ! d)"
    using preserved_nth(4)[OF assms(1) a] .
  have "map (\<lambda>a. activityObjs h' ! a) (activitiesOf h d) = map (\<lambda>a. activityObjs h ! a) (activitiesOf h d)"
    using l preserved_nth(5)[OF assms(1)] by (simp add: list_all_iff)
  then show ?thesis
    using 1 2 by (simp add: stringifyDay_def activitiesOf_def Let_def)
qed

lemma stringifyItinerary_preserved:
  assumes "preserved h h'" and "validItinerary h it"
  shows "stringifyItinerary h' it = stringifyItinerary h it"
proof -
  have r: "it < length (itineraryObjs h)" "it_days (itineraryObjs h ! it) < length (dayArrays h)"
    and l: "list_all (validDay h) (daysOf h it)"
    using assms(2) by (simp_all add: validItinerary_def)
  have "map (stringifyDay h') (daysOf h it) = map (stringifyDay h) (daysOf h it)"
    using l stringifyDay_preserved[OF assms(1)] by (simp add: list_all_iff)
  then show ?thesis
    using daysOf_preserved[OF assms(1) r]
    by (simp add: stringifyItinerary_def daysOf_def Let_def)
qed

lemma tripHeap_valid: "validItinerary tripHeap 0"
  by (simp add: validItinerary_def validDay_def tripHeap_def daysOf_def activitiesOf_def)

lemma trip_update:
  "updateItinerary flat 0 ''add_activity'' (Some 1) (Some 0) tripHeap =
     (1, \<lparr>itineraryObjs = [\<lparr>it_name = Some ''Pink City Adventure'', it_destination = ''Jaipur'',
                             it_days = 0, it_sources = []\<rparr>,
                           \<lparr>it_name = Some ''Pink City Adventure'', it_destination = ''Jaipur'',
                             it_days = 1, it_sources = []\<rparr>],
          dayArrays = [[0], [1]],
          dayObjs = [\<lparr>d_day_number = 1, d_date = None, d_activities = 0\<rparr>,
                     \<lparr>d_day_number = 1, d_date = None, d_activities = 1\<rparr>],
          activityArrays = [[0, 1], [2, 3, 0]],
          activityObjs = [place ''Amber Fort'' 27 76, place ''City Palace'' 26 75,
                          (place ''Amber Fort'' 27 76)\<lparr>a_travel_time_to_next := Some 35\<rparr>,
                          (place ''City Palace'' 26 75)\<lparr>a_travel_time_to_next := Some 35\<rparr>]\<rparr>)"
  by (simp add: updateItinerary_def stringifyItinerary_def stringifyDay_def parseItinerary_def
        parseDay_def newActivities_def newActivityArray_def newDay_def newDayArray_def
        newItinerary_def applyAction_def addActivity_def findDay_def daysOf_def activitiesOf_def
        setActivities_def truthy_num_def estimateTravelTime_def flat_def tripHeap_def place_def
        Let_def upt_rec)

text \<open>
  C10. An update never writes to anything that existed before the call: every itinerary,
  day, activity and array of the heap before the call is in the heap after it, at the same
  address and with the same contents, whatever the action string, the day number and the
  activity are. The itinerary returned is a new object. So an itinerary that could be read
  before the call (name, destination, days and their activities) reads exactly the same
  after it.
\<close>

theorem input_itinerary_untouched:
  "preserved h (snd (updateItinerary calculateDistance itinerary action dayNumber activity h))
   \<and> length (itineraryObjs h)
       \<le> fst (updateItinerary calculateDistance itinerary action dayNumber activity h)
   \<and> (validItinerary h itinerary \<longrightarrow>
        stringifyItinerary (snd (updateItinerary calculateDistance itinerary action dayNumber activity h))
          itinerary
        = stringifyItinerary h itinerary)"
  using updateItinerary_preserved[of h calculateDistance itinerary action dayNumber activity]
    stringifyItinerary_preserved[of h _ itinerary]
  by blast

theorem input_itinerary_untouched_witness:
  "validItinerary tripHeap 0
   \<and> stringifyItinerary (snd (updateItinerary flat 0 ''add_activity'' (Some 1) (Some 0) tripHeap)) 0
       = stringifyItinerary tripHeap 0
   \<and> map (map a_travel_time_to_next \<circ> dv_activities)
         (iv_days (stringifyItinerary
            (snd (updateItinerary flat 0 ''add_activity'' (Some 1) (Some 0) tripHeap)) 0))
       = [[None, None]]
   \<and> map (map a_travel_time_to_next \<circ> dv_activities)
         (iv_days (stringifyItinerary
            (snd (updateItinerary flat 0 ''add_activity'' (Some 1) (Some 0) tripHeap))
            (fst (updateItinerary flat 0 ''add_activity'' (Some 1) (Some 0) tripHeap))))
       = [[Some 35, Some 35, None]]"
proof -
  have v: "validItinerary tripHeap 0" by (rule tripHeap_valid)
  have e: "stringifyItinerary (snd (updateItinerary flat 0 ''add_activity'' (Some 1) (Some 0) tripHeap)) 0
       = stringifyItinerary tripHeap 0"
    using v input_itinerary_untouched[of tripHeap flat 0 "''add_activity''" "Some 1" "Some 0"]
    by blast
  have o: "map (map a_travel_time_to_next \<circ> dv_activities) (iv_days (stringifyItinerary tripHeap 0))
      = [[None, None]]"
    by (simp add: stringifyItinerary_def stringifyDay_def tripHeap_def place_def)
  have n: "map (map a_travel_time_to_next \<circ> dv_activities)
         (iv_days (stringifyItinerary
            (snd (updateItinerary flat 0 ''add_activity'' (Some 1) (Some 0) tripHeap))
            (fst (updateItinerary flat 0 ''add_activity'' (Some 1) (Some 0) tripHeap))))
       = [[Some 35, Some 35, None]]"
    by (simp add: trip_update stringifyItinerary_def stringifyDay_def place_def)
  show ?thesis using v e o n by simp
qed

end
